(* ===== verification/Prelude.thy ===== *)
theory Prelude
  imports Main "HOL-Library.Word"
begin

text \<open>
  Shared vocabulary of the development: the types that name the model's values
  (bytes, the MAC primitive, the process environment, HTTP header lists), the
  collection of rewrite rules that evaluate concrete requests, and the generic list
  lemmas the component proofs share (unique decomposition of a concatenation at a
  guard character, which is what makes the signed payload unambiguous).
\<close>

unbundle bit_operations_syntax

named_theorems wire_simps
  "definitions unfolded when a concrete request is evaluated end to end"

named_theorems js_eval
  "rewrite rules that evaluate concrete characters, digits and strings"

type_synonym byte = "8 word"

text \<open>
  \<open>crypto.createHmac(''sha256'', key).update(msg).digest()\<close>: the keyed MAC
  applied to a key and a message, returning the raw digest bytes. Node's crypto
  library is not part of the repository; the development is parametric in it.
\<close>
type_synonym mac = "string \<Rightarrow> string \<Rightarrow> byte list"

text \<open>\<open>process.env\<close>: a variable is either unset or holds a string.\<close>
type_synonym env = "string \<Rightarrow> string option"

text \<open>A header object, in insertion order, as a list of name/value pairs.\<close>
type_synonym headers = "(string \<times> string) list"

text \<open>\<open>Array.prototype.join(sep)\<close> on a list of strings.\<close>
fun join_with :: "string \<Rightarrow> string list \<Rightarrow> string" where
  "join_with sep [] = []"
| "join_with sep [x] = x"
| "join_with sep (x # y # xs) = x @ sep @ join_with sep (y # xs)"

subsection \<open>Evaluating characters\<close>

lemma eq_char_of_iff: "(c = char_of (n :: nat)) \<longleftrightarrow> take_bit 8 n = of_char c"
  by (subst eq_commute) (rule char_of_eq_iff)

declare char_of_eq_iff [js_eval] eq_char_of_iff [js_eval]

subsection \<open>Splitting a concatenation at a guard\<close>

lemma takeWhile_append_guard:
  assumes "\<forall>x\<in>set xs. P x" and "ys = [] \<or> \<not> P (hd ys)"
  shows "takeWhile P (xs @ ys) = xs"
proof -
  have "takeWhile P ys = []"
    using assms(2) by (cases ys) auto
  with assms(1) show ?thesis by (simp add: takeWhile_append2)
qed

lemma append_eq_by_guard:
  assumes "\<forall>x\<in>set xs1. P x" and "\<forall>x\<in>set xs2. P x"
    and "ys1 = [] \<or> \<not> P (hd ys1)" and "ys2 = [] \<or> \<not> P (hd ys2)"
    and eq: "xs1 @ ys1 = xs2 @ ys2"
  shows "xs1 = xs2 \<and> ys1 = ys2"
proof -
  have "xs1 = takeWhile P (xs1 @ ys1)"
    using takeWhile_append_guard [OF assms(1,3)] by simp
  also have "\<dots> = takeWhile P (xs2 @ ys2)" by (simp only: eq)
  also have "\<dots> = xs2"
    using takeWhile_append_guard [OF assms(2,4)] by simp
  finally have "xs1 = xs2" .
  with eq show ?thesis by simp
qed

text \<open>The same decomposition read from the right end of the list.\<close>

lemma append_eq_by_guard_rev:
  assumes "\<forall>x\<in>set ys1. P x" and "\<forall>x\<in>set ys2. P x"
    and "xs1 = [] \<or> \<not> P (last xs1)" and "xs2 = [] \<or> \<not> P (last xs2)"
    and eq: "xs1 @ ys1 = xs2 @ ys2"
  shows "xs1 = xs2 \<and> ys1 = ys2"
proof -
  have "rev ys1 @ rev xs1 = rev ys2 @ rev xs2"
    using eq by (metis rev_append)
  moreover have "rev xs1 = [] \<or> \<not> P (hd (rev xs1))"
    using assms(3) by (simp add: hd_rev)
  moreover have "rev xs2 = [] \<or> \<not> P (hd (rev xs2))"
    using assms(4) by (simp add: hd_rev)
  ultimately have "rev ys1 = rev ys2 \<and> rev xs1 = rev xs2"
    using assms(1,2) by (intro append_eq_by_guard [where P = P]) auto
  then show ?thesis by simp
qed

end
