(* ===== verification/Hex.thy ===== *)
theory Hex
  imports Prelude
begin

text \<open>
  \<open>.digest(''hex'')\<close> (src/utils/auth.utils.ts, src/services/bitmex.service.ts):
  each digest byte becomes two lowercase hexadecimal digits, high nibble first. The
  decoder is what a verifier comparing signatures reads them back with; the round
  trip makes the hex form of a digest determine the digest.
\<close>

definition hex_digit :: "byte \<Rightarrow> char" where
  "hex_digit n = (if n < 10 then char_of (48 + unat n) else char_of (87 + unat n))"

definition hex_byte :: "byte \<Rightarrow> string" where
  "hex_byte b = [hex_digit (drop_bit 4 b), hex_digit (b AND 15)]"

definition hex_encode :: "byte list \<Rightarrow> string" where
  "hex_encode bs = concat (map hex_byte bs)"

definition hex_val :: "char \<Rightarrow> byte option" where
  "hex_val c = (let k = (of_char c :: nat) in
                if 48 \<le> k \<and> k \<le> 57 then Some (of_nat (k - 48))
                else if 97 \<le> k \<and> k \<le> 102 then Some (of_nat (k - 87)) else None)"

fun hex_decode :: "string \<Rightarrow> byte list option" where
  "hex_decode [] = Some []"
| "hex_decode [c] = None"
| "hex_decode (c1 # c2 # cs) =
     (case (hex_val c1, hex_val c2, hex_decode cs) of
        (Some h, Some l, Some bs) \<Rightarrow> Some ((push_bit 4 h OR l) # bs)
      | _ \<Rightarrow> None)"

text \<open>The characters \<open>0\<close>--\<open>9\<close> and \<open>a\<close>--\<open>f\<close>.\<close>
definition is_lower_hex :: "char \<Rightarrow> bool" where
  "is_lower_hex c \<longleftrightarrow> (let k = (of_char c :: nat) in 48 \<le> k \<and> k \<le> 57 \<or> 97 \<le> k \<and> k \<le> 102)"

subsection \<open>Nibbles\<close>

lemma unat_drop_bit_4: "unat (drop_bit 4 (b :: byte)) < 16"
proof -
  have "unat (drop_bit 4 b) = unat b div 16"
    by (simp only: unat_drop_bit_eq) (simp add: drop_bit_eq_div)
  also have "\<dots> < 16" using unsigned_less [of b, where ?'a = nat] by simp
  finally show ?thesis .
qed

lemma unat_and_15: "unat ((b :: byte) AND 15) < 16"
proof -
  have "unat (b AND 15) \<le> unat (15 :: byte)"
    by (rule word_and_le1 [THEN word_le_nat_alt [THEN iffD1]])
  then show ?thesis by simp
qed

lemma hex_val_hex_digit:
  assumes "unat n < 16"
  shows "hex_val (hex_digit n) = Some n"
proof (cases "n < 10")
  case True
  then have "unat n < 10" by (simp add: word_less_nat_alt)
  then show ?thesis using True by (simp add: hex_digit_def hex_val_def)
next
  case False
  then have "10 \<le> unat n" by (simp add: word_less_nat_alt)
  then show ?thesis using False assms by (simp add: hex_digit_def hex_val_def)
qed

lemma byte_15_mask: "(15 :: byte) = mask 4"
  by (simp add: mask_eq_exp_minus_1)

lemma nibbles_recombine: "push_bit 4 (drop_bit 4 b) OR (b AND 15) = (b :: byte)"
proof (rule bit_word_eqI)
  fix n assume "n < LENGTH(8)"
  show "bit (push_bit 4 (drop_bit 4 b) OR (b AND 15)) n = bit b n"
    using \<open>n < LENGTH(8)\<close> by (cases "n < 4") (auto simp: bit_simps byte_15_mask)
qed

lemma hex_decode_hex_byte: "hex_decode (hex_byte b @ cs) = map_option (Cons b) (hex_decode cs)"
  by (simp add: hex_byte_def hex_val_hex_digit unat_drop_bit_4 unat_and_15 nibbles_recombine
      split: option.split)

theorem hex_decode_hex_encode: "hex_decode (hex_encode bs) = Some bs"
  by (induction bs) (simp_all add: hex_encode_def hex_decode_hex_byte)

lemma hex_encode_inj: "hex_encode a = hex_encode b \<Longrightarrow> a = b"
  by (metis hex_decode_hex_encode option.inject)

lemma length_hex_encode: "length (hex_encode bs) = 2 * length bs"
  by (induction bs) (simp_all add: hex_encode_def hex_byte_def)

lemma is_lower_hex_hex_digit: "unat n < 16 \<Longrightarrow> is_lower_hex (hex_digit n)"
  by (auto simp: hex_digit_def is_lower_hex_def word_less_nat_alt)

lemma hex_encode_lower_hex: "\<forall>c\<in>set (hex_encode bs). is_lower_hex c"
  by (auto simp: hex_encode_def hex_byte_def is_lower_hex_hex_digit unat_drop_bit_4 unat_and_15)

end
