(* ===== verification/JsString.thy ===== *)
theory JsString
  imports Prelude
begin

text \<open>
  The JavaScript primitives on strings and numbers that the sources rely on:
  \<open>String(n)\<close> / \<open>n.toString()\<close> of an integral number (used by the string
  concatenation \<open>verb + path + expires + data\<close> and by the header
  \<open>expires.toString()\<close>), its inverse (how the exchange reads the decimal
  \<open>api-expires\<close> header back), \<open>String.prototype.trim\<close>,
  \<open>String.prototype.toUpperCase\<close> on ASCII, the \<open>||\<close> default on an environment
  variable, and \<open>Math.round\<close> / \<open>Math.floor\<close> of a millisecond clock divided by
  1000. Characters are modelled as 8-bit code units.
\<close>

subsection \<open>Decimal printing of integral numbers\<close>

definition digit_char :: "nat \<Rightarrow> char" where
  "digit_char d = char_of (48 + d)"

definition is_digit :: "char \<Rightarrow> bool" where
  "is_digit c \<longleftrightarrow> (48::nat) \<le> of_char c \<and> of_char c \<le> (57::nat)"

fun nat_str :: "nat \<Rightarrow> string" where
  "nat_str n = (if n < 10 then [digit_char n] else nat_str (n div 10) @ [digit_char (n mod 10)])"

declare nat_str.simps [simp del]

text \<open>
  \<open>Number.prototype.toString()\<close> for an integral value below \<open>10\<^sup>2\<^sup>1\<close>: an
  optional minus sign and the decimal digits, no padding, no grouping.
\<close>
definition js_int_str :: "int \<Rightarrow> string" where
  "js_int_str i = (if i < 0 then CHR ''-'' # nat_str (nat (- i)) else nat_str (nat i))"

subsection \<open>Reading a decimal string back\<close>

definition digit_val :: "char \<Rightarrow> nat" where
  "digit_val c = of_char c - 48"

definition parse_nat :: "string \<Rightarrow> nat option" where
  "parse_nat s = (if s \<noteq> [] \<and> list_all is_digit s
                  then Some (foldl (\<lambda>n c. 10 * n + digit_val c) 0 s) else None)"

definition parse_int :: "string \<Rightarrow> int option" where
  "parse_int s = (case s of
       c # ds \<Rightarrow> if c = CHR ''-'' then map_option (\<lambda>n. - int n) (parse_nat ds)
                 else map_option int (parse_nat s)
     | [] \<Rightarrow> None)"

subsection \<open>trim, toUpperCase, the \<open>||\<close> default\<close>

text \<open>
  The white space \<open>String.prototype.trim\<close> removes, restricted to code units
  below 256: TAB, LF, VT, FF, CR, SPACE and NO-BREAK SPACE.
\<close>
definition js_whitespace :: "char \<Rightarrow> bool" where
  "js_whitespace c \<longleftrightarrow> of_char c \<in> {9, 10, 11, 12, 13, 32, 160 :: nat}"

definition js_trim :: "string \<Rightarrow> string" where
  "js_trim s = rev (dropWhile js_whitespace (rev (dropWhile js_whitespace s)))"

definition ascii_upper :: "char \<Rightarrow> char" where
  "ascii_upper c =
     (if (97::nat) \<le> of_char c \<and> of_char c \<le> (122::nat) then char_of (of_char c - (32::nat)) else c)"

definition js_to_upper :: "string \<Rightarrow> string" where
  "js_to_upper s = map ascii_upper s"

text \<open>\<open>process.env.X || d\<close>: an unset or empty variable gives the default.\<close>
definition env_or :: "env \<Rightarrow> string \<Rightarrow> string \<Rightarrow> string" where
  "env_or e k d = (case e k of Some v \<Rightarrow> if v = [] then d else v | None \<Rightarrow> d)"

subsection \<open>Seconds from the millisecond clock\<close>

text \<open>\<open>Math.round(t / 1000)\<close> for an integral \<open>t\<close>: halves round up.\<close>
definition round_ms_to_s :: "int \<Rightarrow> int" where
  "round_ms_to_s t = (t + 500) div 1000"

text \<open>\<open>Math.floor(t / 1000)\<close>.\<close>
definition floor_ms_to_s :: "int \<Rightarrow> int" where
  "floor_ms_to_s t = t div 1000"

subsection \<open>Digits\<close>

lemma of_char_digit_char [simp]: "d < 10 \<Longrightarrow> of_char (digit_char d) = 48 + d"
  by (simp add: digit_char_def)

lemma is_digit_digit_char [simp]: "d < 10 \<Longrightarrow> is_digit (digit_char d)"
  by (simp add: is_digit_def)

lemma digit_val_digit_char [simp]: "d < 10 \<Longrightarrow> digit_val (digit_char d) = d"
  by (simp add: digit_val_def)

lemma digit_char_not_minus [simp]: "d < 10 \<Longrightarrow> digit_char d \<noteq> CHR ''-''"
proof
  assume "d < 10" and "digit_char d = CHR ''-''"
  then have "of_char (digit_char d) = (of_char (CHR ''-'') :: nat)" by simp
  with \<open>d < 10\<close> show False by simp
qed

lemma nat_str_not_Nil [simp]: "nat_str n \<noteq> []"
  by (subst nat_str.simps) simp

lemma nat_str_digits: "list_all is_digit (nat_str n)"
proof (induction n rule: nat_str.induct)
  case (1 n)
  then show ?case by (subst nat_str.simps) simp
qed

lemma foldl_digits_nat_str: "foldl (\<lambda>n c. 10 * n + digit_val c) 0 (nat_str n) = n"
proof (induction n rule: nat_str.induct)
  case (1 n)
  show ?case
  proof (cases "n < 10")
    case True
    then show ?thesis by (subst nat_str.simps) simp
  next
    case False
    with "1.IH" show ?thesis by (subst nat_str.simps) simp
  qed
qed

lemma parse_nat_nat_str [simp]: "parse_nat (nat_str n) = Some n"
  by (simp add: parse_nat_def nat_str_digits foldl_digits_nat_str)

lemma hd_nat_str_not_minus: "hd (nat_str n) \<noteq> CHR ''-''"
  using nat_str_digits [of n] nat_str_not_Nil [of n]
  by (cases "nat_str n") (auto simp: is_digit_def)

lemma parse_int_js_int_str [simp]: "parse_int (js_int_str i) = Some i"
proof (cases "i < 0")
  case True
  then show ?thesis by (simp add: js_int_str_def parse_int_def)
next
  case False
  then obtain c cs where "nat_str (nat i) = c # cs"
    by (cases "nat_str (nat i)") auto
  moreover have "c \<noteq> CHR ''-''"
    using hd_nat_str_not_minus [of "nat i"] calculation by simp
  ultimately show ?thesis
    using False parse_nat_nat_str [of "nat i"] by (simp add: js_int_str_def parse_int_def)
qed

lemma js_int_str_inj: "js_int_str a = js_int_str b \<Longrightarrow> a = b"
  by (metis option.inject parse_int_js_int_str)

lemma js_int_str_nonneg_digits:
  "0 \<le> i \<Longrightarrow> js_int_str i \<noteq> [] \<and> (\<forall>c\<in>set (js_int_str i). is_digit c)"
  using nat_str_digits [of "nat i"] by (simp add: js_int_str_def list_all_iff)

lemma js_to_upper_get: "js_to_upper ''get'' = ''GET''"
  by (simp add: js_to_upper_def ascii_upper_def js_eval)

lemma dropWhile_hd_not: "dropWhile P xs = [] \<or> \<not> P (hd (dropWhile P xs))"
  by (induction xs) auto

lemma js_trim_bounds:
  "js_trim s = [] \<or> (\<not> js_whitespace (hd (js_trim s)) \<and> \<not> js_whitespace (last (js_trim s)))"
proof -
  let ?a = "dropWhile js_whitespace s"
  let ?b = "dropWhile js_whitespace (rev ?a)"
  have last: "?b = [] \<or> \<not> js_whitespace (hd ?b)" by (rule dropWhile_hd_not)
  have "?b = [] \<or> \<not> js_whitespace (hd (rev ?b))"
  proof (cases "?b = []")
    case False
    have "dropWhile js_whitespace (rev ?a) = ?b" by simp
    then obtain p where "rev ?a = p @ ?b" by (metis takeWhile_dropWhile_id)
    then have "?a = rev ?b @ rev p" by (metis rev_append rev_rev_ident)
    moreover have "?a = [] \<or> \<not> js_whitespace (hd ?a)" by (rule dropWhile_hd_not)
    ultimately show ?thesis using False by (cases "rev ?b") auto
  qed simp
  then show ?thesis using last by (auto simp: js_trim_def hd_rev last_rev)
qed

lemma dropWhile_id: "xs = [] \<or> \<not> P (hd xs) \<Longrightarrow> dropWhile P xs = xs"
  by (cases xs) auto

lemma js_trim_idem: "js_trim (js_trim s) = js_trim s"
proof -
  have b: "js_trim s = [] \<or> (\<not> js_whitespace (hd (js_trim s)) \<and> \<not> js_whitespace (last (js_trim s)))"
    by (rule js_trim_bounds)
  have "dropWhile js_whitespace (js_trim s) = js_trim s"
    using b by (auto intro: dropWhile_id)
  moreover have "dropWhile js_whitespace (rev (js_trim s)) = rev (js_trim s)"
    using b by (auto intro!: dropWhile_id simp: hd_rev)
  ultimately show ?thesis by (simp add: js_trim_def [of "js_trim s"])
qed

text \<open>Writing a digit in front of a decimal adds that digit times a power of ten.\<close>

lemma nat_str_prepend_digit:
  assumes d: "1 \<le> d" "d \<le> 9"
  shows "nat_str (d * 10 ^ length (nat_str n) + n) = digit_char d # nat_str n"
proof (induction n rule: nat_str.induct)
  case (1 n)
  show ?case
  proof (cases "n < 10")
    case True
    then have n: "nat_str n = [digit_char n]" by (simp add: nat_str.simps)
    have "(d * 10 + n) div 10 = d" "(d * 10 + n) mod 10 = n" using True by simp_all
    moreover have "\<not> d * 10 + n < 10" using d by simp
    ultimately have "nat_str (d * 10 + n) = nat_str d @ [digit_char n]"
      by (simp add: nat_str.simps [of "d * 10 + n"])
    also have "nat_str d = [digit_char d]" using d by (simp add: nat_str.simps)
    finally show ?thesis using n by simp
  next
    case False
    let ?k = "length (nat_str (n div 10))"
    have n: "nat_str n = nat_str (n div 10) @ [digit_char (n mod 10)]"
      using False by (simp add: nat_str.simps [of n])
    have eq: "d * 10 ^ Suc ?k + n = n mod 10 + 10 * (d * 10 ^ ?k + n div 10)" by simp
    have dv: "(d * 10 ^ Suc ?k + n) div 10 = d * 10 ^ ?k + n div 10"
      by (subst eq) simp
    have md: "(d * 10 ^ Suc ?k + n) mod 10 = n mod 10"
      by (subst eq) simp
    have "\<not> d * 10 ^ Suc ?k + n < 10" using False by simp
    then have "nat_str (d * 10 ^ Suc ?k + n) = nat_str (d * 10 ^ ?k + n div 10) @ [digit_char (n mod 10)]"
      using dv md by (subst nat_str.simps [of "d * 10 ^ Suc ?k + n"]) simp
    also have "\<dots> = digit_char d # nat_str (n div 10) @ [digit_char (n mod 10)]"
      using "1.IH" False by simp
    finally show ?thesis using n by simp
  qed
qed

lemma js_int_str_prepend_digit:
  assumes "1 \<le> d" "d \<le> 9" "0 \<le> e"
  shows "js_int_str (int d * 10 ^ length (js_int_str e) + e) = digit_char d # js_int_str e"
proof -
  define k where "k = length (nat_str (nat e))"
  have js: "js_int_str e = nat_str (nat e)" using assms(3) by (simp add: js_int_str_def)
  have "0 \<le> int d * 10 ^ k" by simp
  then have pos: "\<not> int d * 10 ^ k + e < 0" using assms(3) by linarith
  have "nat (int d * 10 ^ k + e) = d * 10 ^ k + nat e"
    using assms(3) by (simp add: nat_add_distrib nat_mult_distrib nat_power_eq)
  then have "js_int_str (int d * 10 ^ k + e) = nat_str (d * 10 ^ k + nat e)"
    using pos by (simp add: js_int_str_def)
  also have "\<dots> = digit_char d # nat_str (nat e)"
    unfolding k_def by (rule nat_str_prepend_digit [OF assms(1,2)])
  finally show ?thesis
    by (simp add: js k_def)
qed

end
