(* ===== verification/Auth.thy ===== *)
theory Auth
  imports Hex JsString
begin

text \<open>
  src/utils/auth.utils.ts, class \<open>AuthUtils\<close>. \<open>generateSignature\<close> signs the
  concatenation \<open>verb + path + expires + data\<close> (the number \<open>expires\<close> converted by
  \<open>String\<close>) with the MAC keyed by the secret as given (no trimming) and hex-encodes
  the digest. \<open>generateHeaders\<close> reads the clock once, sets the expiry 60 seconds
  ahead with \<open>Math.round\<close>, and returns the four headers in source order. The MAC
  is the parameter \<open>hmac\<close>; the clock is the parameter \<open>now\<close> in milliseconds
  (\<open>new Date().getTime()\<close>).
\<close>

definition signature_payload :: "string \<Rightarrow> string \<Rightarrow> int \<Rightarrow> string \<Rightarrow> string" where
  "signature_payload verb path expires data = verb @ path @ js_int_str expires @ data"

definition AuthUtils_generateSignature ::
  "mac \<Rightarrow> string \<Rightarrow> string \<Rightarrow> string \<Rightarrow> int \<Rightarrow> string \<Rightarrow> string" where
  "AuthUtils_generateSignature hmac apiSecret verb path expires data =
     hex_encode (hmac apiSecret (signature_payload verb path expires data))"

definition generateHeaders ::
  "mac \<Rightarrow> int \<Rightarrow> string \<Rightarrow> string \<Rightarrow> string \<Rightarrow> string \<Rightarrow> string \<Rightarrow> (string \<times> string) list" where
  "generateHeaders hmac now apiKey apiSecret verb path data =
     (let expires = round_ms_to_s now + 60;
          signature = AuthUtils_generateSignature hmac apiSecret verb path expires data
      in [(''api-expires'', js_int_str expires),
          (''api-key'', apiKey),
          (''api-signature'', signature),
          (''Content-Type'', ''application/json'')])"

subsection \<open>Shapes of the payload's parts\<close>

text \<open>
  A verb has no slash; a path starts with a slash, contains no opening brace or
  bracket and does not end in a digit (every path of \<open>ENDPOINTS\<close> and every
  \<open>/api/v1\<close>-prefixed one); a body is empty or a serialised JSON object or array.
\<close>

definition verb_ok :: "string \<Rightarrow> bool" where
  "verb_ok v \<longleftrightarrow> CHR ''/'' \<notin> set v"

definition path_ok :: "string \<Rightarrow> bool" where
  "path_ok p \<longleftrightarrow> p \<noteq> [] \<and> hd p = CHR ''/'' \<and> CHR ''{'' \<notin> set p \<and> CHR ''['' \<notin> set p
                  \<and> \<not> is_digit (last p)"

definition body_ok :: "string \<Rightarrow> bool" where
  "body_ok d \<longleftrightarrow> d = [] \<or> hd d = CHR ''{'' \<or> hd d = CHR ''[''"

lemma is_digit_not_delim:
  "is_digit c \<Longrightarrow> c \<noteq> CHR ''/'' \<and> c \<noteq> CHR ''{'' \<and> c \<noteq> CHR ''[''"
  by (auto simp: is_digit_def)

lemma payload_verb_split:
  assumes "verb_ok v1" "verb_ok v2" "path_ok p1" "path_ok p2"
    and "v1 @ p1 @ r1 = v2 @ p2 @ r2"
  shows "v1 = v2 \<and> p1 @ r1 = p2 @ r2"
proof (rule append_eq_by_guard [where P = "\<lambda>c. c \<noteq> CHR ''/''"])
  show "\<forall>x\<in>set v1. x \<noteq> CHR ''/''" "\<forall>x\<in>set v2. x \<noteq> CHR ''/''"
    using assms(1,2) by (auto simp: verb_ok_def)
  show "p1 @ r1 = [] \<or> \<not> hd (p1 @ r1) \<noteq> CHR ''/''" "p2 @ r2 = [] \<or> \<not> hd (p2 @ r2) \<noteq> CHR ''/''"
    using assms(3,4) by (auto simp: path_ok_def)
qed (rule assms(5))

lemma payload_body_split:
  assumes "path_ok p1" "path_ok p2" "0 \<le> e1" "0 \<le> e2" "body_ok d1" "body_ok d2"
    and "p1 @ js_int_str e1 @ d1 = p2 @ js_int_str e2 @ d2"
  shows "p1 @ js_int_str e1 = p2 @ js_int_str e2 \<and> d1 = d2"
proof (rule append_eq_by_guard [where P = "\<lambda>c. c \<noteq> CHR ''{'' \<and> c \<noteq> CHR ''[''"])
  show "\<forall>x\<in>set (p1 @ js_int_str e1). x \<noteq> CHR ''{'' \<and> x \<noteq> CHR ''[''"
    using assms(1,3) js_int_str_nonneg_digits [of e1] is_digit_not_delim
    by (auto simp: path_ok_def)
  show "\<forall>x\<in>set (p2 @ js_int_str e2). x \<noteq> CHR ''{'' \<and> x \<noteq> CHR ''[''"
    using assms(2,4) js_int_str_nonneg_digits [of e2] is_digit_not_delim
    by (auto simp: path_ok_def)
  show "d1 = [] \<or> \<not> (hd d1 \<noteq> CHR ''{'' \<and> hd d1 \<noteq> CHR ''['')"
       "d2 = [] \<or> \<not> (hd d2 \<noteq> CHR ''{'' \<and> hd d2 \<noteq> CHR ''['')"
    using assms(5,6) by (auto simp: body_ok_def)
qed (use assms(7) in simp)

lemma payload_expires_split:
  assumes "path_ok p1" "path_ok p2" "0 \<le> e1" "0 \<le> e2"
    and "p1 @ js_int_str e1 = p2 @ js_int_str e2"
  shows "p1 = p2 \<and> e1 = e2"
proof -
  have "p1 = p2 \<and> js_int_str e1 = js_int_str e2"
  proof (rule append_eq_by_guard_rev [where P = is_digit])
    show "\<forall>x\<in>set (js_int_str e1). is_digit x" "\<forall>x\<in>set (js_int_str e2). is_digit x"
      using js_int_str_nonneg_digits assms(3,4) by blast+
    show "p1 = [] \<or> \<not> is_digit (last p1)" "p2 = [] \<or> \<not> is_digit (last p2)"
      using assms(1,2) by (auto simp: path_ok_def)
  qed (rule assms(5))
  then show ?thesis by (auto dest: js_int_str_inj)
qed

lemma expires_bounds:
  "now + 59500 < 1000 * (round_ms_to_s now + 60) \<and> 1000 * (round_ms_to_s now + 60) \<le> now + 60500"
  by (simp add: round_ms_to_s_def) linarith

lemma generateHeaders_lookup:
  "map_of (generateHeaders hmac now k s v p d) ''api-expires'' = Some (js_int_str (round_ms_to_s now + 60))"
  "map_of (generateHeaders hmac now k s v p d) ''api-signature'' =
     Some (AuthUtils_generateSignature hmac s v p (round_ms_to_s now + 60) d)"
  by (simp_all add: generateHeaders_def Let_def)

subsection \<open>Properties of the signing core\<close>

text \<open>
  C2: the signed payload determines the request. For verbs without a slash, paths of
  the endpoint shape, non-negative expiries and JSON or empty bodies, two requests
  with the same payload agree on verb, path, expiry and body; so a signature over one
  request is never a signature over another.
\<close>

theorem signature_payload_unambiguous:
  assumes "verb_ok v1" "verb_ok v2" "path_ok p1" "path_ok p2" "0 \<le> e1" "0 \<le> e2"
    and "body_ok d1" "body_ok d2"
    and eq: "signature_payload v1 p1 e1 d1 = signature_payload v2 p2 e2 d2"
  shows "v1 = v2 \<and> p1 = p2 \<and> e1 = e2 \<and> d1 = d2"
proof -
  from eq have "v1 @ p1 @ js_int_str e1 @ d1 = v2 @ p2 @ js_int_str e2 @ d2"
    by (simp add: signature_payload_def)
  with assms(1-4) have v: "v1 = v2" and r: "p1 @ js_int_str e1 @ d1 = p2 @ js_int_str e2 @ d2"
    using payload_verb_split by blast+
  from r assms(3-8) have "p1 @ js_int_str e1 = p2 @ js_int_str e2" and d: "d1 = d2"
    using payload_body_split by blast+
  with assms(3-6) have "p1 = p2 \<and> e1 = e2"
    using payload_expires_split by blast
  with v d show ?thesis by simp
qed

theorem signature_payload_unambiguous_witness:
  "verb_ok ''POST'' \<and> path_ok ''/order'' \<and> body_ok ''{}'' \<and> (0::int) \<le> 1700000000 \<and>
   (''POST'' = ''POST'' \<and> ''/order'' = ''/order'' \<and> (1700000000::int) = 1700000000 \<and> ''{}'' = ''{}'')"
proof -
  have h: "verb_ok ''POST''" "path_ok ''/order''" "body_ok ''{}''" "(0::int) \<le> 1700000000"
    by (simp_all add: verb_ok_def path_ok_def body_ok_def is_digit_def)
  have "''POST'' = ''POST'' \<and> ''/order'' = ''/order'' \<and> (1700000000::int) = 1700000000 \<and> ''{}'' = ''{}''"
    by (rule signature_payload_unambiguous [OF h(1) h(1) h(2) h(2) h(4) h(4) h(3) h(3) refl])
  with h show ?thesis by simp
qed

text \<open>
  C8: \<open>generateHeaders\<close> puts the expiry strictly after the clock: the
  \<open>api-expires\<close> header is the decimal form of \<open>e\<close> with
  \<open>now + 59.5 s < e s \<le> now + 60.5 s\<close> (60 seconds ahead, up to the rounding of
  \<open>Math.round\<close>).
\<close>

theorem generateHeaders_expires_future:
  "\<exists>e. map_of (generateHeaders hmac now k s v p d) ''api-expires'' = Some (js_int_str e)
       \<and> now < 1000 * e \<and> now + 59500 < 1000 * e \<and> 1000 * e \<le> now + 60500"
  using expires_bounds [of now] generateHeaders_lookup(1) by fastforce

text \<open>
  C21: without the shape conditions the payload is ambiguous. The parts are concatenated
  with no separator, so a path ending in a digit runs into the expiry: for any verb,
  path, body and non-negative expiry \<open>e\<close>, appending a non-zero digit \<open>d\<close> to the path
  signs the same string as keeping the path and writing \<open>d\<close> in front of \<open>e\<close>
  (\<open>/order1\<close> at 23 and \<open>/order\<close> at 123).
\<close>

theorem signature_payload_digit_path_collision:
  assumes "1 \<le> d" "d \<le> 9" "0 \<le> e"
  shows "signature_payload verb (path @ [digit_char d]) e data =
         signature_payload verb path (int d * 10 ^ length (js_int_str e) + e) data"
  using js_int_str_prepend_digit [OF assms] by (simp add: signature_payload_def)

theorem signature_payload_digit_path_collision_witness:
  "1 \<le> (1::nat) \<and> (1::nat) \<le> 9 \<and> (0::int) \<le> 23 \<and>
   signature_payload ''GET'' (''/order'' @ [digit_char 1]) 23 [] =
   signature_payload ''GET'' ''/order'' (int 1 * 10 ^ length (js_int_str 23) + 23) []"
  using signature_payload_digit_path_collision [of 1 23 "''GET''" "''/order''" "[]"] by simp

end
