(* ===== verification/Config.thy ===== *)
theory Config
  imports JsString
begin

text \<open>
  src/config/config.ts and src/constants/endpoints.ts. The configuration object is
  computed once, when the module is first loaded, from the process environment of
  that moment: \<open>getIsTestnet\<close> is false only for the exact string \<open>false\<close>.
  \<open>ENDPOINTS\<close> maps each resource to its API-relative path.
\<close>

definition getIsTestnet :: "env \<Rightarrow> bool" where
  "getIsTestnet e = (if e ''BITMEX_TESTNET'' = Some ''false'' then False else True)"

record bitmex_config =
  cred_apiKey :: string
  cred_apiSecret :: string
  url_mainnet :: string
  url_testnet :: string
  request_timeout :: nat
  request_retries :: nat
  request_rateLimit :: nat
  isTestnet :: bool

text \<open>\<open>https://host/api/v1\<close>: the shape of both base URLs.\<close>
definition api_base :: "string \<Rightarrow> string" where
  "api_base host = ''https://'' @ host @ ''/api/v1''"

definition config :: "env \<Rightarrow> bitmex_config" where
  "config e = \<lparr>cred_apiKey = env_or e ''BITMEX_API_KEY'' [],
               cred_apiSecret = env_or e ''BITMEX_API_SECRET'' [],
               url_mainnet = ''https://www.bitmex.com/api/v1'',
               url_testnet = ''https://testnet.bitmex.com/api/v1'',
               request_timeout = 10000, request_retries = 3, request_rateLimit = 30,
               isTestnet = getIsTestnet e\<rparr>"

datatype endpoint = POSITION | ORDER | INSTRUMENT | QUOTE | TRADE | USER

primrec ENDPOINTS :: "endpoint \<Rightarrow> string" where
  "ENDPOINTS POSITION = ''/position''"
| "ENDPOINTS ORDER = ''/order''"
| "ENDPOINTS INSTRUMENT = ''/instrument''"
| "ENDPOINTS QUOTE = ''/quote''"
| "ENDPOINTS TRADE = ''/trade''"
| "ENDPOINTS USER = ''/user''"

lemma config_urls:
  "url_mainnet (config e) = api_base ''www.bitmex.com''"
  "url_testnet (config e) = api_base ''testnet.bitmex.com''"
  by (simp_all add: config_def api_base_def)

lemma getIsTestnet_iff: "\<not> getIsTestnet e \<longleftrightarrow> e ''BITMEX_TESTNET'' = Some ''false''"
  by (simp add: getIsTestnet_def)

end
