(* ===== verification/JsValue.thy ===== *)
theory JsValue
  imports JsString
begin

text \<open>
  JavaScript values as the sources handle them: request payloads (\<open>orderData\<close>,
  \<open>config.data\<close>), response bodies (\<open>error.response.data\<close>) and header values.
  Numbers are integral (the client only ever builds integral numbers; fractions,
  NaN and infinities are outside the model). An object is the list of its own
  enumerable properties in insertion order. Exceptions thrown by the code are the
  values of \<open>js_exn\<close>. This theory gives truthiness (\<open>if (x)\<close>, \<open>x || y\<close>), the
  string conversion of a template literal \<open>`${x}`\<close>, and property access
  \<open>x.k\<close> / \<open>x?.k\<close> with the TypeError of an access on undefined or null.
\<close>

datatype jv =
    JUndefined
  | JNull
  | JBool bool
  | JNum int
  | JStr string
  | JArr "jv list"
  | JObj "(string \<times> jv) list"

datatype js_exn =
    TypeError string   \<comment> \<open>raised by the engine\<close>
  | Error string       \<comment> \<open>\<open>new Error(message)\<close> thrown by the code\<close>

fun js_truthy :: "jv \<Rightarrow> bool" where
  "js_truthy JUndefined = False"
| "js_truthy JNull = False"
| "js_truthy (JBool b) = b"
| "js_truthy (JNum n) = (n \<noteq> 0)"
| "js_truthy (JStr s) = (s \<noteq> [])"
| "js_truthy (JArr xs) = True"
| "js_truthy (JObj kvs) = True"

text \<open>\<open>a || b\<close>\<close>
definition js_or :: "jv \<Rightarrow> jv \<Rightarrow> jv" where
  "js_or a b = (if js_truthy a then a else b)"

definition js_nullish :: "jv \<Rightarrow> bool" where
  "js_nullish v \<longleftrightarrow> v = JUndefined \<or> v = JNull"

text \<open>\<open>String(x)\<close>, as a template literal \<open>`${x}`\<close> converts its argument.\<close>
fun js_to_string :: "jv \<Rightarrow> string" where
  "js_to_string JUndefined = ''undefined''"
| "js_to_string JNull = ''null''"
| "js_to_string (JBool b) = (if b then ''true'' else ''false'')"
| "js_to_string (JNum n) = js_int_str n"
| "js_to_string (JStr s) = s"
| "js_to_string (JArr xs) =
     join_with '','' (map (\<lambda>x. if js_nullish x then [] else js_to_string x) xs)"
| "js_to_string (JObj kvs) = ''[object Object]''"

definition quoted :: "string \<Rightarrow> string" where
  "quoted k = CHR 0x27 # k @ [CHR 0x27]"

text \<open>V8's message for reading property \<open>k\<close> of undefined.\<close>
definition undefined_read :: "string \<Rightarrow> js_exn" where
  "undefined_read k = TypeError (''Cannot read properties of undefined (reading '' @ quoted k @ '')'')"

text \<open>An optional string field as a value: the string, or undefined.\<close>
definition opt_jv :: "string option \<Rightarrow> jv" where
  "opt_jv s = (case s of Some v \<Rightarrow> JStr v | None \<Rightarrow> JUndefined)"

text \<open>
  \<open>v.k\<close>: V8's TypeError on undefined and null; the own property of an object, or
  undefined; the \<open>length\<close> of a string or an array; undefined otherwise.
\<close>
definition js_get :: "jv \<Rightarrow> string \<Rightarrow> js_exn + jv" where
  "js_get v k = (case v of
       JUndefined \<Rightarrow> Inl (undefined_read k)
     | JNull \<Rightarrow> Inl (TypeError (''Cannot read properties of null (reading '' @ quoted k @ '')''))
     | JObj kvs \<Rightarrow> Inr (case map_of kvs k of Some x \<Rightarrow> x | None \<Rightarrow> JUndefined)
     | JStr s \<Rightarrow> Inr (if k = ''length'' then JNum (int (length s)) else JUndefined)
     | JArr xs \<Rightarrow> Inr (if k = ''length'' then JNum (int (length xs)) else JUndefined)
     | _ \<Rightarrow> Inr JUndefined)"

text \<open>\<open>v?.k\<close>: short-circuits to undefined on undefined and null.\<close>
definition js_get_opt :: "jv \<Rightarrow> string \<Rightarrow> js_exn + jv" where
  "js_get_opt v k = (if js_nullish v then Inr JUndefined else js_get v k)"

text \<open>\<open>obj[k] = v\<close>: an existing property keeps its position, a new one is appended.\<close>
definition obj_set :: "string \<Rightarrow> jv \<Rightarrow> (string \<times> jv) list \<Rightarrow> (string \<times> jv) list" where
  "obj_set k v kvs = (if k \<in> set (map fst kvs) then map (\<lambda>(k', v'). if k' = k then (k', v) else (k', v')) kvs
                      else kvs @ [(k, v)])"

lemma js_get_opt_never_raises: "\<exists>x. js_get_opt v k = Inr x"
  by (cases v) (auto simp: js_get_opt_def js_get_def js_nullish_def)

lemma js_get_raises_iff: "(\<exists>e. js_get v k = Inl e) \<longleftrightarrow> js_nullish v"
  by (cases v) (auto simp: js_get_def js_nullish_def)

lemma js_get_obj [simp]:
  "js_get (JObj kvs) k = Inr (case map_of kvs k of Some x \<Rightarrow> x | None \<Rightarrow> JUndefined)"
  by (simp add: js_get_def)

end
