(* ===== verification/Json.thy ===== *)
theory Json
  imports JsValue
begin

text \<open>
  \<open>JSON.stringify\<close> on the values of \<open>jv\<close> (ECMAScript's SerializeJSONProperty):
  undefined at the top level gives undefined (\<open>None\<close>), inside an array it
  becomes \<open>null\<close>, and an object property whose value is undefined is omitted;
  strings are quoted with the escapes of QuoteJSONString. The client signs
  \<open>JSON.stringify(orderData)\<close> and \<open>JSON.stringify(config.data)\<close>.
\<close>

definition hex4_lower :: "nat \<Rightarrow> string" where
  "hex4_lower n = map (\<lambda>d. if d < 10 then char_of (48 + d) else char_of (87 + d))
                      [n div 4096 mod 16, n div 256 mod 16, n div 16 mod 16, n mod 16]"

definition json_escape_char :: "char \<Rightarrow> string" where
  "json_escape_char c = (let k = (of_char c :: nat) in
      if k = 0x22 then [CHR 0x5C, CHR 0x22]
      else if k = 0x5C then [CHR 0x5C, CHR 0x5C]
      else if k = 8 then [CHR 0x5C, CHR ''b'']
      else if k = 9 then [CHR 0x5C, CHR ''t'']
      else if k = 10 then [CHR 0x5C, CHR ''n'']
      else if k = 12 then [CHR 0x5C, CHR ''f'']
      else if k = 13 then [CHR 0x5C, CHR ''r'']
      else if k < 0x20 then CHR 0x5C # CHR ''u'' # hex4_lower k
      else [c])"

definition json_quote :: "string \<Rightarrow> string" where
  "json_quote s = CHR 0x22 # concat (map json_escape_char s) @ [CHR 0x22]"

fun json_stringify :: "jv \<Rightarrow> string option" where
  "json_stringify JUndefined = None"
| "json_stringify JNull = Some ''null''"
| "json_stringify (JBool b) = Some (if b then ''true'' else ''false'')"
| "json_stringify (JNum n) = Some (js_int_str n)"
| "json_stringify (JStr s) = Some (json_quote s)"
| "json_stringify (JArr xs) =
     Some (CHR ''['' # join_with '',''
             (map (\<lambda>x. case json_stringify x of None \<Rightarrow> ''null'' | Some s \<Rightarrow> s) xs) @ '']'')"
| "json_stringify (JObj kvs) =
     Some (CHR ''{'' # join_with '',''
             (concat (map (\<lambda>kv. case json_stringify (snd kv) of None \<Rightarrow> []
                                 | Some s \<Rightarrow> [json_quote (fst kv) @ '':'' @ s]) kvs)) @ ''}'')"

lemma length_json_escape_char: "1 \<le> length (json_escape_char c)"
  by (simp add: json_escape_char_def Let_def hex4_lower_def)

lemma length_concat_json_escape: "length s \<le> length (concat (map json_escape_char s))"
proof (induction s)
  case (Cons c s)
  then show ?case using length_json_escape_char [of c] by simp
qed simp

text \<open>A quoted string is longer than the string: it is never the string itself.\<close>
lemma json_quote_neq: "json_quote s \<noteq> s"
proof
  assume "json_quote s = s"
  then have "length (json_quote s) = length s" by simp
  moreover have "length s + 2 \<le> length (json_quote s)"
    using length_concat_json_escape [of s] by (simp add: json_quote_def)
  ultimately show False by simp
qed

end
