(* ===== verification/JsonParse.thy ===== *)
theory JsonParse
  imports Json
begin

text \<open>
  The exchange's side of a request body: a JSON reader (RFC 8259 grammar on the values
  of \<open>jv\<close>), modelled from the specification's wire contract, since the exchange
  is not part of the sources. It reads one value after optional white space, keeps the
  members of an object in document order, reads integers only (a fraction or an
  exponent leaves characters the caller refuses), and decodes the escapes that
  \<open>JSON.stringify\<close> writes, with \<open>\u\<close> escapes limited to the 8-bit code units of
  the model. Strings are scanned by a \<open>function\<close> whose termination is proved on
  the length of the input; values nest, so their reader takes a fuel argument, and
  \<open>json_parse\<close> gives it one more unit than the input has characters, which the
  round-trip lemmas show is enough for every string \<open>JSON.stringify\<close> writes.
  Separately, \<open>json_valid\<close> decides what \<open>JSON.parse\<close> accepts, which is how axios
  chooses between sending a string as it is and quoting it.
\<close>

definition json_ws :: "char \<Rightarrow> bool" where
  "json_ws c \<longleftrightarrow> of_char c \<in> {9, 10, 13, 32 :: nat}"

definition skip_ws :: "string \<Rightarrow> string" where
  "skip_ws s = dropWhile json_ws s"

definition json_hex_val :: "char \<Rightarrow> nat option" where
  "json_hex_val c = (let k = (of_char c :: nat) in
     if 48 \<le> k \<and> k \<le> 57 then Some (k - 48)
     else if 97 \<le> k \<and> k \<le> 102 then Some (k - 87)
     else if 65 \<le> k \<and> k \<le> 70 then Some (k - 55) else None)"

definition json_unescape :: "char \<Rightarrow> string \<Rightarrow> (char \<times> string) option" where
  "json_unescape e r =
     (if e = CHR 0x22 \<or> e = CHR 0x5C \<or> e = CHR ''/'' then Some (e, r)
      else if e = CHR ''b'' then Some (CHR 0x08, r)
      else if e = CHR ''f'' then Some (CHR 0x0C, r)
      else if e = CHR ''n'' then Some (CHR 0x0A, r)
      else if e = CHR ''r'' then Some (CHR 0x0D, r)
      else if e = CHR ''t'' then Some (CHR 0x09, r)
      else if e = CHR ''u'' then
        (case those (map json_hex_val (take 4 r)) of
           Some [a, b, c, d] \<Rightarrow>
             (let n = 4096 * a + 256 * b + 16 * c + d in
              if n < 256 then Some (char_of n, drop 4 r) else None)
         | _ \<Rightarrow> None)
      else None)"

function parse_string :: "string \<Rightarrow> (string \<times> string) option" where
  "parse_string [] = None"
| "parse_string (c # cs) =
     (if c = CHR 0x22 then Some ([], cs)
      else if c = CHR 0x5C then
        (case cs of
           [] \<Rightarrow> None
         | e # r \<Rightarrow>
             (case json_unescape e r of
                None \<Rightarrow> None
              | Some (d, r') \<Rightarrow> map_option (\<lambda>(s, r''). (d # s, r'')) (parse_string r')))
      else if (of_char c :: nat) < 0x20 then None
      else map_option (\<lambda>(s, r). (c # s, r)) (parse_string cs))"
  by pat_completeness auto
termination
  by (relation "measure length")
     (auto simp: json_unescape_def Let_def split: if_splits option.splits list.splits)

definition parse_number :: "string \<Rightarrow> (jv \<times> string) option" where
  "parse_number s =
     (let neg = (s \<noteq> [] \<and> hd s = CHR ''-'');
          s1 = (if neg then tl s else s);
          ds = takeWhile is_digit s1
      in if ds = [] \<or> (hd ds = CHR ''0'' \<and> 2 \<le> length ds) then None
         else map_option (\<lambda>i. (JNum i, dropWhile is_digit s1))
                (parse_int (if neg then CHR ''-'' # ds else ds)))"

fun parse_value :: "nat \<Rightarrow> string \<Rightarrow> (jv \<times> string) option"
and parse_elems :: "nat \<Rightarrow> string \<Rightarrow> (jv list \<times> string) option"
and parse_members :: "nat \<Rightarrow> string \<Rightarrow> ((string \<times> jv) list \<times> string) option" where
  "parse_value 0 s = None"
| "parse_value (Suc n) s =
     (case skip_ws s of
        [] \<Rightarrow> None
      | c # r \<Rightarrow>
          if c = CHR ''['' then
            (case skip_ws r of
               [] \<Rightarrow> None
             | d # r' \<Rightarrow> if d = CHR '']'' then Some (JArr [], r')
                         else map_option (\<lambda>(xs, r''). (JArr xs, r'')) (parse_elems n r))
          else if c = CHR ''{'' then
            (case skip_ws r of
               [] \<Rightarrow> None
             | d # r' \<Rightarrow> if d = CHR ''}'' then Some (JObj [], r')
                         else map_option (\<lambda>(kvs, r''). (JObj kvs, r'')) (parse_members n r))
          else if c = CHR 0x22 then map_option (\<lambda>(str, r'). (JStr str, r')) (parse_string r)
          else if take 4 (c # r) = ''true'' then Some (JBool True, drop 3 r)
          else if take 5 (c # r) = ''false'' then Some (JBool False, drop 4 r)
          else if take 4 (c # r) = ''null'' then Some (JNull, drop 3 r)
          else parse_number (c # r))"
| "parse_elems 0 s = None"
| "parse_elems (Suc n) s =
     (case parse_value n s of
        None \<Rightarrow> None
      | Some (v, r) \<Rightarrow>
          (case skip_ws r of
             [] \<Rightarrow> None
           | c # r' \<Rightarrow>
               if c = CHR '','' then map_option (\<lambda>(vs, r''). (v # vs, r'')) (parse_elems n r')
               else if c = CHR '']'' then Some ([v], r')
               else None))"
| "parse_members 0 s = None"
| "parse_members (Suc n) s =
     (case skip_ws s of
        [] \<Rightarrow> None
      | c # r \<Rightarrow>
          if c \<noteq> CHR 0x22 then None else
          (case parse_string r of
             None \<Rightarrow> None
           | Some (k, r1) \<Rightarrow>
               (case skip_ws r1 of
                  [] \<Rightarrow> None
                | d # r2 \<Rightarrow>
                    if d \<noteq> CHR '':'' then None else
                    (case parse_value n r2 of
                       None \<Rightarrow> None
                     | Some (v, r3) \<Rightarrow>
                         (case skip_ws r3 of
                            [] \<Rightarrow> None
                          | e # r4 \<Rightarrow>
                              if e = CHR '','' then
                                map_option (\<lambda>(kvs, r5). ((k, v) # kvs, r5)) (parse_members n r4)
                              else if e = CHR ''}'' then Some ([(k, v)], r4)
                              else None)))))"

definition json_parse :: "string \<Rightarrow> jv option" where
  "json_parse s = (case parse_value (Suc (length s)) s of
                     None \<Rightarrow> None
                   | Some (v, r) \<Rightarrow> if skip_ws r = [] then Some v else None)"

subsection \<open>What \<open>JSON.parse\<close> accepts\<close>

text \<open>
  axios decides how to send a string body under a JSON content type by whether
  \<open>JSON.parse\<close> accepts it. Acceptance is the full RFC 8259 grammar (fractions,
  exponents, every \<open>\uXXXX\<close> escape), checked by a pushdown recogniser in one pass
  over the characters: the stack holds the open arrays and objects, the state says
  what may come next. It recurses on the input, so it needs no fuel.
\<close>

datatype jctx = CArr | CObj

datatype jnum = NMinus | NZero | NInt | NDot | NFrac | NExp | NExpSign | NExpDigits

datatype jstate =
    SValue | SArrFirst | SObjFirst | SKey | SColon | SAfter
  | SStr bool | SEsc bool | SHex nat bool | SNum jnum | SLit string

definition json_scan_start :: "jctx list \<Rightarrow> char \<Rightarrow> (jctx list \<times> jstate) option" where
  "json_scan_start ctx c =
     (if c = CHR ''['' then Some (CArr # ctx, SArrFirst)
      else if c = CHR ''{'' then Some (CObj # ctx, SObjFirst)
      else if c = CHR 0x22 then Some (ctx, SStr False)
      else if c = CHR ''-'' then Some (ctx, SNum NMinus)
      else if c = CHR ''0'' then Some (ctx, SNum NZero)
      else if is_digit c then Some (ctx, SNum NInt)
      else if c = CHR ''t'' then Some (ctx, SLit ''rue'')
      else if c = CHR ''f'' then Some (ctx, SLit ''alse'')
      else if c = CHR ''n'' then Some (ctx, SLit ''ull'')
      else None)"

definition json_scan_after :: "jctx list \<Rightarrow> char \<Rightarrow> (jctx list \<times> jstate) option" where
  "json_scan_after ctx c =
     (if json_ws c then Some (ctx, SAfter)
      else case ctx of
        [] \<Rightarrow> None
      | CArr # ctx' \<Rightarrow> if c = CHR '','' then Some (ctx, SValue)
                      else if c = CHR '']'' then Some (ctx', SAfter) else None
      | CObj # ctx' \<Rightarrow> if c = CHR '','' then Some (ctx, SKey)
                      else if c = CHR ''}'' then Some (ctx', SAfter) else None)"

definition json_exp_mark :: "char \<Rightarrow> bool" where
  "json_exp_mark c \<longleftrightarrow> c = CHR ''e'' \<or> c = CHR ''E''"

fun json_scan_num :: "jctx list \<Rightarrow> jnum \<Rightarrow> char \<Rightarrow> (jctx list \<times> jstate) option" where
  "json_scan_num ctx NMinus c =
     (if c = CHR ''0'' then Some (ctx, SNum NZero) else if is_digit c then Some (ctx, SNum NInt) else None)"
| "json_scan_num ctx NZero c =
     (if c = CHR ''.'' then Some (ctx, SNum NDot) else if json_exp_mark c then Some (ctx, SNum NExp)
      else json_scan_after ctx c)"
| "json_scan_num ctx NInt c =
     (if is_digit c then Some (ctx, SNum NInt) else if c = CHR ''.'' then Some (ctx, SNum NDot)
      else if json_exp_mark c then Some (ctx, SNum NExp) else json_scan_after ctx c)"
| "json_scan_num ctx NDot c = (if is_digit c then Some (ctx, SNum NFrac) else None)"
| "json_scan_num ctx NFrac c =
     (if is_digit c then Some (ctx, SNum NFrac) else if json_exp_mark c then Some (ctx, SNum NExp)
      else json_scan_after ctx c)"
| "json_scan_num ctx NExp c =
     (if c = CHR ''+'' \<or> c = CHR ''-'' then Some (ctx, SNum NExpSign)
      else if is_digit c then Some (ctx, SNum NExpDigits) else None)"
| "json_scan_num ctx NExpSign c = (if is_digit c then Some (ctx, SNum NExpDigits) else None)"
| "json_scan_num ctx NExpDigits c =
     (if is_digit c then Some (ctx, SNum NExpDigits) else json_scan_after ctx c)"

fun json_scan_step :: "jctx list \<Rightarrow> jstate \<Rightarrow> char \<Rightarrow> (jctx list \<times> jstate) option" where
  "json_scan_step ctx SValue c = (if json_ws c then Some (ctx, SValue) else json_scan_start ctx c)"
| "json_scan_step ctx SArrFirst c =
     (if json_ws c then Some (ctx, SArrFirst)
      else if c = CHR '']'' then Some (tl ctx, SAfter) else json_scan_start ctx c)"
| "json_scan_step ctx SObjFirst c =
     (if json_ws c then Some (ctx, SObjFirst)
      else if c = CHR ''}'' then Some (tl ctx, SAfter)
      else if c = CHR 0x22 then Some (ctx, SStr True) else None)"
| "json_scan_step ctx SKey c =
     (if json_ws c then Some (ctx, SKey) else if c = CHR 0x22 then Some (ctx, SStr True) else None)"
| "json_scan_step ctx SColon c =
     (if json_ws c then Some (ctx, SColon) else if c = CHR '':'' then Some (ctx, SValue) else None)"
| "json_scan_step ctx SAfter c = json_scan_after ctx c"
| "json_scan_step ctx (SStr k) c =
     (if c = CHR 0x22 then Some (ctx, if k then SColon else SAfter)
      else if c = CHR 0x5C then Some (ctx, SEsc k)
      else if (of_char c :: nat) < 0x20 then None else Some (ctx, SStr k))"
| "json_scan_step ctx (SEsc k) c =
     (if c \<in> {CHR 0x22, CHR 0x5C, CHR ''/'', CHR ''b'', CHR ''f'', CHR ''n'', CHR ''r'', CHR ''t''}
      then Some (ctx, SStr k)
      else if c = CHR ''u'' then Some (ctx, SHex 4 k) else None)"
| "json_scan_step ctx (SHex n k) c =
     (if json_hex_val c = None then None
      else if n \<le> 1 then Some (ctx, SStr k) else Some (ctx, SHex (n - 1) k))"
| "json_scan_step ctx (SNum p) c = json_scan_num ctx p c"
| "json_scan_step ctx (SLit l) c =
     (case l of
        [] \<Rightarrow> None
      | x # xs \<Rightarrow> if c \<noteq> x then None else if xs = [] then Some (ctx, SAfter) else Some (ctx, SLit xs))"

definition json_scan_final :: "jstate \<Rightarrow> bool" where
  "json_scan_final st \<longleftrightarrow> st \<in> {SAfter, SNum NZero, SNum NInt, SNum NFrac, SNum NExpDigits}"

fun json_scan :: "jctx list \<Rightarrow> jstate \<Rightarrow> string \<Rightarrow> bool" where
  "json_scan ctx st [] \<longleftrightarrow> ctx = [] \<and> json_scan_final st"
| "json_scan ctx st (c # cs) \<longleftrightarrow>
     (case json_scan_step ctx st c of None \<Rightarrow> False | Some (ctx', st') \<Rightarrow> json_scan ctx' st' cs)"

definition json_valid :: "string \<Rightarrow> bool" where
  "json_valid s \<longleftrightarrow> json_scan [] SValue s"

text \<open>
  What \<open>JSON.stringify\<close> keeps of a value: an undefined array element becomes
  \<open>null\<close>, an object member whose value is undefined is dropped.
\<close>
fun json_normal :: "jv \<Rightarrow> jv" where
  "json_normal (JArr xs) = JArr (map (\<lambda>x. if x = JUndefined then JNull else json_normal x) xs)"
| "json_normal (JObj kvs) =
     JObj (map (\<lambda>kv. (fst kv, json_normal (snd kv))) (filter (\<lambda>kv. snd kv \<noteq> JUndefined) kvs))"
| "json_normal v = v"

text \<open>A JSON value: no \<open>undefined\<close> anywhere in it.\<close>
fun json_value :: "jv \<Rightarrow> bool" where
  "json_value JUndefined = False"
| "json_value (JArr xs) = list_all json_value xs"
| "json_value (JObj kvs) = list_all (\<lambda>kv. json_value (snd kv)) kvs"
| "json_value v = True"

text \<open>The fuel the reader spends on a value: one unit per array or object and per element.\<close>
fun json_fuel :: "jv \<Rightarrow> nat" where
  "json_fuel (JArr xs) = Suc (sum_list (map (\<lambda>x. Suc (json_fuel x)) xs))"
| "json_fuel (JObj kvs) = Suc (sum_list (map (\<lambda>kv. Suc (json_fuel (snd kv))) kvs))"
| "json_fuel v = 0"

text \<open>How \<open>JSON.stringify\<close> writes an array element, and what reading it back gives.\<close>
abbreviation json_elem_text :: "jv \<Rightarrow> string" where
  "json_elem_text x \<equiv> (case json_stringify x of None \<Rightarrow> ''null'' | Some s \<Rightarrow> s)"

abbreviation json_elem_normal :: "jv \<Rightarrow> jv" where
  "json_elem_normal x \<equiv> (if x = JUndefined then JNull else json_normal x)"

abbreviation json_member_text :: "string \<times> jv \<Rightarrow> string" where
  "json_member_text kv \<equiv> json_quote (fst kv) @ '':'' @ json_elem_text (snd kv)"

text \<open>The characters that may follow a value inside a document written by \<open>JSON.stringify\<close>.\<close>
abbreviation json_follow :: "string \<Rightarrow> bool" where
  "json_follow r \<equiv> r = [] \<or> hd r \<in> {CHR '','', CHR '']'', CHR ''}''}"

subsection \<open>Reading back what \<open>JSON.stringify\<close> writes: strings\<close>

lemma json_hex_val_hex_digit:
  "d < 16 \<Longrightarrow> json_hex_val (if d < 10 then char_of (48 + d) else char_of (87 + d)) = Some d"
  by (simp add: json_hex_val_def)

lemma those_hex4_lower:
  "those (map json_hex_val (hex4_lower k)) =
     Some [k div 4096 mod 16, k div 256 mod 16, k div 16 mod 16, k mod 16]"
  by (simp add: hex4_lower_def json_hex_val_hex_digit)

lemma length_hex4_lower [simp]: "length (hex4_lower k) = 4"
  by (simp add: hex4_lower_def)

lemma char_of_escape_codes:
  "char_of (34::nat) = CHR 0x22" "char_of (92::nat) = CHR 0x5C" "char_of (8::nat) = CHR 0x08"
  "char_of (9::nat) = CHR 0x09" "char_of (10::nat) = CHR 0x0A" "char_of (12::nat) = CHR 0x0C"
  "char_of (13::nat) = CHR 0x0D"
  by (simp_all add: js_eval)

lemma parse_string_escape_char:
  "parse_string (json_escape_char c @ r) = map_option (\<lambda>(s, r'). (c # s, r')) (parse_string r)"
proof -
  define k where "k = (of_char c :: nat)"
  have c: "c = char_of k" unfolding k_def by simp
  consider (ctl) "k < 32" "k \<noteq> 8" "k \<noteq> 9" "k \<noteq> 10" "k \<noteq> 12" "k \<noteq> 13"
    | (q) "k = 34" | (bs) "k = 92" | (b) "k = 8" | (t) "k = 9" | (n) "k = 10" | (f) "k = 12"
    | (r) "k = 13" | (plain) "32 \<le> k" "k \<noteq> 34" "k \<noteq> 92"
    by (cases "k < 32") auto
  then show ?thesis
  proof cases
    case ctl
    have n: "4096 * (k div 4096 mod 16) + 256 * (k div 256 mod 16) + 16 * (k div 16 mod 16) + k mod 16 = k"
      using ctl by auto
    have "json_escape_char c = CHR 0x5C # CHR ''u'' # hex4_lower k"
      using ctl by (simp add: json_escape_char_def k_def [symmetric])
    moreover have "json_unescape (CHR ''u'') (hex4_lower k @ r) = Some (c, r)"
      using ctl n c by (simp add: json_unescape_def those_hex4_lower)
    ultimately show ?thesis by simp
  next
    case plain
    have "c \<noteq> CHR 0x22" "c \<noteq> CHR 0x5C" "\<not> (of_char c :: nat) < 0x20"
      using plain unfolding k_def by auto
    moreover have "json_escape_char c = [c]"
      using plain by (simp add: json_escape_char_def k_def [symmetric])
    ultimately show ?thesis by simp
  qed (simp_all add: c json_escape_char_def json_unescape_def char_of_escape_codes)
qed

lemma parse_string_quoted:
  "parse_string (concat (map json_escape_char s) @ CHR 0x22 # r) = Some (s, r)"
  by (induction s) (simp_all add: parse_string_escape_char)

lemma json_quote_append: "json_quote s @ r = CHR 0x22 # concat (map json_escape_char s) @ CHR 0x22 # r"
  by (simp add: json_quote_def)

lemma digit_char_zero_iff: "d < 10 \<Longrightarrow> digit_char d = CHR ''0'' \<longleftrightarrow> d = 0"
  by (simp add: digit_char_def js_eval take_bit_eq_mod)

lemma nat_str_no_leading_zero: "2 \<le> length (nat_str n) \<Longrightarrow> hd (nat_str n) \<noteq> CHR ''0''"
proof (induction n rule: nat_str.induct)
  case (1 n)
  show ?case
  proof (cases "n < 10")
    case True
    with "1.prems" show ?thesis by (subst (asm) nat_str.simps) simp
  next
    case False
    then have e: "nat_str n = nat_str (n div 10) @ [digit_char (n mod 10)]"
      by (subst nat_str.simps) simp
    show ?thesis
    proof (cases "n div 10 < 10")
      case True
      then have "nat_str (n div 10) = [digit_char (n div 10)]"
        by (subst nat_str.simps) simp
      moreover have "0 < n div 10" using \<open>\<not> n < 10\<close> by simp
      ultimately show ?thesis using True e by (simp add: digit_char_zero_iff)
    next
      case False
      then have "2 \<le> length (nat_str (n div 10))"
        using nat_str_not_Nil [of "n div 10 div 10"] by (subst nat_str.simps) (simp add: Suc_le_eq)
      with "1.IH" \<open>\<not> n < 10\<close> e show ?thesis by simp
    qed
  qed
qed

lemma is_digit_not_minus: "is_digit c \<Longrightarrow> c \<noteq> CHR ''-''"
  by (auto simp: is_digit_def)

lemma parse_number_js_int_str:
  assumes r: "r = [] \<or> \<not> is_digit (hd r)"
  shows "parse_number (js_int_str i @ r) = Some (JNum i, r)"
proof -
  define ds where "ds = nat_str (nat \<bar>i\<bar>)"
  have d: "\<forall>c\<in>set ds. is_digit c" "ds \<noteq> []"
    using nat_str_digits [of "nat \<bar>i\<bar>"] by (simp_all add: ds_def list_all_iff)
  have tw: "takeWhile is_digit (ds @ r) = ds" and dw: "dropWhile is_digit (ds @ r) = r"
    using d r by (cases r; auto intro: takeWhile_append_guard simp: dropWhile_append3)+
  have lz: "\<not> (hd ds = CHR ''0'' \<and> 2 \<le> length ds)"
    using nat_str_no_leading_zero unfolding ds_def by blast
  have hd: "hd (ds @ r) \<noteq> CHR ''-''"
    using d by (cases ds) (auto dest: is_digit_not_minus)
  show ?thesis
  proof (cases "i < 0")
    case True
    then have "js_int_str i = CHR ''-'' # ds" by (simp add: js_int_str_def ds_def)
    moreover have "parse_int (CHR ''-'' # ds) = Some i"
      using True parse_int_js_int_str [of i] by (simp add: js_int_str_def ds_def)
    ultimately show ?thesis using tw dw lz d by (simp add: parse_number_def Let_def)
  next
    case False
    then have "js_int_str i = ds" by (simp add: js_int_str_def ds_def)
    moreover have "parse_int ds = Some i"
      using False parse_int_js_int_str [of i] by (simp add: js_int_str_def ds_def)
    ultimately show ?thesis using tw dw lz d hd by (simp add: parse_number_def Let_def)
  qed
qed

lemma json_stringify_None_iff: "json_stringify v = None \<longleftrightarrow> v = JUndefined"
  by (cases v) simp_all

lemma js_int_str_start:
  "\<exists>c cs. js_int_str i = c # cs \<and> (c = CHR ''-'' \<or> is_digit c)"
proof -
  obtain c cs where "nat_str (nat \<bar>i\<bar>) = c # cs"
    by (cases "nat_str (nat \<bar>i\<bar>)") auto
  moreover have "is_digit c"
    using nat_str_digits [of "nat \<bar>i\<bar>"] calculation by simp
  ultimately show ?thesis by (auto simp: js_int_str_def)
qed

lemma json_stringify_start:
  assumes "json_stringify v = Some s"
  shows "\<exists>c cs. s = c # cs \<and> \<not> json_ws c \<and> c \<noteq> CHR '']'' \<and> c \<noteq> CHR ''}'' \<and> c \<noteq> CHR '',''"
proof (cases v)
  case (JNum i)
  then obtain c cs where "s = c # cs" "c = CHR ''-'' \<or> is_digit c"
    using assms js_int_str_start [of i] by auto
  then show ?thesis by (auto simp: json_ws_def is_digit_def)
next
  case (JBool b)
  then have "s = (if b then ''true'' else ''false'')" using assms by simp
  then show ?thesis by (simp add: json_ws_def)
next
  case JNull
  then have "s = ''null''" using assms by simp
  then show ?thesis by (simp add: json_ws_def)
next
  case (JStr x)
  then have "s = CHR 0x22 # concat (map json_escape_char x) @ [CHR 0x22]"
    using assms by (simp add: json_quote_def)
  then show ?thesis by (simp add: json_ws_def)
next
  case (JArr xs)
  then obtain t where "s = CHR ''['' # t" using assms by auto
  then show ?thesis by (simp add: json_ws_def)
next
  case (JObj kvs)
  then obtain t where "s = CHR ''{'' # t" using assms by auto
  then show ?thesis by (simp add: json_ws_def)
qed (use assms in simp)

lemma skip_ws_start: "\<not> json_ws c \<Longrightarrow> skip_ws (c # cs) = c # cs"
  by (simp add: skip_ws_def)

lemma parse_elems_join:
  assumes "xs \<noteq> []"
    and el: "\<forall>x\<in>set xs. \<forall>n r. json_fuel (json_elem_normal x) < n \<longrightarrow> json_follow r \<longrightarrow>
               parse_value n (json_elem_text x @ r) = Some (json_elem_normal x, r)"
    and fuel: "sum_list (map (\<lambda>x. Suc (json_fuel (json_elem_normal x))) xs) < m"
  shows "parse_elems m (join_with '','' (map json_elem_text xs) @ CHR '']'' # r)
           = Some (map json_elem_normal xs, r)"
  using assms
proof (induction xs arbitrary: m)
  case Nil
  then show ?case by simp
next
  case (Cons x xs)
  then obtain m' where m: "m = Suc m'" by (cases m) auto
  have fx: "json_fuel (json_elem_normal x) < m'" using Cons.prems(3) m by simp
  show ?case
  proof (cases xs)
    case Nil
    have "parse_value m' (json_elem_text x @ CHR '']'' # r) = Some (json_elem_normal x, CHR '']'' # r)"
      using Cons.prems(2) fx by simp
    then show ?thesis using Nil m by (simp add: skip_ws_def json_ws_def)
  next
    case (Cons y ys)
    have "parse_value m' (json_elem_text x @ CHR '','' # join_with '','' (map json_elem_text xs) @ CHR '']'' # r)
          = Some (json_elem_normal x, CHR '','' # join_with '','' (map json_elem_text xs) @ CHR '']'' # r)"
      using \<open>\<forall>x\<in>set (x # xs). _\<close> fx by simp
    moreover have "parse_elems m' (join_with '','' (map json_elem_text xs) @ CHR '']'' # r)
          = Some (map json_elem_normal xs, r)"
      using Cons.IH [of m'] Cons.prems m Cons by simp
    ultimately show ?thesis using m Cons by (simp add: skip_ws_def json_ws_def)
  qed
qed

lemma concat_member_texts:
  "concat (map (\<lambda>kv. case json_stringify (snd kv) of None \<Rightarrow> [] | Some s \<Rightarrow> [json_quote (fst kv) @ '':'' @ s]) kvs)
     = map json_member_text (filter (\<lambda>kv. snd kv \<noteq> JUndefined) kvs)"
proof (induction kvs)
  case (Cons kv kvs)
  then show ?case by (cases "json_stringify (snd kv)") (auto simp: json_stringify_None_iff)
qed simp

lemma parse_members_join:
  assumes "kvs \<noteq> []"
    and el: "\<forall>kv\<in>set kvs. \<forall>n r. json_fuel (json_normal (snd kv)) < n \<longrightarrow> json_follow r \<longrightarrow>
               parse_value n (json_elem_text (snd kv) @ r) = Some (json_normal (snd kv), r)"
    and fuel: "sum_list (map (\<lambda>kv. Suc (json_fuel (json_normal (snd kv)))) kvs) < m"
  shows "parse_members m (join_with '','' (map json_member_text kvs) @ CHR ''}'' # r)
           = Some (map (\<lambda>kv. (fst kv, json_normal (snd kv))) kvs, r)"
  using assms
proof (induction kvs arbitrary: m)
  case Nil
  then show ?case by simp
next
  case (Cons kv kvs)
  then obtain m' where m: "m = Suc m'" by (cases m) auto
  have fx: "json_fuel (json_normal (snd kv)) < m'" using Cons.prems(3) m by simp
  have key: "\<And>t. parse_string (concat (map json_escape_char (fst kv)) @ CHR 0x22 # t) = Some (fst kv, t)"
    by (rule parse_string_quoted)
  show ?case
  proof (cases kvs)
    case Nil
    have "parse_value m' (json_elem_text (snd kv) @ CHR ''}'' # r) = Some (json_normal (snd kv), CHR ''}'' # r)"
      using Cons.prems(2) fx by simp
    then show ?thesis using Nil m key by (simp add: skip_ws_def json_ws_def json_quote_append)
  next
    case (Cons y ys)
    have "parse_value m' (json_elem_text (snd kv) @ CHR '','' # join_with '','' (map json_member_text kvs) @ CHR ''}'' # r)
          = Some (json_normal (snd kv), CHR '','' # join_with '','' (map json_member_text kvs) @ CHR ''}'' # r)"
      using \<open>\<forall>kv\<in>set (kv # kvs). _\<close> fx by simp
    moreover have "parse_members m' (join_with '','' (map json_member_text kvs) @ CHR ''}'' # r)
          = Some (map (\<lambda>kv. (fst kv, json_normal (snd kv))) kvs, r)"
      using Cons.IH [of m'] Cons.prems m Cons by simp
    ultimately show ?thesis using m Cons key by (simp add: skip_ws_def json_ws_def json_quote_append)
  qed
qed

lemma join_with_Cons_prefix: "\<exists>t. join_with sep (x # xs) = x @ t"
  by (cases xs) auto

lemma parse_value_null: "0 < n \<Longrightarrow> parse_value n (''null'' @ r) = Some (JNull, r)"
  by (cases n) (simp_all add: skip_ws_def json_ws_def)

lemma parse_value_js_int_str:
  assumes r: "json_follow r"
  shows "parse_value (Suc m) (js_int_str i @ r) = Some (JNum i, r)"
proof -
  obtain c cs where c: "js_int_str i = c # cs" "c = CHR ''-'' \<or> is_digit c"
    using js_int_str_start [of i] by blast
  have nd: "r = [] \<or> \<not> is_digit (hd r)"
    using r by (auto simp: is_digit_def)
  have ws: "\<not> json_ws c" "c \<noteq> CHR ''[''" "c \<noteq> CHR ''{''" "c \<noteq> CHR 0x22"
    "c \<noteq> CHR ''t''" "c \<noteq> CHR ''f''" "c \<noteq> CHR ''n''"
    using c(2) by (auto simp: json_ws_def is_digit_def)
  have "parse_number (c # cs @ r) = Some (JNum i, r)"
    using parse_number_js_int_str [OF nd, of i] c(1) by simp
  then show ?thesis using ws c(1) by (simp add: skip_ws_def)
qed

lemma parse_value_array:
  assumes el: "\<forall>x\<in>set xs. \<forall>n r. json_fuel (json_elem_normal x) < n \<longrightarrow> json_follow r \<longrightarrow>
               parse_value n (json_elem_text x @ r) = Some (json_elem_normal x, r)"
    and f: "sum_list (map (\<lambda>x. Suc (json_fuel (json_elem_normal x))) xs) < m"
  shows "parse_value (Suc m) (CHR ''['' # join_with '','' (map json_elem_text xs) @ CHR '']'' # r)
           = Some (JArr (map json_elem_normal xs), r)"
proof (cases xs)
  case Nil
  then show ?thesis by (simp add: skip_ws_def json_ws_def)
next
  case (Cons x0 xs0)
  obtain c cs where st: "json_elem_text x0 = c # cs" "\<not> json_ws c" "c \<noteq> CHR '']''"
    using json_stringify_start [of x0] by (cases "json_stringify x0") (auto simp: json_ws_def)
  have "parse_elems m (join_with '','' (map json_elem_text xs) @ CHR '']'' # r)
          = Some (map json_elem_normal xs, r)"
    using parse_elems_join [OF _ el f] Cons by simp
  moreover obtain t where "join_with '','' (map json_elem_text xs) = c # t"
    using join_with_Cons_prefix [of "'',''" "json_elem_text x0" "map json_elem_text xs0"] st Cons by auto
  ultimately show ?thesis using st by (simp add: skip_ws_def json_ws_def)
qed

lemma parse_value_object:
  assumes el: "\<forall>kv\<in>set ms. \<forall>n r. json_fuel (json_normal (snd kv)) < n \<longrightarrow> json_follow r \<longrightarrow>
               parse_value n (json_elem_text (snd kv) @ r) = Some (json_normal (snd kv), r)"
    and f: "sum_list (map (\<lambda>kv. Suc (json_fuel (json_normal (snd kv)))) ms) < m"
  shows "parse_value (Suc m) (CHR ''{'' # join_with '','' (map json_member_text ms) @ CHR ''}'' # r)
           = Some (JObj (map (\<lambda>kv. (fst kv, json_normal (snd kv))) ms), r)"
proof (cases ms)
  case Nil
  then show ?thesis by (simp add: skip_ws_def json_ws_def)
next
  case (Cons kv0 ms0)
  have "parse_members m (join_with '','' (map json_member_text ms) @ CHR ''}'' # r)
          = Some (map (\<lambda>kv. (fst kv, json_normal (snd kv))) ms, r)"
    using parse_members_join [OF _ el f] Cons by simp
  moreover obtain t where "join_with '','' (map json_member_text ms) = CHR 0x22 # t"
    using join_with_Cons_prefix [of "'',''" "json_member_text kv0" "map json_member_text ms0"] Cons
    by (auto simp: json_quote_def)
  ultimately show ?thesis by (simp add: skip_ws_def json_ws_def)
qed

lemma parse_value_stringify:
  "json_stringify v = Some s \<Longrightarrow> json_fuel (json_normal v) < n \<Longrightarrow> json_follow r \<Longrightarrow>
   parse_value n (s @ r) = Some (json_normal v, r)"
proof (induction v arbitrary: s n r)
  case (JBool b)
  then obtain m where "n = Suc m" by (cases n) auto
  moreover have "s = (if b then ''true'' else ''false'')" using JBool.prems(1) by simp
  ultimately show ?case by (cases b) (simp_all add: skip_ws_def json_ws_def)
next
  case (JNum i)
  then obtain m where "n = Suc m" by (cases n) auto
  moreover have "s = js_int_str i" using JNum.prems(1) by simp
  ultimately show ?case using parse_value_js_int_str [OF JNum.prems(3)] by simp
next
  case (JStr x)
  obtain m where "n = Suc m" using JStr.prems by (cases n) auto
  moreover have "s = json_quote x" using JStr.prems(1) by simp
  ultimately show ?case
    by (simp add: skip_ws_def json_ws_def json_quote_append parse_string_quoted)
next
  case (JArr xs)
  obtain m where n: "n = Suc m" using JArr.prems by (cases n) auto
  have el: "\<forall>x\<in>set xs. \<forall>n r. json_fuel (json_elem_normal x) < n \<longrightarrow> json_follow r \<longrightarrow>
             parse_value n (json_elem_text x @ r) = Some (json_elem_normal x, r)"
  proof (intro ballI allI impI)
    fix x n r assume x: "x \<in> set xs" and f: "json_fuel (json_elem_normal x) < n" and r: "json_follow r"
    show "parse_value n (json_elem_text x @ r) = Some (json_elem_normal x, r)"
    proof (cases "json_stringify x")
      case None
      then show ?thesis using f parse_value_null by (simp add: json_stringify_None_iff)
    next
      case (Some t)
      then have "x \<noteq> JUndefined" by auto
      with Some show ?thesis using JArr.IH [OF x Some _ r] f by simp
    qed
  qed
  have "s = CHR ''['' # join_with '','' (map json_elem_text xs) @ '']''"
    using JArr.prems(1) by simp
  then show ?case using parse_value_array [OF el] JArr.prems(2) n by (simp add: o_def)
next
  case (JObj kvs)
  obtain m where n: "n = Suc m" using JObj.prems by (cases n) auto
  define ms where "ms = filter (\<lambda>kv. snd kv \<noteq> JUndefined) kvs"
  have el: "\<forall>kv\<in>set ms. \<forall>n r. json_fuel (json_normal (snd kv)) < n \<longrightarrow> json_follow r \<longrightarrow>
             parse_value n (json_elem_text (snd kv) @ r) = Some (json_normal (snd kv), r)"
  proof (intro ballI allI impI)
    fix kv n r assume kv: "kv \<in> set ms" and f: "json_fuel (json_normal (snd kv)) < n" and r: "json_follow r"
    then have k: "kv \<in> set kvs" "snd kv \<noteq> JUndefined" by (auto simp: ms_def)
    then obtain t where t: "json_stringify (snd kv) = Some t"
      by (cases "json_stringify (snd kv)") (auto simp: json_stringify_None_iff)
    have "snd kv \<in> Basic_BNFs.snds kv" by (simp add: prod_set_defs)
    then show "parse_value n (json_elem_text (snd kv) @ r) = Some (json_normal (snd kv), r)"
      using JObj.IH [OF k(1) _ t f r] t by simp
  qed
  have "sum_list (map (\<lambda>kv. Suc (json_fuel (json_normal (snd kv)))) ms) < m"
    using JObj.prems(2) n by (simp add: o_def ms_def)
  moreover have "s = CHR ''{'' # join_with '','' (map json_member_text ms) @ ''}''"
    using JObj.prems(1) by (simp add: concat_member_texts ms_def)
  ultimately show ?case using parse_value_object [OF el] n by (simp add: ms_def)
qed (use parse_value_null in simp_all)

lemma join_with_length_bound:
  assumes "length sep = 1" and "\<forall>x\<in>set xs. f x \<le> length (h x)"
  shows "sum_list (map (\<lambda>x. Suc (f x)) xs) \<le> Suc (length (join_with sep (map h xs)))"
  using assms(2)
proof (induction xs)
  case (Cons x xs)
  then show ?case using assms(1) by (cases xs) auto
qed simp

lemma json_fuel_le_length:
  "json_stringify v = Some s \<Longrightarrow> json_fuel (json_normal v) \<le> length s"
proof (induction v arbitrary: s)
  case (JArr xs)
  have "\<forall>x\<in>set xs. json_fuel (json_elem_normal x) \<le> length (json_elem_text x)"
  proof
    fix x assume x: "x \<in> set xs"
    show "json_fuel (json_elem_normal x) \<le> length (json_elem_text x)"
      using JArr.IH [OF x] by (cases "json_stringify x") (auto simp: json_stringify_None_iff)
  qed
  from join_with_length_bound [OF _ this, of "'',''"] JArr.prems show ?case by (auto simp: o_def)
next
  case (JObj kvs)
  define ms where "ms = filter (\<lambda>kv. snd kv \<noteq> JUndefined) kvs"
  have "\<forall>kv\<in>set ms. json_fuel (json_normal (snd kv)) \<le> length (json_member_text kv)"
  proof
    fix kv assume kv: "kv \<in> set ms"
    then obtain t where t: "json_stringify (snd kv) = Some t" and k: "kv \<in> set kvs"
      by (cases "json_stringify (snd kv)") (auto simp: ms_def json_stringify_None_iff)
    have "snd kv \<in> Basic_BNFs.snds kv" by (simp add: prod_set_defs)
    then show "json_fuel (json_normal (snd kv)) \<le> length (json_member_text kv)"
      using JObj.IH [OF k _ t] t by simp
  qed
  from join_with_length_bound [OF _ this, of "'',''"] JObj.prems show ?case
    by (auto simp: o_def ms_def concat_member_texts)
qed auto

lemma json_parse_stringify_normal:
  "json_stringify v = Some s \<Longrightarrow> json_parse s = Some (json_normal v)"
  using parse_value_stringify [of v s "Suc (length s)" "[]"] json_fuel_le_length [of v s]
  by (simp add: json_parse_def skip_ws_def)

lemma parse_elems_json_value_step:
  assumes ih: "\<And>s v r. parse_value n s = Some (v, r) \<Longrightarrow> json_value v"
    and ihe: "\<And>s vs r. parse_elems n s = Some (vs, r) \<Longrightarrow> list_all json_value vs"
    and p: "parse_elems (Suc n) s = Some (vs, r)"
  shows "list_all json_value vs"
  using p by (auto split: option.splits list.splits if_splits dest!: ih ihe)

lemma parse_members_json_value_step:
  assumes ih: "\<And>s v r. parse_value n s = Some (v, r) \<Longrightarrow> json_value v"
    and ihm: "\<And>s kvs r. parse_members n s = Some (kvs, r) \<Longrightarrow> list_all (\<lambda>kv. json_value (snd kv)) kvs"
    and p: "parse_members (Suc n) s = Some (kvs, r)"
  shows "list_all (\<lambda>kv. json_value (snd kv)) kvs"
  using p by (auto split: option.splits list.splits if_splits dest!: ih ihm)

lemma parse_number_json_value: "parse_number s = Some (v, r) \<Longrightarrow> json_value v"
  by (auto simp: parse_number_def Let_def split: if_splits)

lemma parse_value_json_value_step:
  assumes ihe: "\<And>s vs r. parse_elems n s = Some (vs, r) \<Longrightarrow> list_all json_value vs"
    and ihm: "\<And>s kvs r. parse_members n s = Some (kvs, r) \<Longrightarrow> list_all (\<lambda>kv. json_value (snd kv)) kvs"
    and p: "parse_value (Suc n) s = Some (v, r)"
  shows "json_value v"
proof (cases "skip_ws s")
  case (Cons c t)
  show ?thesis
    using p Cons
    by (auto split: option.splits list.splits if_splits dest!: ihe ihm parse_number_json_value)
qed (use p in simp)

lemma parse_json_value:
  "(\<forall>s v r. parse_value n s = Some (v, r) \<longrightarrow> json_value v) \<and>
   (\<forall>s vs r. parse_elems n s = Some (vs, r) \<longrightarrow> list_all json_value vs) \<and>
   (\<forall>s kvs r. parse_members n s = Some (kvs, r) \<longrightarrow> list_all (\<lambda>kv. json_value (snd kv)) kvs)"
proof (induction n)
  case (Suc n)
  then have a: "\<And>s v r. parse_value n s = Some (v, r) \<Longrightarrow> json_value v"
    and b: "\<And>s vs r. parse_elems n s = Some (vs, r) \<Longrightarrow> list_all json_value vs"
    and c: "\<And>s kvs r. parse_members n s = Some (kvs, r) \<Longrightarrow> list_all (\<lambda>kv. json_value (snd kv)) kvs"
    by blast+
  show ?case
  proof (intro conjI allI impI)
    fix s v r assume "parse_value (Suc n) s = Some (v, r)"
    with b c show "json_value v" by (rule parse_value_json_value_step)
  next
    fix s vs r assume "parse_elems (Suc n) s = Some (vs, r)"
    with a b show "list_all json_value vs" by (rule parse_elems_json_value_step)
  next
    fix s kvs r assume "parse_members (Suc n) s = Some (kvs, r)"
    with a c show "list_all (\<lambda>kv. json_value (snd kv)) kvs" by (rule parse_members_json_value_step)
  qed
qed simp

lemma json_normal_undefined_iff [simp]: "json_normal v = JUndefined \<longleftrightarrow> v = JUndefined"
  by (cases v) simp_all

lemma json_stringify_normal: "json_stringify (json_normal v) = json_stringify v"
proof (induction v)
  case (JArr xs)
  have "\<And>x. x \<in> set xs \<Longrightarrow> json_elem_text (json_elem_normal x) = json_elem_text x"
    using JArr.IH by (auto simp: json_stringify_None_iff split: option.splits)
  then show ?case by (simp add: o_def cong: map_cong)
next
  case (JObj kvs)
  define ms where "ms = filter (\<lambda>kv. snd kv \<noteq> JUndefined) kvs"
  have ih: "\<And>kv. kv \<in> set ms \<Longrightarrow> json_stringify (json_normal (snd kv)) = json_stringify (snd kv)"
  proof -
    fix kv assume "kv \<in> set ms"
    then have "kv \<in> set kvs" by (simp add: ms_def)
    moreover have "snd kv \<in> Basic_BNFs.snds kv" by (simp add: prod_set_defs)
    ultimately show "json_stringify (json_normal (snd kv)) = json_stringify (snd kv)"
      by (rule JObj.IH)
  qed
  have f: "filter (\<lambda>kv. snd kv \<noteq> JUndefined) (map (\<lambda>kv. (fst kv, json_normal (snd kv))) ms)
             = map (\<lambda>kv. (fst kv, json_normal (snd kv))) ms"
    by (simp add: ms_def filter_map o_def)
  have m: "map json_member_text (map (\<lambda>kv. (fst kv, json_normal (snd kv))) ms) = map json_member_text ms"
    using ih by (simp cong: map_cong)
  have "json_stringify (json_normal (JObj kvs)) =
          Some (CHR ''{'' # join_with '','' (map json_member_text ms) @ ''}'')"
    by (simp only: json_normal.simps json_stringify.simps concat_member_texts f ms_def [symmetric] m)
  also have "\<dots> = json_stringify (JObj kvs)"
    by (simp add: concat_member_texts ms_def)
  finally show ?case .
qed simp_all

lemma json_normal_id: "json_value v \<Longrightarrow> json_normal v = v"
proof (induction v)
  case (JArr xs)
  then have "map json_elem_normal xs = xs"
    by (induction xs) (auto simp: list_all_iff)
  then show ?case by simp
next
  case (JObj kvs)
  have ih: "\<And>kv. kv \<in> set kvs \<Longrightarrow> json_normal (snd kv) = snd kv \<and> snd kv \<noteq> JUndefined"
  proof -
    fix kv assume kv: "kv \<in> set kvs"
    moreover have "snd kv \<in> Basic_BNFs.snds kv" by (simp add: prod_set_defs)
    moreover have jv: "json_value (snd kv)" using JObj.prems kv by (simp add: list_all_iff)
    ultimately have "json_normal (snd kv) = snd kv" by (rule JObj.IH)
    moreover have "snd kv \<noteq> JUndefined" using jv by auto
    ultimately show "json_normal (snd kv) = snd kv \<and> snd kv \<noteq> JUndefined" by blast
  qed
  then have "map (\<lambda>kv. (fst kv, json_normal (snd kv))) (filter (\<lambda>kv. snd kv \<noteq> JUndefined) kvs) = kvs"
    by (induction kvs) auto
  then show ?case by simp
qed simp_all

subsection \<open>Fuel: what a successful read consumes and needs\<close>

lemma length_skip_ws: "length (skip_ws s) \<le> length s"
  by (simp add: skip_ws_def length_dropWhile_le)

lemma json_unescape_length: "json_unescape e r = Some (d, r') \<Longrightarrow> length r' \<le> length r"
  by (auto simp: json_unescape_def Let_def split: if_splits option.splits list.splits)

lemma parse_string_length: "parse_string s = Some (x, r) \<Longrightarrow> length r < length s"
proof (induction "length s" arbitrary: s x rule: less_induct)
  case less
  show ?case
  proof (cases s)
    case (Cons c cs)
    show ?thesis
    proof (cases "c = CHR 0x22 \<or> c = CHR 0x5C")
      case True
      then show ?thesis using less.prems Cons
        by (auto split: if_splits option.splits list.splits
            dest!: json_unescape_length less.hyps [rotated])
    next
      case False
      then show ?thesis using less.prems Cons
        by (auto split: if_splits dest!: less.hyps [rotated])
    qed
  qed (use less.prems in simp)
qed

lemma parse_number_length: "parse_number s = Some (v, r) \<Longrightarrow> json_fuel v = 0 \<and> length r < length s"
proof -
  assume p: "parse_number s = Some (v, r)"
  have v: "json_fuel v = 0" using p by (auto simp: parse_number_def Let_def split: if_splits)
  define s1 where "s1 = (if s \<noteq> [] \<and> hd s = CHR ''-'' then tl s else s)"
  have ne: "takeWhile is_digit s1 \<noteq> []" and r: "r = dropWhile is_digit s1"
    using p by (auto simp: parse_number_def Let_def s1_def split: if_splits)
  have "length (dropWhile is_digit s1) < length s1"
    using ne length_dropWhile_le [of is_digit "tl s1"] by (cases s1) (auto split: if_splits)
  moreover have "length s1 \<le> length s" by (simp add: s1_def)
  ultimately show ?thesis using r v by simp
qed

lemma skip_ws_Cons_length: "skip_ws x = c # t \<Longrightarrow> length t < length x"
  using length_skip_ws [of x] by simp

lemma parse_elems_length_step:
  assumes ih: "\<And>s v r. parse_value n s = Some (v, r) \<Longrightarrow> length r + json_fuel v < length s"
    and ihe: "\<And>s vs r. parse_elems n s = Some (vs, r) \<Longrightarrow> length r + sum_list (map (\<lambda>x. Suc (json_fuel x)) vs) < length s"
    and p: "parse_elems (Suc n) s = Some (vs, r)"
  shows "length r + sum_list (map (\<lambda>x. Suc (json_fuel x)) vs) < length s"
  using p by (auto split: option.splits list.splits if_splits dest!: ih ihe skip_ws_Cons_length)

lemma parse_members_length_step:
  assumes ih: "\<And>s v r. parse_value n s = Some (v, r) \<Longrightarrow> length r + json_fuel v < length s"
    and ihm: "\<And>s kvs r. parse_members n s = Some (kvs, r) \<Longrightarrow>
                length r + sum_list (map (\<lambda>kv. Suc (json_fuel (snd kv))) kvs) < length s"
    and p: "parse_members (Suc n) s = Some (kvs, r)"
  shows "length r + sum_list (map (\<lambda>kv. Suc (json_fuel (snd kv))) kvs) < length s"
  using p by (auto split: option.splits list.splits if_splits
      dest!: ih ihm skip_ws_Cons_length parse_string_length)

lemma parse_value_length_step:
  assumes ihe: "\<And>s vs r. parse_elems n s = Some (vs, r) \<Longrightarrow>
                length r + sum_list (map (\<lambda>x. Suc (json_fuel x)) vs) < length s"
    and ihm: "\<And>s kvs r. parse_members n s = Some (kvs, r) \<Longrightarrow>
                length r + sum_list (map (\<lambda>kv. Suc (json_fuel (snd kv))) kvs) < length s"
    and p: "parse_value (Suc n) s = Some (v, r)"
  shows "length r + json_fuel v < length s"
proof (cases "skip_ws s")
  case (Cons c t)
  have t: "length t < length s" using Cons by (rule skip_ws_Cons_length)
  show ?thesis
    using p Cons t
    by (auto split: option.splits list.splits if_splits
        dest!: ihe ihm skip_ws_Cons_length parse_string_length parse_number_length)
qed (use p in simp)

lemma parse_elems_fuel_step:
  assumes ih: "\<And>s v r m. parse_value n s = Some (v, r) \<Longrightarrow> json_fuel v < m \<Longrightarrow> parse_value m s = Some (v, r)"
    and ihe: "\<And>s vs r m. parse_elems n s = Some (vs, r) \<Longrightarrow> sum_list (map (\<lambda>x. Suc (json_fuel x)) vs) < m \<Longrightarrow>
                parse_elems m s = Some (vs, r)"
    and p: "parse_elems (Suc n) s = Some (vs, r)"
    and f: "sum_list (map (\<lambda>x. Suc (json_fuel x)) vs) < m"
  shows "parse_elems m s = Some (vs, r)"
proof -
  obtain m' where m: "m = Suc m'" using f by (cases m) auto
  obtain v r0 where pv: "parse_value n s = Some (v, r0)"
    using p by (auto split: option.splits)
  obtain c r' where sk: "skip_ws r0 = c # r'"
    using p pv by (auto split: list.splits)
  show ?thesis
  proof (cases "c = CHR '',''")
    case True
    then obtain vs' where e: "parse_elems n r' = Some (vs', r)" and vs: "vs = v # vs'"
      using p pv sk by (auto split: option.splits)
    have "parse_value m' s = Some (v, r0)" using ih [OF pv] f m vs by simp
    moreover have "parse_elems m' r' = Some (vs', r)" using ihe [OF e] f m vs by simp
    ultimately show ?thesis using m sk True vs by simp
  next
    case False
    then have "c = CHR '']''" "vs = [v]" "r = r'" using p pv sk by (auto split: if_splits)
    moreover have "parse_value m' s = Some (v, r0)" using ih [OF pv] f m calculation by simp
    ultimately show ?thesis using m sk by simp
  qed
qed

lemma parse_members_fuel_step:
  assumes ih: "\<And>s v r m. parse_value n s = Some (v, r) \<Longrightarrow> json_fuel v < m \<Longrightarrow> parse_value m s = Some (v, r)"
    and ihm: "\<And>s kvs r m. parse_members n s = Some (kvs, r) \<Longrightarrow>
                sum_list (map (\<lambda>kv. Suc (json_fuel (snd kv))) kvs) < m \<Longrightarrow> parse_members m s = Some (kvs, r)"
    and p: "parse_members (Suc n) s = Some (kvs, r)"
    and f: "sum_list (map (\<lambda>kv. Suc (json_fuel (snd kv))) kvs) < m"
  shows "parse_members m s = Some (kvs, r)"
proof -
  obtain m' where m: "m = Suc m'" using f by (cases m) auto
  obtain t k r1 r2 v r3 c r4 where
    sk: "skip_ws s = CHR 0x22 # t" and ps: "parse_string t = Some (k, r1)"
    and sk1: "skip_ws r1 = CHR '':'' # r2" and pv: "parse_value n r2 = Some (v, r3)"
    and sk3: "skip_ws r3 = c # r4"
    using p by (auto split: list.splits option.splits if_splits)
  show ?thesis
  proof (cases "c = CHR '',''")
    case True
    then obtain kvs' where e: "parse_members n r4 = Some (kvs', r)" and kvs: "kvs = (k, v) # kvs'"
      using p sk ps sk1 pv sk3 by (auto split: option.splits)
    have "parse_value m' r2 = Some (v, r3)" using ih [OF pv] f m kvs by simp
    moreover have "parse_members m' r4 = Some (kvs', r)" using ihm [OF e] f m kvs by simp
    ultimately show ?thesis using m sk ps sk1 sk3 True kvs by simp
  next
    case False
    then have "c = CHR ''}''" "kvs = [(k, v)]" "r = r4"
      using p sk ps sk1 pv sk3 by (auto split: if_splits)
    moreover have "parse_value m' r2 = Some (v, r3)" using ih [OF pv] f m calculation by simp
    ultimately show ?thesis using m sk ps sk1 sk3 by simp
  qed
qed

lemma parse_value_fuel_step:
  assumes ihe: "\<And>s vs r m. parse_elems n s = Some (vs, r) \<Longrightarrow> sum_list (map (\<lambda>x. Suc (json_fuel x)) vs) < m \<Longrightarrow>
                parse_elems m s = Some (vs, r)"
    and ihm: "\<And>s kvs r m. parse_members n s = Some (kvs, r) \<Longrightarrow>
                sum_list (map (\<lambda>kv. Suc (json_fuel (snd kv))) kvs) < m \<Longrightarrow> parse_members m s = Some (kvs, r)"
    and p: "parse_value (Suc n) s = Some (v, r)"
    and f: "json_fuel v < m"
  shows "parse_value m s = Some (v, r)"
proof -
  obtain m' where m: "m = Suc m'" using f by (cases m) auto
  obtain c t where sk: "skip_ws s = c # t" using p by (auto split: list.splits)
  consider (arr) "c = CHR ''[''" | (obj) "c = CHR ''{''" | (other) "c \<noteq> CHR ''[''" "c \<noteq> CHR ''{''"
    by blast
  then show ?thesis
  proof cases
    case other
    then show ?thesis using p sk m by simp
  next
    case arr
    obtain d t' where sk': "skip_ws t = d # t'" using p sk arr by (auto split: list.splits)
    show ?thesis
    proof (cases "d = CHR '']''")
      case True
      then show ?thesis using p sk sk' arr m by simp
    next
      case False
      then obtain xs where e: "parse_elems n t = Some (xs, r)" and v: "v = JArr xs"
        using p sk sk' arr by (auto split: option.splits)
      have "parse_elems m' t = Some (xs, r)" using ihe [OF e] f m v by simp
      then show ?thesis using sk sk' arr m v False by simp
    qed
  next
    case obj
    obtain d t' where sk': "skip_ws t = d # t'" using p sk obj by (auto split: list.splits)
    show ?thesis
    proof (cases "d = CHR ''}''")
      case True
      then show ?thesis using p sk sk' obj m by simp
    next
      case False
      then obtain kvs where e: "parse_members n t = Some (kvs, r)" and v: "v = JObj kvs"
        using p sk sk' obj by (auto split: option.splits)
      have "parse_members m' t = Some (kvs, r)" using ihm [OF e] f m v by simp
      then show ?thesis using sk sk' obj m v False by simp
    qed
  qed
qed

lemma parse_length:
  "(\<forall>s v r. parse_value n s = Some (v, r) \<longrightarrow> length r + json_fuel v < length s) \<and>
   (\<forall>s vs r. parse_elems n s = Some (vs, r) \<longrightarrow> length r + sum_list (map (\<lambda>x. Suc (json_fuel x)) vs) < length s) \<and>
   (\<forall>s kvs r. parse_members n s = Some (kvs, r) \<longrightarrow>
      length r + sum_list (map (\<lambda>kv. Suc (json_fuel (snd kv))) kvs) < length s)"
proof (induction n)
  case (Suc n)
  then have a: "\<And>s v r. parse_value n s = Some (v, r) \<Longrightarrow> length r + json_fuel v < length s"
    and b: "\<And>s vs r. parse_elems n s = Some (vs, r) \<Longrightarrow>
              length r + sum_list (map (\<lambda>x. Suc (json_fuel x)) vs) < length s"
    and c: "\<And>s kvs r. parse_members n s = Some (kvs, r) \<Longrightarrow>
              length r + sum_list (map (\<lambda>kv. Suc (json_fuel (snd kv))) kvs) < length s"
    by blast+
  show ?case
  proof (intro conjI allI impI)
    fix s v r assume "parse_value (Suc n) s = Some (v, r)"
    with b c show "length r + json_fuel v < length s" by (rule parse_value_length_step)
  next
    fix s vs r assume "parse_elems (Suc n) s = Some (vs, r)"
    with a b show "length r + sum_list (map (\<lambda>x. Suc (json_fuel x)) vs) < length s"
      by (rule parse_elems_length_step)
  next
    fix s kvs r assume "parse_members (Suc n) s = Some (kvs, r)"
    with a c show "length r + sum_list (map (\<lambda>kv. Suc (json_fuel (snd kv))) kvs) < length s"
      by (rule parse_members_length_step)
  qed
qed simp

lemma parse_fuel:
  "(\<forall>s v r m. parse_value n s = Some (v, r) \<longrightarrow> json_fuel v < m \<longrightarrow> parse_value m s = Some (v, r)) \<and>
   (\<forall>s vs r m. parse_elems n s = Some (vs, r) \<longrightarrow> sum_list (map (\<lambda>x. Suc (json_fuel x)) vs) < m \<longrightarrow>
      parse_elems m s = Some (vs, r)) \<and>
   (\<forall>s kvs r m. parse_members n s = Some (kvs, r) \<longrightarrow>
      sum_list (map (\<lambda>kv. Suc (json_fuel (snd kv))) kvs) < m \<longrightarrow> parse_members m s = Some (kvs, r))"
proof (induction n)
  case (Suc n)
  then have a: "\<And>s v r m. parse_value n s = Some (v, r) \<Longrightarrow> json_fuel v < m \<Longrightarrow> parse_value m s = Some (v, r)"
    and b: "\<And>s vs r m. parse_elems n s = Some (vs, r) \<Longrightarrow> sum_list (map (\<lambda>x. Suc (json_fuel x)) vs) < m \<Longrightarrow>
              parse_elems m s = Some (vs, r)"
    and c: "\<And>s kvs r m. parse_members n s = Some (kvs, r) \<Longrightarrow>
              sum_list (map (\<lambda>kv. Suc (json_fuel (snd kv))) kvs) < m \<Longrightarrow> parse_members m s = Some (kvs, r)"
    by blast+
  show ?case
  proof (intro conjI allI impI)
    fix s v r m assume "parse_value (Suc n) s = Some (v, r)" "json_fuel v < m"
    with b c show "parse_value m s = Some (v, r)" by (rule parse_value_fuel_step)
  next
    fix s vs r m assume "parse_elems (Suc n) s = Some (vs, r)" "sum_list (map (\<lambda>x. Suc (json_fuel x)) vs) < m"
    with a b show "parse_elems m s = Some (vs, r)" by (rule parse_elems_fuel_step)
  next
    fix s kvs r m assume "parse_members (Suc n) s = Some (kvs, r)"
      "sum_list (map (\<lambda>kv. Suc (json_fuel (snd kv))) kvs) < m"
    with a c show "parse_members m s = Some (kvs, r)" by (rule parse_members_fuel_step)
  qed
qed simp

lemma json_parse_iff_some_fuel:
  "json_parse s = Some v \<longleftrightarrow> (\<exists>n r. parse_value n s = Some (v, r) \<and> skip_ws r = [])"
proof
  assume "json_parse s = Some v"
  then show "\<exists>n r. parse_value n s = Some (v, r) \<and> skip_ws r = []"
    unfolding json_parse_def
    by (auto split: option.splits if_splits simp del: parse_value.simps intro!: exI [of _ "Suc (length s)"])
next
  assume "\<exists>n r. parse_value n s = Some (v, r) \<and> skip_ws r = []"
  then obtain n r where p: "parse_value n s = Some (v, r)" and r: "skip_ws r = []" by blast
  have "length r + json_fuel v < length s"
    using parse_length [of n] p by blast
  then have "json_fuel v < Suc (length s)" by simp
  then have "parse_value (Suc (length s)) s = Some (v, r)"
    using parse_fuel [of n] p by blast
  then show "json_parse s = Some v" using r by (simp add: json_parse_def del: parse_value.simps)
qed

end
