(* ===== verification/Wire.thy ===== *)
theory Wire
  imports JsonParse Hex
begin

text \<open>
  The wire contract (specification, sections 3, 6 and 7), modelled from the
  specification and from the documented behaviour of axios, which the sources only
  call: what an axios call puts on the wire and how the exchange authenticates it.
  \<^item> \<open>http_request\<close>: the method, the URL, the header object and the data handed
    to axios; \<open>axios_error\<close>: the error object axios rejects with (its message and,
    when the server answered, \<open>response.data\<close>); a \<open>transport\<close> maps a request to a
    response body or an error.
  \<^item> \<open>wire_headers\<close>, \<open>wire_body\<close>: axios drops undefined, null and false
    header values and converts the others with \<open>String\<close>; it serialises the body by
    the request's content type (\<open>transformRequest\<close>): an object or array with
    \<open>JSON.stringify\<close> unless a form type is set, a string under a JSON type trimmed
    when \<open>JSON.parse\<close> accepts it and quoted otherwise, any other value under a JSON
    type with \<open>JSON.stringify\<close>; without one a string is sent as it is, a falsy value
    sends no body, and a truthy number or boolean is refused before sending.
  \<^item> \<open>server_accepts\<close>: the exchange looks the API key up, recomputes the MAC over
    \<open>verb + path + api-expires + body\<close> with the path of the URL (from its first
    slash after the host), and accepts when it equals \<open>api-signature\<close> and the
    expiry (seconds) is after its clock. \<open>exchange\<close> is the transport that answers
    accepted requests with \<open>respond\<close> and others with a 401 error body.
\<close>

record http_request =
  req_method :: string
  req_url :: string
  req_headers :: "(string \<times> jv) list"
  req_data :: jv

record axios_error =
  err_message :: string
  err_response :: "jv option"

type_synonym transport = "http_request \<Rightarrow> axios_error + jv"

text \<open>
  A header object is an \<open>AxiosHeaders\<close>: names match case-insensitively after
  trimming, a later value replaces an earlier one unless that one is \<open>false\<close>, and
  \<open>null\<close>, \<open>false\<close> and undefined values are not sent.
\<close>

definition header_sent :: "jv \<Rightarrow> bool" where
  "header_sent v \<longleftrightarrow> v \<noteq> JUndefined \<and> v \<noteq> JNull \<and> v \<noteq> JBool False"

definition wire_headers :: "(string \<times> jv) list \<Rightarrow> (string \<times> string) list" where
  "wire_headers hs = map (\<lambda>(k, v). (k, js_to_string v)) (filter (\<lambda>(k, v). header_sent v) hs)"

definition content_type_value :: "(string \<times> jv) list \<Rightarrow> jv" where
  "content_type_value hs =
     fold (\<lambda>(k, v) cur. if js_to_upper (js_trim k) = ''CONTENT-TYPE'' \<and> cur \<noteq> JBool False then v else cur)
          hs JUndefined"

text \<open>\<open>s.indexOf(p) > -1\<close> on strings.\<close>
fun str_contains :: "string \<Rightarrow> string \<Rightarrow> bool" where
  "str_contains p [] \<longleftrightarrow> p = []"
| "str_contains p (c # cs) \<longleftrightarrow> take (length p) (c # cs) = p \<or> str_contains p cs"

text \<open>
  \<open>(headers.getContentType() || '''').indexOf(p) > -1\<close>: a header array is searched for
  an element equal to \<open>p\<close> (its elements normalised with \<open>String\<close>), any other
  value for the substring \<open>p\<close>.
\<close>
definition header_elem :: "jv \<Rightarrow> string option" where
  "header_elem v = (case v of JArr _ \<Rightarrow> None | JUndefined \<Rightarrow> None | JNull \<Rightarrow> None
                    | JBool b \<Rightarrow> if b then Some ''true'' else None | _ \<Rightarrow> Some (js_to_string v))"

definition ct_has :: "(string \<times> jv) list \<Rightarrow> string \<Rightarrow> bool" where
  "ct_has hs p = (case content_type_value hs of
       JUndefined \<Rightarrow> False
     | JNull \<Rightarrow> False
     | JBool b \<Rightarrow> b \<and> str_contains p ''true''
     | JArr vs \<Rightarrow> Some p \<in> set (map header_elem vs)
     | v \<Rightarrow> str_contains p (js_to_string v))"

definition json_content :: "(string \<times> jv) list \<Rightarrow> bool" where
  "json_content hs = ct_has hs ''application/json''"

definition form_content :: "(string \<times> jv) list \<Rightarrow> bool" where
  "form_content hs \<longleftrightarrow> ct_has hs ''application/x-www-form-urlencoded'' \<or> ct_has hs ''multipart/form-data''"

text \<open>
  axios's \<open>transformRequest\<close> followed by its Node adapter. An object or an array is
  sent with \<open>JSON.stringify\<close>, unless the content type asks for a form: then it is
  URL-encoded or sent as a multipart body with a random boundary, which the
  development leaves abstract as the parameter \<open>form\<close>. Under a JSON content type a
  string that \<open>JSON.parse\<close> accepts is sent trimmed, any other string and any other
  value through \<open>JSON.stringify\<close> (undefined: no body). Otherwise a string is sent as
  it is, a falsy value sends no body, and a truthy number or boolean is refused.
\<close>
type_synonym form_encoder = "(string \<times> jv) list \<Rightarrow> jv \<Rightarrow> string"

definition wire_body :: "form_encoder \<Rightarrow> (string \<times> jv) list \<Rightarrow> jv \<Rightarrow> string option" where
  "wire_body form hs d = (case d of
       JObj _ \<Rightarrow> if form_content hs then Some (form hs d) else json_stringify d
     | JArr _ \<Rightarrow> if form_content hs then Some (form hs d) else json_stringify d
     | JStr s \<Rightarrow> if json_content hs then (if json_valid s then Some (js_trim s) else json_stringify d)
                 else Some s
     | _ \<Rightarrow> if json_content hs then Some (case json_stringify d of None \<Rightarrow> [] | Some b \<Rightarrow> b)
            else if js_truthy d then None else Some [])"

definition url_path :: "string \<Rightarrow> string" where
  "url_path u = dropWhile (\<lambda>c. c \<noteq> CHR ''/'')
                  (if take 8 u = ''https://'' then drop 8 u
                   else if take 7 u = ''http://'' then drop 7 u else u)"

definition server_accepts ::
  "(string \<Rightarrow> string option) \<Rightarrow> mac \<Rightarrow> int \<Rightarrow> string \<Rightarrow> string \<Rightarrow> (string \<times> string) list \<Rightarrow> string \<Rightarrow> bool" where
  "server_accepts keys hmac t verb url hs body \<longleftrightarrow>
     (case (map_of hs ''api-key'', map_of hs ''api-expires'', map_of hs ''api-signature'') of
        (Some k, Some ex, Some sig) \<Rightarrow>
          (case (keys k, parse_int ex) of
             (Some secret, Some e) \<Rightarrow> t < e \<and> sig = hex_encode (hmac secret (verb @ url_path url @ ex @ body))
           | _ \<Rightarrow> False)
      | _ \<Rightarrow> False)"

definition rejection :: "string \<Rightarrow> axios_error" where
  "rejection msg = \<lparr>err_message = ''Request failed with status code 401'',
                    err_response = Some (JObj [(''error'', JObj [(''message'', JStr msg),
                                                                  (''name'', JStr ''HTTPError'')])])\<rparr>"

definition exchange ::
  "form_encoder \<Rightarrow> (string \<Rightarrow> string option) \<Rightarrow> mac \<Rightarrow> int \<Rightarrow> (http_request \<Rightarrow> jv) \<Rightarrow> transport" where
  "exchange form keys hmac t respond req =
     (case wire_body form (req_headers req) (req_data req) of
        None \<Rightarrow> Inl \<lparr>err_message = ''Data after transformation must be a string, an ArrayBuffer, a Buffer, or a Stream'',
                    err_response = None\<rparr>
      | Some body \<Rightarrow>
          if server_accepts keys hmac t (req_method req) (req_url req) (wire_headers (req_headers req)) body
          then Inr (respond req) else Inl (rejection ''Signature not valid.''))"

text \<open>A payload axios serialises with \<open>JSON.stringify\<close>: an object or an array.\<close>
definition is_object_payload :: "jv \<Rightarrow> bool" where
  "is_object_payload v = (case v of JObj _ \<Rightarrow> True | JArr _ \<Rightarrow> True | _ \<Rightarrow> False)"

text \<open>An injective MAC, used to instantiate the theorems that assume injectivity.\<close>
definition echo_mac :: mac where
  "echo_mac k m = map (\<lambda>c. of_nat (of_char c)) (k @ m)"

lemma url_path_api_base:
  assumes "CHR ''/'' \<notin> set host"
  shows "url_path (''https://'' @ host @ ''/api/v1'' @ p) = ''/api/v1'' @ p"
proof -
  have "dropWhile (\<lambda>c. c \<noteq> CHR ''/'') (host @ ''/api/v1'' @ p) = ''/api/v1'' @ p"
    using assms by (auto simp: dropWhile_append3)
  then show ?thesis by (simp add: url_path_def)
qed

lemma echo_mac_inj: "inj (echo_mac k)"
proof (rule injI)
  fix m1 m2 assume "echo_mac k m1 = echo_mac k m2"
  then have "map (\<lambda>c. (of_nat (of_char c) :: byte)) m1 = map (\<lambda>c. of_nat (of_char c)) m2"
    by (simp add: echo_mac_def)
  moreover have "inj (\<lambda>c. (of_nat (of_char c) :: byte))"
  proof (rule injI)
    fix c d :: char
    assume "(of_nat (of_char c) :: byte) = of_nat (of_char d)"
    then have "unat (of_nat (of_char c) :: byte) = unat (of_nat (of_char d) :: byte)" by simp
    then have "(of_char c :: nat) = of_char d" by (simp add: unat_of_nat)
    then show "c = d" by simp
  qed
  ultimately show "m1 = m2" by (simp add: inj_map_eq_map)
qed

lemma wire_headers_Cons [simp]:
  "wire_headers ((k, v) # hs) = (if header_sent v then (k, js_to_string v) # wire_headers hs else wire_headers hs)"
  "wire_headers [] = []"
  by (simp_all add: wire_headers_def)

lemma header_sent_simps [simp]:
  "header_sent (JStr s)" "header_sent (JNum i)" "\<not> header_sent JUndefined"
  by (simp_all add: header_sent_def)

lemma object_payload_stringify: "is_object_payload v \<Longrightarrow> \<exists>b. json_stringify v = Some b"
  by (cases v) (simp_all add: is_object_payload_def)

lemma object_payload_wire:
  "is_object_payload v \<Longrightarrow> \<not> form_content hs \<Longrightarrow> wire_body form hs v = json_stringify v"
  by (cases v) (simp_all add: is_object_payload_def wire_body_def)

lemma echo_mac_inj_all: "\<forall>k. inj (echo_mac k)"
  using echo_mac_inj by blast

end
