(* ===== verification/Service.thy ===== *)
theory Service
  imports Auth Config Wire
begin

text \<open>
  src/services/bitmex.service.ts, class \<open>BitMEXService\<close>. The service's state is
  its three read-only fields, read by the constructor from the process environment
  (a missing variable is \<open>undefined\<close>, whatever the \<open>!\<close> assertion claims) and
  from the configuration. Each operation takes the MAC, the service, the clock
  (milliseconds) and the transport, and returns what the \<open>async\<close> method settles
  with (a value, or the exception it throws) together with what it writes to the
  console. \<open>handleError\<close> returns the error it builds (\<open>Inr\<close> message) or raises
  the TypeError of reading a property of undefined or null (\<open>Inl\<close>); either is
  what \<open>throw this.handleError(error)\<close> throws. The TypeError that
  \<open>generateSignature\<close> raises on a missing secret is caught by the surrounding
  \<open>try\<close> in \<open>getPositions\<close> and \<open>getInstruments\<close>, and escapes \<open>createOrder\<close>,
  where the call precedes the \<open>try\<close>.
\<close>

record bitmex_service =
  apiKey :: "string option"
  apiSecret :: "string option"
  baseUrl :: string

type_synonym console = "(string \<times> jv) list"

definition BitMEXService_new :: "env \<Rightarrow> bitmex_config \<Rightarrow> bitmex_service" where
  "BitMEXService_new e cfg =
     \<lparr>apiKey = e ''BITMEX_API_KEY'', apiSecret = e ''BITMEX_API_SECRET'',
      baseUrl = (if isTestnet cfg then url_testnet cfg else url_mainnet cfg)\<rparr>"

definition BitMEXService_generateSignature ::
  "mac \<Rightarrow> bitmex_service \<Rightarrow> string \<Rightarrow> string \<Rightarrow> int \<Rightarrow> string option \<Rightarrow> js_exn + string" where
  "BitMEXService_generateSignature hmac svc method path expires data =
     (let message = method @ ''/api/v1'' @ path @ js_int_str expires
                    @ (case data of None \<Rightarrow> [] | Some d \<Rightarrow> d)
      in case apiSecret svc of
           None \<Rightarrow> Inl (undefined_read ''trim'')
         | Some s \<Rightarrow> Inr (hex_encode (hmac (js_trim s) message)))"

definition handleError :: "axios_error \<Rightarrow> js_exn + string" where
  "handleError error =
     (case err_response error of
        Some data \<Rightarrow>
          (case js_get data ''error'' of
             Inl ex \<Rightarrow> Inl ex
           | Inr e \<Rightarrow>
               (case js_get_opt e ''message'' of
                  Inl ex \<Rightarrow> Inl ex
                | Inr m \<Rightarrow> Inr (''BitMEX API Error: '' @ js_to_string (js_or m (JStr (err_message error))))))
      | None \<Rightarrow> Inr (''Network Error: '' @ err_message error))"

text \<open>\<open>throw this.handleError(error)\<close>\<close>
definition throw_handled :: "js_exn + string \<Rightarrow> js_exn" where
  "throw_handled r = (case r of Inl ex \<Rightarrow> ex | Inr msg \<Rightarrow> Error msg)"

text \<open>An exception raised inside a \<open>try\<close> block, as the \<open>catch\<close> sees it.\<close>
definition caught_exn :: "js_exn \<Rightarrow> axios_error" where
  "caught_exn ex = (case ex of TypeError m \<Rightarrow> \<lparr>err_message = m, err_response = None\<rparr>
                             | Error m \<Rightarrow> \<lparr>err_message = m, err_response = None\<rparr>)"

text \<open>The signed GET both read operations send.\<close>
definition get_request :: "bitmex_service \<Rightarrow> string \<Rightarrow> int \<Rightarrow> string \<Rightarrow> http_request" where
  "get_request svc path expires signature =
     \<lparr>req_method = ''GET'', req_url = baseUrl svc @ path,
      req_headers = [(''api-expires'', JStr (js_int_str expires)), (''api-key'', opt_jv (apiKey svc)),
                     (''api-signature'', JStr signature), (''Content-Type'', JStr ''application/json'')],
      req_data = JUndefined\<rparr>"

definition getPositions ::
  "mac \<Rightarrow> bitmex_service \<Rightarrow> int \<Rightarrow> transport \<Rightarrow> (js_exn + jv) \<times> console" where
  "getPositions hmac svc now net =
     (let path = ENDPOINTS POSITION;
          expires = round_ms_to_s now + 60
      in case BitMEXService_generateSignature hmac svc ''GET'' path expires None of
           Inl ex \<Rightarrow> (Inl (throw_handled (handleError (caught_exn ex))), [])
         | Inr signature \<Rightarrow>
             (case net (get_request svc path expires signature) of
                Inr data \<Rightarrow> (Inr data, [])
              | Inl error \<Rightarrow>
                  (Inl (throw_handled (handleError error)),
                   (case err_response error of
                      Some d \<Rightarrow> if js_truthy d then [(''BitMEX API Error Response:'', d)] else []
                    | None \<Rightarrow> []))))"

definition createOrder ::
  "mac \<Rightarrow> bitmex_service \<Rightarrow> int \<Rightarrow> transport \<Rightarrow> jv \<Rightarrow> (js_exn + jv) \<times> console" where
  "createOrder hmac svc now net orderData =
     (let path = ENDPOINTS ORDER;
          expires = round_ms_to_s now + 60
      in case BitMEXService_generateSignature hmac svc ''POST'' path expires (json_stringify orderData) of
           Inl ex \<Rightarrow> (Inl ex, [])
         | Inr signature \<Rightarrow>
             (case net \<lparr>req_method = ''POST'', req_url = baseUrl svc @ path,
                        req_headers = [(''api-expires'', JNum expires), (''api-key'', opt_jv (apiKey svc)),
                                       (''api-signature'', JStr signature)],
                        req_data = orderData\<rparr> of
                Inr data \<Rightarrow> (Inr data, [])
              | Inl error \<Rightarrow> (Inl (throw_handled (handleError error)), [])))"

definition getInstruments ::
  "mac \<Rightarrow> bitmex_service \<Rightarrow> int \<Rightarrow> transport \<Rightarrow> jv \<Rightarrow> (js_exn + jv) \<times> console" where
  "getInstruments hmac svc now net params =
     (let path = ENDPOINTS INSTRUMENT;
          expires = round_ms_to_s now + 60;
          verb = ''GET''
      in case BitMEXService_generateSignature hmac svc verb path expires None of
           Inl ex \<Rightarrow> (Inl (throw_handled (handleError (caught_exn ex))),
                      [(''Full error response:'', JUndefined)])
         | Inr signature \<Rightarrow>
             (case net (get_request svc path expires signature) of
                Inr data \<Rightarrow> (Inr data, [])
              | Inl error \<Rightarrow>
                  (Inl (throw_handled (handleError error)),
                   [(''Full error response:'', case err_response error of Some d \<Rightarrow> d | None \<Rightarrow> JUndefined)])))"

text \<open>
  A concrete setting for the examples that instantiate the theorems: a service on the
  testnet whose secret carries surrounding white space, and an exchange that knows
  its key with the trimmed secret.
\<close>
definition demo_service :: bitmex_service where
  "demo_service = \<lparr>apiKey = Some ''key'', apiSecret = Some '' abc123 '',
                   baseUrl = ''https://testnet.bitmex.com/api/v1''\<rparr>"

definition demo_keys :: "string \<Rightarrow> string option" where
  "demo_keys k = (if k = ''key'' then Some ''abc123'' else None)"

subsection \<open>Requests the exchange accepts\<close>

lemma service_signature_Some:
  "apiSecret svc = Some s \<Longrightarrow>
   BitMEXService_generateSignature hmac svc m p e d =
     Inr (hex_encode (hmac (js_trim s) (m @ ''/api/v1'' @ p @ js_int_str e @ (case d of None \<Rightarrow> [] | Some x \<Rightarrow> x))))"
  by (simp add: BitMEXService_generateSignature_def)

lemma service_signature_None:
  "apiSecret svc = None \<Longrightarrow> BitMEXService_generateSignature hmac svc m p e d = Inl (undefined_read ''trim'')"
  by (simp add: BitMEXService_generateSignature_def)

lemma expires_after_server_clock:
  "1000 * t \<le> now + 59500 \<Longrightarrow> t < round_ms_to_s now + 60"
  unfolding round_ms_to_s_def by linarith

text \<open>The hypotheses under which the exchange authenticates the service's requests.\<close>
definition service_registered ::
  "(string \<Rightarrow> string option) \<Rightarrow> bitmex_service \<Rightarrow> string \<Rightarrow> bool" where
  "service_registered keys svc host \<longleftrightarrow>
     (\<exists>k s. apiKey svc = Some k \<and> apiSecret svc = Some s \<and> keys k = Some (js_trim s))
     \<and> baseUrl svc = api_base host \<and> CHR ''/'' \<notin> set host"

text \<open>\<open>createOrder\<close>'s header object names no content type.\<close>
lemma order_headers_no_ct:
  "\<not> json_content [(''api-expires'', x), (''api-key'', y), (''api-signature'', z)]"
  "\<not> form_content [(''api-expires'', x), (''api-key'', y), (''api-signature'', z)]"
proof -
  have "content_type_value [(''api-expires'', x), (''api-key'', y), (''api-signature'', z)] = JUndefined"
    by (simp add: content_type_value_def js_trim_def js_whitespace_def js_to_upper_def ascii_upper_def js_eval)
  then show "\<not> json_content [(''api-expires'', x), (''api-key'', y), (''api-signature'', z)]"
    "\<not> form_content [(''api-expires'', x), (''api-key'', y), (''api-signature'', z)]"
    by (simp_all add: json_content_def form_content_def ct_has_def)
qed

lemma service_request_accepted:
  assumes reg: "service_registered keys svc host"
    and body: "wire_body form hdrs data = Some b" and hs: "wire_headers hdrs =
        [(''api-expires'', js_int_str e), (''api-key'', the (apiKey svc)), (''api-signature'', sig)] @ rest"
    and sig: "BitMEXService_generateSignature hmac svc m p e (Some b) = Inr sig"
    and t: "t < e"
  shows "exchange form keys hmac t respond
           \<lparr>req_method = m, req_url = baseUrl svc @ p, req_headers = hdrs, req_data = data\<rparr> =
         Inr (respond \<lparr>req_method = m, req_url = baseUrl svc @ p, req_headers = hdrs, req_data = data\<rparr>)"
proof -
  obtain k s where k: "apiKey svc = Some k" "apiSecret svc = Some s" "keys k = Some (js_trim s)"
    and u: "baseUrl svc = api_base host" "CHR ''/'' \<notin> set host"
    using reg by (auto simp: service_registered_def)
  have "url_path (baseUrl svc @ p) = ''/api/v1'' @ p"
    using u url_path_api_base by (simp add: api_base_def)
  with k sig t have "server_accepts keys hmac t m (baseUrl svc @ p) (wire_headers hdrs) b"
    by (simp add: hs server_accepts_def service_signature_Some)
  with body show ?thesis by (simp add: exchange_def)
qed

lemma get_request_wire:
  "wire_body form (req_headers (get_request svc p e sig)) (req_data (get_request svc p e sig)) = Some []"
  "apiKey svc = Some k \<Longrightarrow> wire_headers (req_headers (get_request svc p e sig)) =
     [(''api-expires'', js_int_str e), (''api-key'', k), (''api-signature'', sig),
      (''Content-Type'', ''application/json'')]"
  by (simp_all add: get_request_def wire_body_def opt_jv_def)

lemma handleError_response_Inr:
  "err_response error = Some d \<Longrightarrow> handleError error = Inr x \<Longrightarrow> \<exists>y. x = ''BitMEX API Error: '' @ y"
  by (auto simp: handleError_def split: sum.splits)

lemma handleError_rejection:
  "msg \<noteq> [] \<Longrightarrow> handleError (rejection msg) = Inr (''BitMEX API Error: '' @ msg)"
  by (simp add: handleError_def rejection_def js_get_opt_def js_nullish_def js_or_def)

lemma reads_exchange:
  assumes reg: "service_registered keys svc host" and in_time: "t < round_ms_to_s now + 60"
  shows "\<exists>sig. getPositions hmac svc now (exchange form keys hmac t respond) =
              (Inr (respond (get_request svc ''/position'' (round_ms_to_s now + 60) sig)), [])"
    and "\<exists>sig. getInstruments hmac svc now (exchange form keys hmac t respond) params =
              (Inr (respond (get_request svc ''/instrument'' (round_ms_to_s now + 60) sig)), [])"
proof -
  obtain k s where k: "apiKey svc = Some k" "apiSecret svc = Some s"
    using reg by (auto simp: service_registered_def)
  define e where "e = round_ms_to_s now + 60"
  have t: "t < e"
    using in_time unfolding e_def .
  have acc: "exchange form keys hmac t respond (get_request svc p e sig) = Inr (respond (get_request svc p e sig))"
    if "BitMEXService_generateSignature hmac svc ''GET'' p e None = Inr sig" for p sig
    unfolding get_request_def
    by (rule service_request_accepted [OF reg, where b = "[]" and
          rest = "[(''Content-Type'', ''application/json'')]"])
       (use k that t in \<open>simp_all add: wire_body_def opt_jv_def service_signature_Some\<close>)
  define sig where "sig p = hex_encode (hmac (js_trim s) (''GET'' @ ''/api/v1'' @ p @ js_int_str e @ []))"
    for p
  have sig: "BitMEXService_generateSignature hmac svc ''GET'' p e None = Inr (sig p)" for p
    using k by (simp add: service_signature_Some sig_def)
  have "getPositions hmac svc now (exchange form keys hmac t respond) =
          (Inr (respond (get_request svc ''/position'' e (sig ''/position''))), [])"
    using sig acc [OF sig] by (simp add: getPositions_def e_def [symmetric] Let_def)
  then show "\<exists>sig. getPositions hmac svc now (exchange form keys hmac t respond) =
              (Inr (respond (get_request svc ''/position'' (round_ms_to_s now + 60) sig)), [])"
    unfolding e_def by blast
  have "getInstruments hmac svc now (exchange form keys hmac t respond) params =
          (Inr (respond (get_request svc ''/instrument'' e (sig ''/instrument''))), [])"
    using sig acc [OF sig] by (simp add: getInstruments_def e_def [symmetric] Let_def)
  then show "\<exists>sig. getInstruments hmac svc now (exchange form keys hmac t respond) params =
              (Inr (respond (get_request svc ''/instrument'' (round_ms_to_s now + 60) sig)), [])"
    unfolding e_def by blast
qed

text \<open>A read that reaches the exchange after its expiry is rejected and normalised.\<close>
lemma positions_expired:
  assumes sec: "apiSecret svc = Some s" and late: "round_ms_to_s now + 60 \<le> t"
  shows "getPositions hmac svc now (exchange form keys hmac t respond) =
           (Inl (Error ''BitMEX API Error: Signature not valid.''),
            [(''BitMEX API Error Response:'', the (err_response (rejection ''Signature not valid.'')))])"
proof -
  define e where "e = round_ms_to_s now + 60"
  define sig where "sig = hex_encode (hmac (js_trim s) (''GET'' @ ''/api/v1'' @ ''/position'' @ js_int_str e @ []))"
  have sg: "BitMEXService_generateSignature hmac svc ''GET'' ''/position'' e None = Inr sig"
    using sec by (simp add: service_signature_Some sig_def)
  have "\<not> server_accepts keys hmac t ''GET'' (baseUrl svc @ ''/position'')
          (wire_headers (req_headers (get_request svc ''/position'' e sig))) []"
  proof (cases "apiKey svc")
    case None
    then show ?thesis by (simp add: server_accepts_def get_request_def opt_jv_def)
  next
    case (Some k)
    then show ?thesis using late
      by (simp add: server_accepts_def get_request_wire(2) e_def split: option.splits)
  qed
  then have "exchange form keys hmac t respond (get_request svc ''/position'' e sig) = Inl (rejection ''Signature not valid.'')"
    by (simp add: exchange_def get_request_wire(1)) (simp add: get_request_def)
  moreover obtain d where "err_response (rejection ''Signature not valid.'') = Some d" and "js_truthy d"
    by (simp add: rejection_def)
  ultimately show ?thesis
    using sg by (simp add: getPositions_def e_def [symmetric] Let_def handleError_rejection
        throw_handled_def)
qed

subsection \<open>Properties of the service\<close>

text \<open>
  C1: end to end, the service's read operations are accepted. When the API key is
  registered at the exchange with the trimmed secret, the base URL has the shape
  \<open>https://host/api/v1\<close>, and the exchange's clock is at most 59.5 seconds past the
  signing time, \<open>getPositions\<close> and \<open>getInstruments\<close> resolve with the exchange's
  answer to the GET they send and log nothing.
\<close>

theorem reads_accepted:
  assumes reg: "service_registered keys svc host" and clock: "1000 * t \<le> now + 59500"
  shows "(\<exists>req. getPositions hmac svc now (exchange form keys hmac t respond) = (Inr (respond req), [])
              \<and> req_method req = ''GET'' \<and> req_url req = baseUrl svc @ ''/position'') \<and>
         (\<exists>req. getInstruments hmac svc now (exchange form keys hmac t respond) params = (Inr (respond req), [])
              \<and> req_method req = ''GET'' \<and> req_url req = baseUrl svc @ ''/instrument'')"
  using reads_exchange(1) [OF reg expires_after_server_clock [OF clock], where hmac = hmac and form = form and respond = respond]
    reads_exchange(2) [OF reg expires_after_server_clock [OF clock], where hmac = hmac and form = form and respond = respond and params = params]
  by (auto simp: get_request_def)

lemma demo_registered: "service_registered demo_keys demo_service ''testnet.bitmex.com''"
  by (simp add: service_registered_def demo_service_def demo_keys_def api_base_def js_trim_def
      js_whitespace_def)

theorem reads_accepted_witness:
  "service_registered demo_keys demo_service ''testnet.bitmex.com'' \<and> 1000 * (1700000000::int) \<le> 1700000000000 + 59500 \<and>
   (\<exists>req :: http_request. getPositions echo_mac demo_service 1700000000000
            (exchange (\<lambda>_ _. []) demo_keys echo_mac 1700000000 (\<lambda>_. JArr [])) = (Inr (JArr []), [])
          \<and> req_method req = ''GET'' \<and> req_url req = baseUrl demo_service @ ''/position'')"
  using demo_registered reads_accepted [OF demo_registered, where t = 1700000000 and now = 1700000000000 and hmac = echo_mac and form = "\<lambda>_ _. []" and respond = "\<lambda>_. JArr []"]
  by auto

text \<open>
  C3: \<open>createOrder\<close> signs the body it sends. For an object or array payload the
  signed string \<open>JSON.stringify(orderData)\<close> is the body axios transmits, so under
  the same conditions as C1 the order is accepted, and the exchange reads from the
  body exactly the order (its undefined members dropped, as \<open>JSON.stringify\<close> does).
\<close>

theorem createOrder_object_accepted:
  assumes reg: "service_registered keys svc host" and clock: "1000 * t \<le> now + 59500"
    and obj: "is_object_payload orderData"
  shows "\<exists>req. createOrder hmac svc now (exchange form keys hmac t respond) orderData = (Inr (respond req), [])
              \<and> req_method req = ''POST'' \<and> req_url req = baseUrl svc @ ''/order'' \<and> req_data req = orderData
              \<and> Option.bind (wire_body form (req_headers req) (req_data req)) json_parse = Some (json_normal orderData)"
proof -
  obtain k s where k: "apiKey svc = Some k" "apiSecret svc = Some s"
    using reg by (auto simp: service_registered_def)
  obtain b where b: "json_stringify orderData = Some b"
    using object_payload_stringify [OF obj] by blast
  define e where "e = round_ms_to_s now + 60"
  have t: "t < e"
    using clock unfolding e_def by (rule expires_after_server_clock)
  define sig where "sig = hex_encode (hmac (js_trim s) (''POST'' @ ''/api/v1'' @ ''/order'' @ js_int_str e @ b))"
  have sg: "BitMEXService_generateSignature hmac svc ''POST'' ''/order'' e (Some b) = Inr sig"
    using k by (simp add: service_signature_Some sig_def)
  define req where "req = \<lparr>req_method = ''POST'', req_url = baseUrl svc @ ''/order'',
      req_headers = [(''api-expires'', JNum e), (''api-key'', opt_jv (apiKey svc)), (''api-signature'', JStr sig)],
      req_data = orderData\<rparr>"
  have "exchange form keys hmac t respond req = Inr (respond req)"
    unfolding req_def
    by (rule service_request_accepted [OF reg _ _ sg t, where rest = "[]"])
       (use k b(1) object_payload_wire [OF obj order_headers_no_ct(2)] in \<open>simp_all add: opt_jv_def\<close>)
  then have "createOrder hmac svc now (exchange form keys hmac t respond) orderData = (Inr (respond req), [])"
    using sg b(1) by (simp add: createOrder_def e_def [symmetric] Let_def req_def)
  then show ?thesis
    using b json_parse_stringify_normal [OF b(1)] object_payload_wire [OF obj order_headers_no_ct(2)]
    by (auto simp: req_def)
qed

theorem createOrder_object_accepted_witness:
  "service_registered demo_keys demo_service ''testnet.bitmex.com'' \<and> 1000 * (1700000000::int) \<le> 1700000000000 + 59500 \<and>
   is_object_payload (JObj [(''symbol'', JStr ''XBTUSD''), (''orderQty'', JNum 100)]) \<and>
   (\<exists>req :: http_request. createOrder echo_mac demo_service 1700000000000 (exchange (\<lambda>_ _. []) demo_keys echo_mac 1700000000 (\<lambda>_. JObj []))
            (JObj [(''symbol'', JStr ''XBTUSD''), (''orderQty'', JNum 100)]) = (Inr (JObj []), [])
          \<and> req_method req = ''POST'' \<and> req_url req = baseUrl demo_service @ ''/order''
          \<and> req_data req = JObj [(''symbol'', JStr ''XBTUSD''), (''orderQty'', JNum 100)]
          \<and> Option.bind (wire_body (\<lambda>_ _. []) (req_headers req) (req_data req)) json_parse = Some (JObj [(''symbol'', JStr ''XBTUSD''), (''orderQty'', JNum 100)]))"
proof -
  have o: "is_object_payload (JObj [(''symbol'', JStr ''XBTUSD''), (''orderQty'', JNum 100)])"
    by (simp add: is_object_payload_def)
  show ?thesis
    using demo_registered o createOrder_object_accepted [OF demo_registered _ o,
        where t = 1700000000 and now = 1700000000000 and hmac = echo_mac and form = "\<lambda>_ _. []" and respond = "\<lambda>_. JObj []"]
    by auto
qed

text \<open>
  C4: a string payload is signed in one form and sent in another. \<open>createOrder\<close>
  signs \<open>JSON.stringify(s)\<close>, the string in quotes, while axios sends \<open>s\<close> as it
  is; with a collision-free MAC the exchange rejects the order whatever the clocks,
  and the caller gets the normalised 401 error.
\<close>

theorem createOrder_string_payload_rejected:
  assumes reg: "service_registered keys svc host" and mac: "\<forall>k. inj (hmac k)"
  shows "createOrder hmac svc now (exchange form keys hmac t respond) (JStr body) =
           (Inl (Error ''BitMEX API Error: Signature not valid.''), [])"
proof -
  obtain k s where k: "apiKey svc = Some k" "apiSecret svc = Some s" "keys k = Some (js_trim s)"
    and u: "baseUrl svc = api_base host" "CHR ''/'' \<notin> set host"
    using reg by (auto simp: service_registered_def)
  define e where "e = round_ms_to_s now + 60"
  define sig where "sig = hex_encode (hmac (js_trim s) (''POST'' @ ''/api/v1'' @ ''/order'' @ js_int_str e @ json_quote body))"
  have sg: "BitMEXService_generateSignature hmac svc ''POST'' ''/order'' e (Some (json_quote body)) = Inr sig"
    using k by (simp add: service_signature_Some sig_def)
  have path: "url_path (baseUrl svc @ ''/order'') = ''/api/v1'' @ ''/order''"
    using u url_path_api_base by (simp add: api_base_def)
  have "sig \<noteq> hex_encode (hmac (js_trim s) (''POST'' @ ''/api/v1'' @ ''/order'' @ js_int_str e @ body))"
  proof
    assume "sig = hex_encode (hmac (js_trim s) (''POST'' @ ''/api/v1'' @ ''/order'' @ js_int_str e @ body))"
    then have "hmac (js_trim s) (''POST'' @ ''/api/v1'' @ ''/order'' @ js_int_str e @ json_quote body)
             = hmac (js_trim s) (''POST'' @ ''/api/v1'' @ ''/order'' @ js_int_str e @ body)"
      by (simp add: sig_def hex_encode_inj)
    with mac have "json_quote body = body" by (simp add: inj_eq)
    with json_quote_neq show False by blast
  qed
  then have rej: "\<not> server_accepts keys hmac t ''POST'' (baseUrl svc @ ''/order'')
                    (wire_headers [(''api-expires'', JNum e), (''api-key'', opt_jv (apiKey svc)),
                                   (''api-signature'', JStr sig)]) body"
    using k path by (simp add: server_accepts_def opt_jv_def)
  show ?thesis
    using sg rej order_headers_no_ct(1) [of "JNum e" "opt_jv (apiKey svc)" "JStr sig"]
    by (simp add: createOrder_def e_def [symmetric] Let_def exchange_def wire_body_def
        handleError_rejection throw_handled_def)
qed

theorem createOrder_string_payload_rejected_witness:
  "service_registered demo_keys demo_service ''testnet.bitmex.com'' \<and> (\<forall>k. inj (echo_mac k)) \<and>
   createOrder echo_mac demo_service 1700000000000 (exchange (\<lambda>_ _. []) demo_keys echo_mac 1700000000 (\<lambda>_. JObj []))
     (JStr ''{\"symbol\":\"XBTUSD\"}'') = (Inl (Error ''BitMEX API Error: Signature not valid.''), [])"
  using demo_registered echo_mac_inj createOrder_string_payload_rejected [OF demo_registered]
  by simp

text \<open>
  C12: \<open>handleError\<close> surfaces the exchange's message. When the response body has an
  \<open>error\<close> object whose \<open>message\<close> is a non-empty string, the normalised error is
  \<open>BitMEX API Error: \<close> followed by that message (the specification's
  \<open>Invalid expiry\<close> example is the witness).
\<close>

theorem handleError_api_message:
  assumes "err_response error = Some data" and "js_get data ''error'' = Inr e"
    and "js_get e ''message'' = Inr (JStr m)" and "m \<noteq> []"
  shows "handleError error = Inr (''BitMEX API Error: '' @ m)"
proof -
  have "\<not> js_nullish e"
    using assms(3) js_get_raises_iff [of e "''message''"] by auto
  then have "js_get_opt e ''message'' = Inr (JStr m)"
    using assms(3) by (simp add: js_get_opt_def)
  with assms show ?thesis by (simp add: handleError_def js_or_def)
qed

theorem handleError_api_message_witness:
  "handleError \<lparr>err_message = ''Request failed with status code 401'',
     err_response = Some (JObj [(''error'', JObj [(''message'', JStr ''Invalid expiry'')])])\<rparr>
   = Inr ''BitMEX API Error: Invalid expiry''"
  using handleError_api_message [of "\<lparr>err_message = ''Request failed with status code 401'',
      err_response = Some (JObj [(''error'', JObj [(''message'', JStr ''Invalid expiry'')])])\<rparr>"
      "JObj [(''error'', JObj [(''message'', JStr ''Invalid expiry'')])]"
      "JObj [(''message'', JStr ''Invalid expiry'')]" "''Invalid expiry''"]
  by simp

text \<open>
  C13: \<open>handleError\<close> tells a transport failure from an answer of the exchange by
  the presence of \<open>error.response\<close>: without a response the error is
  \<open>Network Error: \<close> followed by the transport's message, and a normalised message
  starts with \<open>Network Error: \<close> exactly when no response was received.
\<close>

theorem handleError_network_branch:
  "(err_response e = None \<longrightarrow> handleError e = Inr (''Network Error: '' @ err_message e)) \<and>
   (\<forall>m. handleError e = Inr m \<longrightarrow> (take 15 m = ''Network Error: '' \<longleftrightarrow> err_response e = None))"
proof (cases "err_response e")
  case None
  then show ?thesis by (simp add: handleError_def)
next
  case (Some d)
  have "take 15 m \<noteq> ''Network Error: ''" if h: "handleError e = Inr m" for m
  proof -
    obtain y where "m = ''BitMEX API Error: '' @ y"
      using handleError_response_Inr [OF Some h] by blast
    then show ?thesis by simp
  qed
  with Some show ?thesis by simp
qed

theorem handleError_network_branch_witness:
  "handleError \<lparr>err_message = ''timeout of 10000ms exceeded'', err_response = None\<rparr> =
     Inr ''Network Error: timeout of 10000ms exceeded'' \<and>
   handleError (rejection ''Invalid expiry'') = Inr ''BitMEX API Error: Invalid expiry'' \<and>
   take 15 ''BitMEX API Error: Invalid expiry'' \<noteq> ''Network Error: ''"
proof -
  have r: "handleError (rejection ''Invalid expiry'') = Inr ''BitMEX API Error: Invalid expiry''"
    by (simp add: handleError_rejection)
  have "err_response (rejection ''Invalid expiry'') \<noteq> None"
    by (simp add: rejection_def)
  then show ?thesis
    using handleError_network_branch [of "\<lparr>err_message = ''timeout of 10000ms exceeded'', err_response = None\<rparr>"]
      handleError_network_branch [of "rejection ''Invalid expiry''"] r
    by auto
qed

text \<open>
  C14: \<open>handleError\<close> itself throws when the server answered with an undefined or
  null body: \<open>error.response.data.error\<close> reads a property of undefined or null, so a
  TypeError escapes instead of a normalised error.
\<close>

theorem handleError_nullish_data_raises:
  assumes "err_response error = Some d" and "js_nullish d"
  shows "\<exists>msg. handleError error = Inl (TypeError msg)"
  using assms by (auto simp: handleError_def js_nullish_def js_get_def undefined_read_def)

theorem handleError_nullish_data_raises_witness:
  "\<exists>msg. handleError \<lparr>err_message = ''Request failed with status code 502'', err_response = Some JNull\<rparr>
     = Inl (TypeError msg)"
  using handleError_nullish_data_raises [of "\<lparr>err_message = ''Request failed with status code 502'',
      err_response = Some JNull\<rparr>" JNull]
  by (simp add: js_nullish_def)

text \<open>
  C15: when the body has no usable message (no \<open>error\<close>, or an empty or missing
  \<open>message\<close>), \<open>handleError\<close> falls back to the transport's message.
\<close>

theorem handleError_fallback_message:
  assumes "err_response error = Some data" and "js_get data ''error'' = Inr e"
    and "js_get_opt e ''message'' = Inr m" and "\<not> js_truthy m"
  shows "handleError error = Inr (''BitMEX API Error: '' @ err_message error)"
  using assms by (simp add: handleError_def js_or_def)

theorem handleError_fallback_message_witness:
  "handleError \<lparr>err_message = ''Request failed with status code 404'', err_response = Some (JStr [])\<rparr>
   = Inr ''BitMEX API Error: Request failed with status code 404''"
  using handleError_fallback_message [of "\<lparr>err_message = ''Request failed with status code 404'',
      err_response = Some (JStr [])\<rparr>" "JStr []" JUndefined JUndefined]
  by (simp add: js_get_def js_get_opt_def js_nullish_def)

text \<open>
  C16: a missing \<open>BITMEX_API_SECRET\<close> is reported inconsistently. In
  \<open>getPositions\<close> the TypeError of \<open>this.apiSecret.trim()\<close> is caught and
  normalised as a network error; in \<open>createOrder\<close>, which signs before its
  \<open>try\<close>, the raw TypeError escapes. Neither sends a request.
\<close>

theorem missing_secret_errors:
  assumes "apiSecret svc = None"
  shows "\<exists>m. undefined_read ''trim'' = TypeError m
            \<and> getPositions hmac svc now net = (Inl (Error (''Network Error: '' @ m)), [])
            \<and> createOrder hmac svc now net d = (Inl (TypeError m), [])"
  using assms
  by (simp add: undefined_read_def getPositions_def createOrder_def Let_def service_signature_None
      handleError_def caught_exn_def throw_handled_def)

theorem missing_secret_errors_witness:
  "\<exists>m. undefined_read ''trim'' = TypeError m
      \<and> getPositions echo_mac (demo_service\<lparr>apiSecret := None\<rparr>) 0 (\<lambda>_. Inr JNull) =
          (Inl (Error (''Network Error: '' @ m)), [])
      \<and> createOrder echo_mac (demo_service\<lparr>apiSecret := None\<rparr>) 0 (\<lambda>_. Inr JNull) JNull =
          (Inl (TypeError m), [])"
  by (rule missing_secret_errors) simp

text \<open>
  C23: the only thing \<open>getPositions\<close> writes to the console is a response body the
  transport returned with an error: never a header, the key or the secret.
\<close>

theorem getPositions_console_only_server_data:
  "snd (getPositions hmac svc now net) = [] \<or>
   (\<exists>req err d. net req = Inl err \<and> err_response err = Some d \<and>
      snd (getPositions hmac svc now net) = [(''BitMEX API Error Response:'', d)])"
  by (auto simp: getPositions_def Let_def split: sum.split option.split)

text \<open>
  C24: \<open>getInstruments\<close> ignores its \<open>params\<close>: the filter the entry point passes
  (\<open>{symbol: ''XBTUSD''}\<close>) changes neither the request nor the result.
\<close>

theorem getInstruments_ignores_params:
  "getInstruments hmac svc now net params = getInstruments hmac svc now net JUndefined"
  by (simp add: getInstruments_def)

text \<open>
  C10: the expiry is the exact boundary of a read. With the key registered, the
  exchange answers \<open>getPositions\<close> exactly when its clock (in seconds) is before
  \<open>Math.round(now / 1000) + 60\<close>; from that second on, the call fails with the
  normalised rejection instead of being retried or repaired.
\<close>

theorem getPositions_accepted_iff:
  assumes reg: "service_registered keys svc host"
  shows "(\<exists>x. fst (getPositions hmac svc now (exchange form keys hmac t respond)) = Inr x) \<longleftrightarrow>
         t < round_ms_to_s now + 60"
proof
  assume "\<exists>x. fst (getPositions hmac svc now (exchange form keys hmac t respond)) = Inr x"
  moreover obtain s where "apiSecret svc = Some s"
    using reg by (auto simp: service_registered_def)
  ultimately show "t < round_ms_to_s now + 60"
    using positions_expired [where svc = svc and s = s and now = now and t = t and hmac = hmac and form = form and keys = keys and respond = respond] by (cases "t < round_ms_to_s now + 60") auto
next
  assume "t < round_ms_to_s now + 60"
  then show "\<exists>x. fst (getPositions hmac svc now (exchange form keys hmac t respond)) = Inr x"
    using reads_exchange(1) [OF reg, where t = t and now = now and hmac = hmac and form = form and respond = respond] by auto
qed

theorem getPositions_accepted_iff_witness:
  "service_registered demo_keys demo_service ''testnet.bitmex.com'' \<and>
   (\<exists>x. fst (getPositions echo_mac demo_service 1700000000499 (exchange (\<lambda>_ _. []) demo_keys echo_mac 1700000059 (\<lambda>_. JArr []))) = Inr x) \<and>
   \<not> (\<exists>x. fst (getPositions echo_mac demo_service 1700000000499 (exchange (\<lambda>_ _. []) demo_keys echo_mac 1700000060 (\<lambda>_. JArr []))) = Inr x)"
proof -
  have "round_ms_to_s 1700000000499 + 60 = 1700000060" by (simp add: round_ms_to_s_def)
  then show ?thesis
    using demo_registered getPositions_accepted_iff [OF demo_registered, where hmac = echo_mac and now = 1700000000499 and t = 1700000059 and form = "\<lambda>_ _. []" and respond = "\<lambda>_. JArr []"]
      getPositions_accepted_iff [OF demo_registered, where hmac = echo_mac and now = 1700000000499 and t = 1700000060 and form = "\<lambda>_ _. []" and respond = "\<lambda>_. JArr []"]
    by simp
qed

end
