(* ===== verification/Index.thy ===== *)
theory Index
  imports Service
begin

text \<open>
  src/index.ts. The imports run first: loading bitmex.service loads config.ts, whose
  \<open>config\<close> object (and so \<open>isTestnet\<close>) is computed from the process environment
  as it was at start-up. Only afterwards does \<open>dotenv.config()\<close> add the variables
  of the \<open>.env\<close> file (never overriding one already set), and \<open>main\<close> then
  constructs the service, whose key and secret are read from the extended
  environment. \<open>main\<close> fetches the positions, then the instruments with the
  \<open>XBTUSD\<close> filter, and prints each result or the first error; its output is the
  console, the service's own \<open>console.error\<close> lines included, in order.
\<close>

definition dotenv_config :: "env \<Rightarrow> env \<Rightarrow> env" where
  "dotenv_config e file k = (case e k of Some v \<Rightarrow> Some v | None \<Rightarrow> file k)"

definition index_service :: "env \<Rightarrow> env \<Rightarrow> bitmex_service" where
  "index_service env0 file = BitMEXService_new (dotenv_config env0 file) (config env0)"

definition console_values :: "console \<Rightarrow> (string \<times> (js_exn + jv)) list" where
  "console_values c = map (\<lambda>(l, v). (l, Inr v)) c"

definition main ::
  "mac \<Rightarrow> env \<Rightarrow> env \<Rightarrow> int \<Rightarrow> int \<Rightarrow> transport \<Rightarrow> (string \<times> (js_exn + jv)) list" where
  "main hmac env0 file now1 now2 net =
     (let bitmex = index_service env0 file;
          (r1, c1) = getPositions hmac bitmex now1 net
      in case r1 of
           Inl ex \<Rightarrow> console_values c1 @ [(''Error:'', Inl ex)]
         | Inr positions \<Rightarrow>
             (let (r2, c2) = getInstruments hmac bitmex now2 net (JObj [(''symbol'', JStr ''XBTUSD'')])
              in console_values c1 @ [(''Positions:'', Inr positions)] @ console_values c2 @
                 (case r2 of Inl ex \<Rightarrow> [(''Error:'', Inl ex)]
                           | Inr instruments \<Rightarrow> [(''Instruments:'', Inr instruments)])))"

lemma index_service_fields:
  "apiKey (index_service env0 file) = dotenv_config env0 file ''BITMEX_API_KEY''"
  "apiSecret (index_service env0 file) = dotenv_config env0 file ''BITMEX_API_SECRET''"
  "baseUrl (index_service env0 file) =
     (if getIsTestnet env0 then url_testnet (config env0) else url_mainnet (config env0))"
  by (simp_all add: index_service_def BitMEXService_new_def config_def)

text \<open>
  C20: the network is chosen before \<open>.env\<close> is read. Unless \<open>BITMEX_TESTNET\<close> is
  \<open>false\<close> in the environment the process starts with, the entry point's service
  talks to the testnet, whatever the \<open>.env\<close> file says; its credentials, in
  contrast, do come from \<open>.env\<close> when the environment lacks them.
\<close>

theorem index_network_fixed_before_dotenv:
  assumes "env0 ''BITMEX_TESTNET'' \<noteq> Some ''false''"
  shows "baseUrl (index_service env0 file) = ''https://testnet.bitmex.com/api/v1'' \<and>
         (env0 ''BITMEX_API_SECRET'' = None \<longrightarrow>
          apiSecret (index_service env0 file) = file ''BITMEX_API_SECRET'')"
  using assms by (simp add: index_service_fields getIsTestnet_def config_def dotenv_config_def)

theorem index_network_fixed_before_dotenv_witness:
  "Map.empty ''BITMEX_TESTNET'' \<noteq> Some ''false'' \<and>
   baseUrl (index_service Map.empty (\<lambda>k. if k = ''BITMEX_TESTNET'' then Some ''false''
                                          else if k = ''BITMEX_API_SECRET'' then Some ''abc123'' else None))
     = ''https://testnet.bitmex.com/api/v1'' \<and>
   apiSecret (index_service Map.empty (\<lambda>k. if k = ''BITMEX_TESTNET'' then Some ''false''
                                          else if k = ''BITMEX_API_SECRET'' then Some ''abc123'' else None))
     = Some ''abc123''"
  using index_network_fixed_before_dotenv [of Map.empty
      "\<lambda>k. if k = ''BITMEX_TESTNET'' then Some ''false'' else if k = ''BITMEX_API_SECRET'' then Some ''abc123'' else None"]
  by simp

text \<open>
  C25: the demo run, end to end. When the entry point's service is registered at the
  exchange and both requests arrive within 59.5 s of signing, \<open>main\<close> prints the
  positions and then the instruments the exchange returned, and nothing else.
\<close>

theorem main_prints_results:
  assumes reg: "service_registered keys (index_service env0 file) host"
    and c1: "1000 * t \<le> now1 + 59500" and c2: "1000 * t \<le> now2 + 59500"
  shows "\<exists>r1 r2. main hmac env0 file now1 now2 (exchange form keys hmac t respond) =
                 [(''Positions:'', Inr (respond r1)), (''Instruments:'', Inr (respond r2))]"
proof -
  obtain s1 where s1: "getPositions hmac (index_service env0 file) now1 (exchange form keys hmac t respond) =
      (Inr (respond (get_request (index_service env0 file) ''/position'' (round_ms_to_s now1 + 60) s1)), [])"
    using reads_exchange(1) [OF reg expires_after_server_clock [OF c1]] by blast
  obtain s2 where s2: "getInstruments hmac (index_service env0 file) now2 (exchange form keys hmac t respond)
        (JObj [(''symbol'', JStr ''XBTUSD'')]) =
      (Inr (respond (get_request (index_service env0 file) ''/instrument'' (round_ms_to_s now2 + 60) s2)), [])"
    using reads_exchange(2) [OF reg expires_after_server_clock [OF c2]] by blast
  show ?thesis
    using s1 s2 by (auto simp: main_def Let_def console_values_def)
qed

theorem main_prints_results_witness:
  "service_registered (\<lambda>k. if k = ''key'' then Some ''abc123'' else None)
     (index_service Map.empty (\<lambda>k. if k = ''BITMEX_API_KEY'' then Some ''key''
                                    else if k = ''BITMEX_API_SECRET'' then Some ''abc123'' else None))
     ''testnet.bitmex.com'' \<and>
   1000 * (1700000000::int) \<le> 1700000000000 + 59500 \<and>
   (\<exists>r1 r2. main echo_mac Map.empty (\<lambda>k. if k = ''BITMEX_API_KEY'' then Some ''key''
                                    else if k = ''BITMEX_API_SECRET'' then Some ''abc123'' else None)
              1700000000000 1700000000000
              (exchange (\<lambda>_ _. []) (\<lambda>k. if k = ''key'' then Some ''abc123'' else None) echo_mac 1700000000 (\<lambda>_. JArr [])) =
            [(''Positions:'', Inr ((\<lambda>_. JArr []) r1)), (''Instruments:'', Inr ((\<lambda>_. JArr []) r2))])"
proof -
  have reg: "service_registered (\<lambda>k. if k = ''key'' then Some ''abc123'' else None)
     (index_service Map.empty (\<lambda>k. if k = ''BITMEX_API_KEY'' then Some ''key''
                                    else if k = ''BITMEX_API_SECRET'' then Some ''abc123'' else None))
     ''testnet.bitmex.com''"
    by (simp add: service_registered_def index_service_fields dotenv_config_def getIsTestnet_def
        config_urls js_trim_def js_whitespace_def)
  have c: "1000 * (1700000000::int) \<le> 1700000000000 + 59500" by simp
  show ?thesis
    using reg c main_prints_results [OF reg c c, where hmac = echo_mac and form = "\<lambda>_ _. []" and respond = "\<lambda>_. JArr []"] by blast
qed

text \<open>
  C26: the demo stops at the first failure. When the positions request reaches the
  exchange after its expiry, \<open>main\<close> prints the exchange's error body (logged by
  \<open>getPositions\<close>) and the normalised error, and nothing more: the instruments
  request is never made, so the output does not depend on its clock.
\<close>

theorem main_stops_after_expired_positions:
  assumes sec: "apiSecret (index_service env0 file) \<noteq> None" and late: "round_ms_to_s now1 + 60 \<le> t"
  shows "main hmac env0 file now1 now2 (exchange form keys hmac t respond) =
           [(''BitMEX API Error Response:'', Inr (the (err_response (rejection ''Signature not valid.'')))),
            (''Error:'', Inl (Error ''BitMEX API Error: Signature not valid.''))]"
proof -
  obtain s where "apiSecret (index_service env0 file) = Some s" using sec by blast
  from positions_expired [OF this late] show ?thesis
    by (simp add: main_def Let_def console_values_def)
qed

theorem main_stops_after_expired_positions_witness:
  "apiSecret (index_service Map.empty (\<lambda>k. if k = ''BITMEX_API_SECRET'' then Some ''abc123'' else None)) \<noteq> None \<and>
   round_ms_to_s 1700000000000 + 60 \<le> (1700000060::int) \<and>
   main echo_mac Map.empty (\<lambda>k. if k = ''BITMEX_API_SECRET'' then Some ''abc123'' else None)
     1700000000000 1700000000000 (exchange (\<lambda>_ _. []) demo_keys echo_mac 1700000060 (\<lambda>_. JArr [])) =
     [(''BitMEX API Error Response:'', Inr (the (err_response (rejection ''Signature not valid.'')))),
      (''Error:'', Inl (Error ''BitMEX API Error: Signature not valid.''))]"
proof -
  have s: "apiSecret (index_service Map.empty (\<lambda>k. if k = ''BITMEX_API_SECRET'' then Some ''abc123'' else None)) \<noteq> None"
    by (simp add: index_service_fields dotenv_config_def)
  have l: "round_ms_to_s 1700000000000 + 60 \<le> (1700000060::int)" by (simp add: round_ms_to_s_def)
  show ?thesis using main_stops_after_expired_positions [OF s l] s l by blast
qed

end
