(* ===== verification/RequestUtils.thy ===== *)
theory RequestUtils
  imports Auth Config Wire
begin

text \<open>
  src/utils/request.utils.ts, class \<open>RequestUtils\<close>, with the part of axios it
  relies on. The class's state is the static \<open>instance\<close>, absent until the first
  \<open>getInstance\<close> creates it (base URL from \<open>BITMEX_BASE_URL\<close> or the testnet
  default, timeout 10000) and registers the signing interceptor through
  \<open>setupInterceptors\<close>. The interceptor reads the environment and the clock at
  dispatch time and signs \<open>method + config.url + timestamp + JSON.stringify(data)\<close>
  with \<open>AuthUtils.generateSignature\<close>, where \<open>config.url\<close> is the path relative
  to the base URL. \<open>axios_request\<close> (modelled from axios's documented behaviour)
  runs the request interceptors, last registered first, then joins the base URL and
  the path and hands the request to the transport. Reachable states are those of
  any sequence of \<open>getInstance\<close> calls, each under any environment.
\<close>

datatype interceptor = SignRequest

record axios_instance =
  inst_baseURL :: string
  inst_timeout :: nat
  inst_interceptors :: "interceptor list"

record request_utils =
  ru_instance :: "axios_instance option"

record request_config =
  cfg_url :: "string option"
  cfg_method :: "string option"
  cfg_data :: jv
  cfg_headers :: "(string \<times> jv) list option"

definition axios_create :: "string \<Rightarrow> nat \<Rightarrow> axios_instance" where
  "axios_create base timeout = \<lparr>inst_baseURL = base, inst_timeout = timeout, inst_interceptors = []\<rparr>"

definition setupInterceptors :: "request_utils \<Rightarrow> request_utils" where
  "setupInterceptors st =
     (case ru_instance st of
        None \<Rightarrow> st
      | Some i \<Rightarrow> st\<lparr>ru_instance := Some (i\<lparr>inst_interceptors := inst_interceptors i @ [SignRequest]\<rparr>)\<rparr>)"

definition getInstance :: "env \<Rightarrow> request_utils \<Rightarrow> axios_instance \<times> request_utils" where
  "getInstance e st =
     (case ru_instance st of
        Some i \<Rightarrow> (i, st)
      | None \<Rightarrow>
          (let i0 = axios_create (env_or e ''BITMEX_BASE_URL'' ''https://testnet.bitmex.com/api/v1'') 10000;
               st1 = setupInterceptors (st\<lparr>ru_instance := Some i0\<rparr>)
           in (case ru_instance st1 of Some i \<Rightarrow> i | None \<Rightarrow> i0, st1)))"

text \<open>The signed body: \<open>config.data ? JSON.stringify(config.data) : ""\<close>.\<close>
definition interceptor_body :: "jv \<Rightarrow> string" where
  "interceptor_body d =
     (if js_truthy d then (case json_stringify d of Some s \<Rightarrow> s | None \<Rightarrow> []) else [])"

definition sign_interceptor :: "mac \<Rightarrow> env \<Rightarrow> int \<Rightarrow> request_config \<Rightarrow> request_config" where
  "sign_interceptor hmac e now cfg =
     (let path = (case cfg_url cfg of Some u \<Rightarrow> u | None \<Rightarrow> []);
          method = (case cfg_method cfg of
                      Some m \<Rightarrow> (if js_to_upper m = [] then ''GET'' else js_to_upper m)
                    | None \<Rightarrow> ''GET'');
          timestamp = floor_ms_to_s now + 60;
          signature = AuthUtils_generateSignature hmac (env_or e ''BITMEX_API_SECRET'' []) method path timestamp
                        (interceptor_body (cfg_data cfg));
          headers = (case cfg_headers cfg of Some h \<Rightarrow> h | None \<Rightarrow> [])
      in cfg\<lparr>cfg_headers := Some (obj_set ''api-expires'' (JStr (js_int_str timestamp))
                                  (obj_set ''api-signature'' (JStr signature)
                                    (obj_set ''api-key'' (JStr (env_or e ''BITMEX_API_KEY'' [])) headers)))\<rparr>)"

primrec run_interceptor :: "mac \<Rightarrow> env \<Rightarrow> int \<Rightarrow> interceptor \<Rightarrow> request_config \<Rightarrow> request_config" where
  "run_interceptor hmac e now SignRequest cfg = sign_interceptor hmac e now cfg"

definition run_interceptors ::
  "mac \<Rightarrow> env \<Rightarrow> int \<Rightarrow> interceptor list \<Rightarrow> request_config \<Rightarrow> request_config" where
  "run_interceptors hmac e now is cfg = fold (run_interceptor hmac e now) (rev is) cfg"

definition strip_slash :: "string \<Rightarrow> string" where
  "strip_slash s = (if s \<noteq> [] \<and> last s = CHR ''/'' then butlast s else s)"

text \<open>axios's \<open>combineURLs\<close> and \<open>buildFullPath\<close>.\<close>
definition combine_urls :: "string \<Rightarrow> string \<Rightarrow> string" where
  "combine_urls base rel =
     (if rel = [] then base
      else strip_slash (strip_slash base) @ ''/'' @ dropWhile (\<lambda>c. c = CHR ''/'') rel)"

definition is_absolute_url :: "string \<Rightarrow> bool" where
  "is_absolute_url u \<longleftrightarrow> take 7 u = ''http://'' \<or> take 8 u = ''https://'' \<or> take 2 u = ''//''"

definition build_full_path :: "string \<Rightarrow> string \<Rightarrow> string" where
  "build_full_path base u = (if base \<noteq> [] \<and> \<not> is_absolute_url u then combine_urls base u else u)"

definition axios_request ::
  "mac \<Rightarrow> env \<Rightarrow> int \<Rightarrow> axios_instance \<Rightarrow> transport \<Rightarrow> request_config \<Rightarrow> axios_error + jv" where
  "axios_request hmac e now inst net cfg =
     (let c = run_interceptors hmac e now (inst_interceptors inst) cfg
      in net \<lparr>req_method = js_to_upper (case cfg_method c of Some m \<Rightarrow> m | None \<Rightarrow> ''get''),
              req_url = build_full_path (inst_baseURL inst) (case cfg_url c of Some u \<Rightarrow> u | None \<Rightarrow> []),
              req_headers = (case cfg_headers c of Some h \<Rightarrow> h | None \<Rightarrow> []),
              req_data = cfg_data c\<rparr>)"

definition ru_init :: request_utils where
  "ru_init = \<lparr>ru_instance = None\<rparr>"

inductive ru_reach :: "request_utils \<Rightarrow> bool" where
  start: "ru_reach ru_init"
| get_instance: "ru_reach st \<Longrightarrow> ru_reach (snd (getInstance e st))"

text \<open>A run: \<open>getInstance\<close> called once per environment of the list, in order.\<close>
definition ru_run :: "env list \<Rightarrow> request_utils \<Rightarrow> request_utils" where
  "ru_run es st = fold (\<lambda>e st. snd (getInstance e st)) es st"

definition ru_inv :: "request_utils \<Rightarrow> bool" where
  "ru_inv st \<longleftrightarrow> (case ru_instance st of None \<Rightarrow> True
                   | Some i \<Rightarrow> inst_interceptors i = [SignRequest] \<and> inst_timeout i = 10000)"


lemma getInstance_Some: "ru_instance st = Some i \<Longrightarrow> getInstance e st = (i, st)"
  by (simp add: getInstance_def)

lemma getInstance_None:
  "ru_instance st = None \<Longrightarrow>
   getInstance e st =
     (let i = \<lparr>inst_baseURL = env_or e ''BITMEX_BASE_URL'' ''https://testnet.bitmex.com/api/v1'',
               inst_timeout = 10000, inst_interceptors = [SignRequest]\<rparr>
      in (i, st\<lparr>ru_instance := Some i\<rparr>))"
  by (simp add: getInstance_def setupInterceptors_def axios_create_def Let_def)

lemma getInstance_state: "ru_instance (snd (getInstance e st)) = Some (fst (getInstance e st))"
  by (cases "ru_instance st") (simp_all add: getInstance_Some getInstance_None Let_def)

lemma getInstance_inv: "ru_inv st \<Longrightarrow> ru_inv (snd (getInstance e st))"
  by (cases "ru_instance st") (simp_all add: getInstance_Some getInstance_None Let_def ru_inv_def)

lemma ru_reach_inv: "ru_reach st \<Longrightarrow> ru_inv st"
proof (induction rule: ru_reach.induct)
  case start
  then show ?case by (simp add: ru_init_def ru_inv_def)
next
  case (get_instance st e)
  from get_instance.IH show ?case by (rule getInstance_inv)
qed

lemma getInstance_reach_interceptors:
  assumes "ru_reach st" and "getInstance e st = (inst, st')"
  shows "inst_interceptors inst = [SignRequest]"
proof -
  have "ru_reach st'"
    using ru_reach.get_instance [OF assms(1), of e] assms(2) by simp
  then have "ru_inv st'" by (rule ru_reach_inv)
  moreover have "ru_instance st' = Some inst"
    using getInstance_state [of e st] assms(2) by simp
  ultimately show ?thesis by (simp add: ru_inv_def)
qed

lemma build_full_path_endpoint:
  "build_full_path (api_base host) (ENDPOINTS ep) = api_base host @ ENDPOINTS ep"
  by (cases ep) (simp_all add: build_full_path_def combine_urls_def strip_slash_def
      is_absolute_url_def api_base_def)

subsection \<open>Properties of the shared client\<close>

text \<open>
  C17: the singleton is configured once. In every state reachable by
  \<open>getInstance\<close> calls, under any environments, an existing instance has exactly
  one request interceptor, the signing one, and the 10 s timeout.
\<close>

theorem getInstance_singleton:
  assumes "ru_reach st" and "ru_instance st = Some i"
  shows "inst_interceptors i = [SignRequest] \<and> inst_timeout i = 10000"
  using ru_reach_inv [OF assms(1)] assms(2) by (simp add: ru_inv_def)

theorem getInstance_singleton_witness:
  "ru_reach (snd (getInstance (\<lambda>k. Some ''https://example.org'') (snd (getInstance Map.empty ru_init)))) \<and>
   ru_instance (snd (getInstance (\<lambda>k. Some ''https://example.org'') (snd (getInstance Map.empty ru_init)))) =
     Some \<lparr>inst_baseURL = ''https://testnet.bitmex.com/api/v1'', inst_timeout = 10000,
           inst_interceptors = [SignRequest]\<rparr> \<and>
   inst_interceptors \<lparr>inst_baseURL = ''https://testnet.bitmex.com/api/v1'', inst_timeout = 10000,
           inst_interceptors = [SignRequest]\<rparr> = [SignRequest]"
proof -
  let ?st = "snd (getInstance (\<lambda>k. Some ''https://example.org'') (snd (getInstance Map.empty ru_init)))"
  have r: "ru_reach ?st" by (intro ru_reach.get_instance ru_reach.start)
  have s: "ru_instance ?st = Some \<lparr>inst_baseURL = ''https://testnet.bitmex.com/api/v1'', inst_timeout = 10000,
           inst_interceptors = [SignRequest]\<rparr>"
    by (simp add: ru_init_def getInstance_None getInstance_Some env_or_def Let_def)
  show ?thesis using r s getInstance_singleton [OF r s] by simp
qed

text \<open>
  C18: \<open>getInstance\<close> is idempotent: a second call, under any environment, returns
  the instance the first call returned and leaves the state unchanged.
\<close>

theorem getInstance_idempotent:
  "getInstance e' (snd (getInstance e st)) = (fst (getInstance e st), snd (getInstance e st))"
  using getInstance_state [of e st] by (simp add: getInstance_Some)

text \<open>
  C5: the shared client's signatures are never accepted. The interceptor signs
  \<open>config.url\<close>, the path relative to the base URL (\<open>/position\<close>), while the
  exchange verifies the path of the full URL (\<open>/api/v1/position\<close>). So a GET of
  any endpoint through the instance, even with the key registered under the very
  secret the interceptor reads and a collision-free MAC, is rejected.
\<close>

theorem interceptor_request_rejected:
  assumes reach: "ru_reach st" and gi: "getInstance e st = (inst, st')"
    and base: "inst_baseURL inst = api_base host" "CHR ''/'' \<notin> set host"
    and reg: "keys (env_or e' ''BITMEX_API_KEY'' []) = Some (env_or e' ''BITMEX_API_SECRET'' [])"
    and mac: "\<forall>k. inj (hmac k)"
  shows "axios_request hmac e' now inst (exchange form keys hmac t respond)
           \<lparr>cfg_url = Some (ENDPOINTS ep), cfg_method = Some ''get'', cfg_data = JUndefined, cfg_headers = None\<rparr>
         = Inl (rejection ''Signature not valid.'')"
proof -
  let ?s = "env_or e' ''BITMEX_API_SECRET'' []" and ?k = "env_or e' ''BITMEX_API_KEY'' []"
  let ?p = "ENDPOINTS ep" and ?ts = "floor_ms_to_s now + 60"
  have ints: "inst_interceptors inst = [SignRequest]"
    using reach gi by (rule getInstance_reach_interceptors)
  have path: "url_path (api_base host @ ?p) = ''/api/v1'' @ ?p"
    using url_path_api_base base(2) by (simp add: api_base_def)
  define sig where "sig = AuthUtils_generateSignature hmac ?s ''GET'' ?p ?ts []"
  have "sig \<noteq> hex_encode (hmac ?s (''GET'' @ ''/api/v1'' @ ?p @ js_int_str ?ts @ []))"
  proof
    assume "sig = hex_encode (hmac ?s (''GET'' @ ''/api/v1'' @ ?p @ js_int_str ?ts @ []))"
    then have "hmac ?s (''GET'' @ ?p @ js_int_str ?ts) = hmac ?s (''GET'' @ ''/api/v1'' @ ?p @ js_int_str ?ts)"
      by (simp add: sig_def AuthUtils_generateSignature_def signature_payload_def hex_encode_inj)
    with mac have "''GET'' @ ?p @ js_int_str ?ts = ''GET'' @ ''/api/v1'' @ ?p @ js_int_str ?ts"
      by (simp add: inj_eq)
    then have "length (''GET'' @ ?p @ js_int_str ?ts) = length (''GET'' @ ''/api/v1'' @ ?p @ js_int_str ?ts)"
      by (rule arg_cong)
    then show False by simp
  qed
  then have "\<not> server_accepts keys hmac t ''GET'' (api_base host @ ?p)
               [(''api-key'', ?k), (''api-signature'', sig), (''api-expires'', js_int_str ?ts)] []"
    using reg path by (simp add: server_accepts_def)
  then show ?thesis
    using ints base(1)
    by (simp add: axios_request_def run_interceptors_def sign_interceptor_def interceptor_body_def obj_set_def Let_def
        build_full_path_endpoint js_to_upper_get exchange_def wire_body_def sig_def)
qed

theorem interceptor_request_rejected_witness:
  "ru_reach ru_init \<and>
   getInstance Map.empty ru_init =
     (\<lparr>inst_baseURL = api_base ''testnet.bitmex.com'', inst_timeout = 10000, inst_interceptors = [SignRequest]\<rparr>,
      \<lparr>ru_instance = Some \<lparr>inst_baseURL = api_base ''testnet.bitmex.com'', inst_timeout = 10000,
                              inst_interceptors = [SignRequest]\<rparr>\<rparr>) \<and>
   axios_request echo_mac (\<lambda>k. if k = ''BITMEX_API_KEY'' then Some ''key''
                               else if k = ''BITMEX_API_SECRET'' then Some ''abc123'' else None)
     1700000000000
     \<lparr>inst_baseURL = api_base ''testnet.bitmex.com'', inst_timeout = 10000, inst_interceptors = [SignRequest]\<rparr>
     (exchange (\<lambda>_ _. []) (\<lambda>k. if k = ''key'' then Some ''abc123'' else None) echo_mac 1700000000 (\<lambda>_. JObj []))
     \<lparr>cfg_url = Some (ENDPOINTS POSITION), cfg_method = Some ''get'', cfg_data = JUndefined, cfg_headers = None\<rparr>
   = Inl (rejection ''Signature not valid.'')"
proof -
  have gi: "getInstance Map.empty ru_init =
     (\<lparr>inst_baseURL = api_base ''testnet.bitmex.com'', inst_timeout = 10000, inst_interceptors = [SignRequest]\<rparr>,
      \<lparr>ru_instance = Some \<lparr>inst_baseURL = api_base ''testnet.bitmex.com'', inst_timeout = 10000,
                              inst_interceptors = [SignRequest]\<rparr>\<rparr>)"
    by (simp add: ru_init_def getInstance_None env_or_def api_base_def Let_def)
  have reg: "(\<lambda>k. if k = ''key'' then Some ''abc123'' else None)
               (env_or (\<lambda>k. if k = ''BITMEX_API_KEY'' then Some ''key''
                            else if k = ''BITMEX_API_SECRET'' then Some ''abc123'' else None) ''BITMEX_API_KEY'' [])
             = Some (env_or (\<lambda>k. if k = ''BITMEX_API_KEY'' then Some ''key''
                            else if k = ''BITMEX_API_SECRET'' then Some ''abc123'' else None) ''BITMEX_API_SECRET'' [])"
    by (simp add: env_or_def)
  have "CHR ''/'' \<notin> set ''testnet.bitmex.com''" by simp
  note r = interceptor_request_rejected [where keys = "\<lambda>k. if k = ''key'' then Some ''abc123'' else None"
      and e' = "\<lambda>k. if k = ''BITMEX_API_KEY'' then Some ''key''
                 else if k = ''BITMEX_API_SECRET'' then Some ''abc123'' else None",
      OF ru_reach.start gi _ this reg echo_mac_inj_all]
  show ?thesis using gi ru_reach.start r [where now = 1700000000000 and t = 1700000000 and respond = "\<lambda>_. JObj []" and ep = POSITION and form = "\<lambda>_ _. []"]
    by (simp add: api_base_def)
qed

lemma json_valid_Nil: "\<not> json_valid []"
  by (simp add: json_valid_def json_scan_final_def)

lemma js_int_str_nonempty: "js_int_str i \<noteq> []"
proof -
  have "nat_str n \<noteq> []" for n
    by (subst nat_str.simps) simp
  then show ?thesis
    by (simp add: js_int_str_def)
qed

lemma length_js_trim: "length (js_trim s) \<le> length s"
proof -
  have "length (dropWhile js_whitespace (rev (dropWhile js_whitespace s))) \<le> length (rev (dropWhile js_whitespace s))"
    by (rule length_dropWhile_le)
  also have "\<dots> \<le> length s"
    by (simp add: length_dropWhile_le)
  finally show ?thesis
    by (simp add: js_trim_def)
qed

lemma js_trim_neq_json_quote: "js_trim s \<noteq> json_quote s"
proof
  assume "js_trim s = json_quote s"
  then have "length (json_quote s) \<le> length s"
    using length_js_trim [of s] by simp
  moreover have "length s + 2 \<le> length (json_quote s)"
    using length_concat_json_escape [of s] by (simp add: json_quote_def)
  ultimately show False by simp
qed

text \<open>
  C6: which bodies the interceptor signs as axios sends them. It signs
  \<open>data ? JSON.stringify(data) : ""\<close>, while axios serialises by the content type
  the caller set. Outside the form content types, the signed and the sent body agree
  exactly: for an object, an array or undefined; for a string, when there is no JSON
  content type only if the string is empty, and under a JSON content type exactly when
  the string is non-empty and not JSON text (axios sends JSON text trimmed, the
  interceptor quotes it); for \<open>null\<close>, a number or a boolean, when it is truthy or no
  JSON content type is set (under one, axios sends \<open>null\<close>, \<open>0\<close> or \<open>false\<close> where
  the interceptor signs the empty string). The specification's sign-then-reuse rule
  (section 4.2) fails for every other payload.
\<close>

theorem interceptor_signs_sent_body_iff:
  assumes sent: "wire_body form hs d = Some b" and nf: "\<not> (is_object_payload d \<and> form_content hs)"
  shows "interceptor_body d = b \<longleftrightarrow>
           (case d of
              JStr s \<Rightarrow> (if json_content hs then s \<noteq> [] \<and> \<not> json_valid s else s = [])
            | JUndefined \<Rightarrow> True
            | JObj _ \<Rightarrow> True
            | JArr _ \<Rightarrow> True
            | _ \<Rightarrow> js_truthy d \<or> \<not> json_content hs)"
proof (cases d)
  case (JStr s)
  show ?thesis
  proof (cases "json_content hs")
    case True
    then show ?thesis
      using sent JStr json_quote_neq [of s] js_trim_neq_json_quote [of s] json_valid_Nil
      by (auto simp: interceptor_body_def wire_body_def json_quote_def split: if_splits)
  next
    case False
    then show ?thesis
      using sent JStr json_quote_neq [of s] by (auto simp: interceptor_body_def wire_body_def)
  qed
next
  case (JObj kvs)
  then show ?thesis
    using sent nf by (auto simp: interceptor_body_def wire_body_def is_object_payload_def)
next
  case (JArr xs)
  then show ?thesis
    using sent nf by (auto simp: interceptor_body_def wire_body_def is_object_payload_def)
next
  case (JNum i)
  then show ?thesis
    using sent js_int_str_nonempty [of i] by (auto simp: interceptor_body_def wire_body_def split: if_splits)
next
  case (JBool x)
  then show ?thesis
    using sent by (auto simp: interceptor_body_def wire_body_def split: if_splits)
qed (use sent in \<open>auto simp: interceptor_body_def wire_body_def split: if_splits\<close>)

definition json_headers :: "(string \<times> jv) list" where
  "json_headers = [(''Content-Type'', JStr ''application/json'')]"

theorem interceptor_signs_sent_body_iff_witness:
  "wire_body (\<lambda>_ _. []) json_headers (JStr ''abc'') = Some ''\"abc\"'' \<and>
   \<not> (is_object_payload (JStr ''abc'') \<and> form_content json_headers) \<and>
   interceptor_body (JStr ''abc'') = ''\"abc\"'' \<and>
   wire_body (\<lambda>_ _. []) json_headers (JStr ''{}'') = Some ''{}'' \<and>
   interceptor_body (JStr ''{}'') \<noteq> ''{}'' \<and>
   wire_body (\<lambda>_ _. []) [] (JStr ''abc'') = Some ''abc'' \<and> interceptor_body (JStr ''abc'') \<noteq> ''abc''"
proof -
  have j: "json_content json_headers"
    by (simp add: json_headers_def json_content_def ct_has_def content_type_value_def js_trim_def
        js_whitespace_def js_to_upper_def ascii_upper_def js_eval)
  have v1: "\<not> json_valid ''abc''" and v2: "json_valid ''{}''"
    by (simp_all add: json_valid_def json_scan_start_def json_scan_after_def json_scan_final_def json_ws_def
        is_digit_def js_eval)
  have n: "\<not> (is_object_payload (JStr s) \<and> form_content hs)" for s hs
    by (simp add: is_object_payload_def)
  have t: "js_trim ''{}'' = ''{}''"
    by (simp add: js_trim_def js_whitespace_def js_eval)
  have a: "wire_body (\<lambda>_ _. []) json_headers (JStr ''abc'') = Some ''\"abc\"''"
    using j v1 by (simp add: wire_body_def json_quote_def json_escape_char_def js_eval)
  have b: "wire_body (\<lambda>_ _. []) json_headers (JStr ''{}'') = Some ''{}''"
    using j v2 t by (simp add: wire_body_def)
  have c: "wire_body (\<lambda>_ _. []) [] (JStr ''abc'') = Some ''abc''"
    by (simp add: wire_body_def json_content_def ct_has_def content_type_value_def)
  show ?thesis
    using interceptor_signs_sent_body_iff [OF a n] interceptor_signs_sent_body_iff [OF b n]
      interceptor_signs_sent_body_iff [OF c n] a b c j v1 v2 n
    by (simp add: json_content_def ct_has_def content_type_value_def del: is_object_payload_def)
qed

lemma ru_run_Some: "ru_instance st = Some i \<Longrightarrow> ru_run es st = st"
  by (induction es) (simp_all add: ru_run_def getInstance_Some)

text \<open>
  C19: the first call creates the instance, and no later call replaces it: after
  any non-empty run of \<open>getInstance\<close> calls from the initial state an instance
  exists, and it is the one the first call built from the first caller's
  environment, whatever the environments of the later calls.
\<close>

theorem getInstance_run_first_wins:
  assumes "es \<noteq> []"
  shows "ru_instance (ru_run es ru_init) = Some (fst (getInstance (hd es) ru_init))"
proof -
  obtain e es' where es: "es = e # es'" using assms by (cases es) auto
  have "ru_instance (snd (getInstance e ru_init)) = Some (fst (getInstance e ru_init))"
    by (rule getInstance_state)
  then have "ru_run es' (snd (getInstance e ru_init)) = snd (getInstance e ru_init)"
    by (rule ru_run_Some)
  then show ?thesis using es getInstance_state [of e ru_init] by (simp add: ru_run_def)
qed

theorem getInstance_run_first_wins_witness:
  "[Map.empty, (\<lambda>k. Some ''https://www.bitmex.com/api/v1'')] \<noteq> [] \<and>
   ru_instance (ru_run [Map.empty, (\<lambda>k. Some ''https://www.bitmex.com/api/v1'')] ru_init) =
     Some \<lparr>inst_baseURL = ''https://testnet.bitmex.com/api/v1'', inst_timeout = 10000,
           inst_interceptors = [SignRequest]\<rparr>"
proof -
  have "fst (getInstance Map.empty ru_init) =
          \<lparr>inst_baseURL = ''https://testnet.bitmex.com/api/v1'', inst_timeout = 10000,
           inst_interceptors = [SignRequest]\<rparr>"
    by (simp add: ru_init_def getInstance_None env_or_def Let_def)
  then show ?thesis
    using getInstance_run_first_wins [of "[Map.empty, (\<lambda>k. Some ''https://www.bitmex.com/api/v1'')]"]
    by simp
qed

end
