(* ===== verification/RequestUtilsTest.thy ===== *)
theory RequestUtilsTest
  imports RequestUtils
begin

text \<open>
  src/utils/__tests__/request.utils.test.ts, the one Jest test of the sources. With
  axios and AuthUtils mocked, it calls \<open>RequestUtils.getInstance()\<close> on the fresh
  class, issues \<open>instance.get("/test")\<close> on the mock (which does nothing), and expects
  \<open>axios.create\<close> to have been called with the testnet base URL and the 10000 ms
  timeout and \<open>interceptors.request.use\<close> of the created instance to have been
  called. \<open>request_utils_test e\<close> is the verdict of these expectations on the model
  of \<open>getInstance\<close> under the process environment \<open>e\<close>; the mocked
  \<open>AuthUtils.generateHeaders\<close> return value is never read by the code under test.
\<close>

definition request_utils_test :: "env \<Rightarrow> bool" where
  "request_utils_test e =
     (let (instance, st) = getInstance e ru_init
      in (inst_baseURL instance, inst_timeout instance) = (''https://testnet.bitmex.com/api/v1'', 10000)
         \<and> inst_interceptors instance \<noteq> [])"

text \<open>
  C27: the test passes exactly when \<open>BITMEX_BASE_URL\<close> is unset, empty, or the
  testnet URL: its verdict depends on the environment it runs in, and it checks no
  header although it is named after them.
\<close>

theorem request_utils_test_passes_iff:
  "request_utils_test e \<longleftrightarrow>
     e ''BITMEX_BASE_URL'' \<in> {None, Some [], Some ''https://testnet.bitmex.com/api/v1''}"
  by (auto simp: request_utils_test_def ru_init_def getInstance_None env_or_def Let_def
      split: option.splits)

end
