(* ===== verification/Sha256.thy ===== *)
theory Sha256
  imports Hex
begin

text \<open>
  SHA-256 (FIPS 180-4) and HMAC (RFC 2104) as Node's \<open>crypto.createHmac(''sha256'', key)\<close>
  computes them, on \<open>32 word\<close> values: the round constants, the initial hash value, the
  functions \<open>Ch\<close>, \<open>Maj\<close>, \<open>\<Sigma>\<^sub>0\<close>, \<open>\<Sigma>\<^sub>1\<close>, \<open>\<sigma>\<^sub>0\<close>, \<open>\<sigma>\<^sub>1\<close> with the library's
  \<open>word_rotr\<close>, the padding, the compression function with the message schedule kept as a
  sliding window of 16 words (as implementations do), the hash as a recursion over
  64-byte blocks, HMAC's key normalisation and the two nested hashes, and the UTF-8
  encoding Node applies to string keys and messages. Node's crypto is not part of the
  repository: this theory is the concrete MAC the signing routines are parametric in.
  Alongside, the reference formulation of FIPS 180-4 \<section>6.2.2 (schedule \<open>W\<^sub>t\<close> by its
  recurrence, the rounds as a fold over \<open>t = 0..63\<close>, the blocks as a split list) that
  the sliding-window routine is proved equal to.
\<close>

unbundle bit_operations_syntax

type_synonym word32 = "32 word"

subsection \<open>Constants (FIPS 180-4, 4.2.2 and 5.3.3)\<close>

definition sha_K :: "word32 list" where
  "sha_K = [
     0x428A2F98, 0x71374491, 0xB5C0FBCF, 0xE9B5DBA5,
     0x3956C25B, 0x59F111F1, 0x923F82A4, 0xAB1C5ED5,
     0xD807AA98, 0x12835B01, 0x243185BE, 0x550C7DC3,
     0x72BE5D74, 0x80DEB1FE, 0x9BDC06A7, 0xC19BF174,
     0xE49B69C1, 0xEFBE4786, 0x0FC19DC6, 0x240CA1CC,
     0x2DE92C6F, 0x4A7484AA, 0x5CB0A9DC, 0x76F988DA,
     0x983E5152, 0xA831C66D, 0xB00327C8, 0xBF597FC7,
     0xC6E00BF3, 0xD5A79147, 0x06CA6351, 0x14292967,
     0x27B70A85, 0x2E1B2138, 0x4D2C6DFC, 0x53380D13,
     0x650A7354, 0x766A0ABB, 0x81C2C92E, 0x92722C85,
     0xA2BFE8A1, 0xA81A664B, 0xC24B8B70, 0xC76C51A3,
     0xD192E819, 0xD6990624, 0xF40E3585, 0x106AA070,
     0x19A4C116, 0x1E376C08, 0x2748774C, 0x34B0BCB5,
     0x391C0CB3, 0x4ED8AA4A, 0x5B9CCA4F, 0x682E6FF3,
     0x748F82EE, 0x78A5636F, 0x84C87814, 0x8CC70208,
     0x90BEFFFA, 0xA4506CEB, 0xBEF9A3F7, 0xC67178F2]"

definition sha_H0 :: "word32 list" where
  "sha_H0 = [0x6A09E667, 0xBB67AE85, 0x3C6EF372, 0xA54FF53A,
             0x510E527F, 0x9B05688C, 0x1F83D9AB, 0x5BE0CD19]"

subsection \<open>Functions (FIPS 180-4, 4.1.2)\<close>

definition sha_ch :: "word32 \<Rightarrow> word32 \<Rightarrow> word32 \<Rightarrow> word32" where
  "sha_ch x y z = (x AND y) XOR (NOT x AND z)"

definition sha_maj :: "word32 \<Rightarrow> word32 \<Rightarrow> word32 \<Rightarrow> word32" where
  "sha_maj x y z = (x AND y) XOR (x AND z) XOR (y AND z)"

definition bsig0 :: "word32 \<Rightarrow> word32" where
  "bsig0 x = word_rotr 2 x XOR word_rotr 13 x XOR word_rotr 22 x"

definition bsig1 :: "word32 \<Rightarrow> word32" where
  "bsig1 x = word_rotr 6 x XOR word_rotr 11 x XOR word_rotr 25 x"

definition ssig0 :: "word32 \<Rightarrow> word32" where
  "ssig0 x = word_rotr 7 x XOR word_rotr 18 x XOR drop_bit 3 x"

definition ssig1 :: "word32 \<Rightarrow> word32" where
  "ssig1 x = word_rotr 17 x XOR word_rotr 19 x XOR drop_bit 10 x"

subsection \<open>Message: big-endian words and padding (5.1.1, 5.2.1)\<close>

fun be_words :: "byte list \<Rightarrow> word32 list" where
  "be_words (a # b # c # d # rest) =
     (push_bit 24 (ucast a) OR push_bit 16 (ucast b) OR push_bit 8 (ucast c) OR ucast d)
     # be_words rest"
| "be_words _ = []"

definition word_bytes :: "word32 \<Rightarrow> byte list" where
  "word_bytes w = [ucast (drop_bit 24 w), ucast (drop_bit 16 w), ucast (drop_bit 8 w), ucast w]"

text \<open>
  The message, the byte \<open>0x80\<close>, zero bytes up to 56 modulo 64, and the bit length
  \<open>8 * length m\<close> as a 64-bit big-endian number (its high word is
  \<open>length m div 2\<^sup>2\<^sup>9\<close>).
\<close>

definition sha_pad :: "byte list \<Rightarrow> byte list" where
  "sha_pad m = m @ [0x80] @ replicate ((119 - length m mod 64) mod 64) 0
               @ word_bytes (of_nat (length m div 536870912)) @ word_bytes (of_nat (8 * length m))"

subsection \<open>Compression with a sliding-window schedule\<close>

text \<open>
  The window holds \<open>W\<^sub>t .. W\<^sub>t\<^sub>+\<^sub>1\<^sub>5\<close>; the next word is
  \<open>\<sigma>\<^sub>1(W\<^sub>t\<^sub>+\<^sub>1\<^sub>4) + W\<^sub>t\<^sub>+\<^sub>9 + \<sigma>\<^sub>0(W\<^sub>t\<^sub>+\<^sub>1) + W\<^sub>t\<close>. The working variables
  \<open>a .. h\<close> are the list \<open>st\<close> of eight words.
\<close>

definition sched_next :: "word32 list \<Rightarrow> word32" where
  "sched_next win = ssig1 (win ! 14) + win ! 9 + ssig0 (win ! 1) + win ! 0"

definition sha_round :: "word32 list \<Rightarrow> word32 \<Rightarrow> word32 \<Rightarrow> word32 list" where
  "sha_round st k w = (case st of
     [a, b, c, d, e, f, g, h] \<Rightarrow>
       (let t1 = h + bsig1 e + sha_ch e f g + k + w;
            t2 = bsig0 a + sha_maj a b c
        in [t1 + t2, a, b, c, d + t1, e, f, g])
   | _ \<Rightarrow> st)"

fun sha_rounds :: "word32 list \<Rightarrow> word32 list \<Rightarrow> word32 list \<Rightarrow> word32 list" where
  "sha_rounds [] win st = st"
| "sha_rounds (k # ks) win st = sha_rounds ks (tl win @ [sched_next win]) (sha_round st k (hd win))"

definition sha_compress :: "word32 list \<Rightarrow> byte list \<Rightarrow> word32 list" where
  "sha_compress hs block = map2 (+) hs (sha_rounds sha_K (be_words block) hs)"

function sha_blocks :: "word32 list \<Rightarrow> byte list \<Rightarrow> word32 list" where
  "sha_blocks hs [] = hs"
| "sha_blocks hs (b # bs) = sha_blocks (sha_compress hs (take 64 (b # bs))) (drop 64 (b # bs))"
  by pat_completeness auto
termination by (relation "measure (length \<circ> snd)") auto

definition sha256 :: "byte list \<Rightarrow> byte list" where
  "sha256 m = concat (map word_bytes (sha_blocks sha_H0 (sha_pad m)))"

subsection \<open>HMAC (RFC 2104) and Node's string arguments\<close>

text \<open>
  A key longer than the 64-byte block is replaced by its hash; the key is then padded
  with zero bytes to 64 and combined with \<open>ipad = 0x36\<close> and \<open>opad = 0x5c\<close>. The
  hash is a parameter, as in RFC 2104.
\<close>

definition hmac_key :: "(byte list \<Rightarrow> byte list) \<Rightarrow> byte list \<Rightarrow> byte list" where
  "hmac_key H key = (let k = if 64 < length key then H key else key
                     in k @ replicate (64 - length k) 0)"

definition hmac_rfc2104 :: "(byte list \<Rightarrow> byte list) \<Rightarrow> byte list \<Rightarrow> byte list \<Rightarrow> byte list" where
  "hmac_rfc2104 H key msg = (let k = hmac_key H key
                     in H (map (\<lambda>b. b XOR 0x5C) k @ H (map (\<lambda>b. b XOR 0x36) k @ msg)))"

text \<open>
  Node converts a string key and a string message with UTF-8. A character is an 8-bit
  code unit: below 128 it is one byte, otherwise the two bytes
  \<open>110000xx 10xxxxxx\<close>.
\<close>

definition utf8_char :: "char \<Rightarrow> byte list" where
  "utf8_char c = (let n = of_char c :: nat in
     if n < 128 then [of_nat n] else [of_nat (192 + n div 64), of_nat (128 + n mod 64)])"

definition utf8_encode :: "string \<Rightarrow> byte list" where
  "utf8_encode s = concat (map utf8_char s)"

fun utf8_decode :: "byte list \<Rightarrow> string option" where
  "utf8_decode [] = Some []"
| "utf8_decode (b # bs) =
     (if unat b < 128 then map_option (Cons (char_of (unat b))) (utf8_decode bs)
      else case bs of
        [] \<Rightarrow> None
      | c # cs \<Rightarrow>
          if (unat b = 194 \<or> unat b = 195) \<and> 128 \<le> unat c \<and> unat c < 192
          then map_option (Cons (char_of ((unat b - 192) * 64 + (unat c - 128)))) (utf8_decode cs)
          else None)"

definition node_hmac_sha256 :: mac where
  "node_hmac_sha256 key msg = hmac_rfc2104 sha256 (utf8_encode key) (utf8_encode msg)"

subsection \<open>Reference formulation (FIPS 180-4, 6.2.2)\<close>

function sha_W :: "word32 list \<Rightarrow> nat \<Rightarrow> word32" where
  "sha_W ws t = (if t < 16 then ws ! t
                 else ssig1 (sha_W ws (t - 2)) + sha_W ws (t - 7)
                      + ssig0 (sha_W ws (t - 15)) + sha_W ws (t - 16))"
  by pat_completeness auto
termination by (relation "measure snd") auto

declare sha_W.simps [simp del]

definition sha_compress_ref :: "word32 list \<Rightarrow> byte list \<Rightarrow> word32 list" where
  "sha_compress_ref hs block =
     map2 (+) hs (foldl (\<lambda>st t. sha_round st (sha_K ! t) (sha_W (be_words block) t)) hs [0..<64])"

definition sha_block_list :: "byte list \<Rightarrow> byte list list" where
  "sha_block_list m = map (\<lambda>i. take 64 (drop (64 * i) m)) [0..<length m div 64]"

definition sha256_ref :: "byte list \<Rightarrow> byte list" where
  "sha256_ref m = concat (map word_bytes (foldl sha_compress_ref sha_H0 (sha_block_list (sha_pad m))))"

subsection \<open>Lengths\<close>

lemma length_sha_round [simp]: "length (sha_round st k w) = length st"
  unfolding sha_round_def Let_def by (simp split: list.split)

lemma length_sha_rounds [simp]: "length (sha_rounds ks win st) = length st"
  by (induction ks win st rule: sha_rounds.induct) simp_all

lemma length_sha_compress [simp]: "length (sha_compress hs block) = length hs"
  by (simp add: sha_compress_def)

lemma length_sha_blocks [simp]: "length (sha_blocks hs m) = length hs"
  by (induction hs m rule: sha_blocks.induct) simp_all

lemma length_word_bytes [simp]: "length (word_bytes w) = 4"
  by (simp add: word_bytes_def)

lemma length_concat_word_bytes [simp]: "length (concat (map word_bytes ws)) = 4 * length ws"
  by (induction ws) simp_all

lemma length_sha256 [simp]: "length (sha256 m) = 32"
  by (simp add: sha256_def sha_H0_def)

lemma length_hmac_key: "(\<forall>m. length (H m) \<le> 64) \<Longrightarrow> length (hmac_key H key) = 64"
  by (simp add: hmac_key_def Let_def)

lemma length_hmac_sha256 [simp]: "length (hmac_rfc2104 sha256 key msg) = 32"
  by (simp add: hmac_rfc2104_def Let_def)

lemma length_node_hmac_sha256 [simp]: "length (node_hmac_sha256 key msg) = 32"
  by (simp add: node_hmac_sha256_def)

subsection \<open>Padding\<close>

lemma length_sha_pad:
  "length (sha_pad m) = length m + 9 + (119 - length m mod 64) mod 64"
  by (simp add: sha_pad_def)

lemma sha_pad_length_blocks:
  "length (sha_pad m) = 64 * (length m div 64 + (if length m mod 64 \<le> 55 then 1 else 2))"
proof -
  define q r where "q = length m div 64" and "r = length m mod 64"
  have m: "length m = 64 * q + r" and r: "r < 64"
    by (simp_all add: q_def r_def)
  have "(119 - r) mod 64 = (if r \<le> 55 then 55 - r else 119 - r)"
  proof (cases "r \<le> 55")
    case True
    then have "119 - r = (55 - r) + 64" by simp
    then show ?thesis using True by (simp only: mod_add_self2) simp
  qed (use r in simp)
  then show ?thesis
    using r by (simp add: length_sha_pad m r_def [symmetric])
qed

lemma sha_pad_dvd: "64 dvd length (sha_pad m)"
  by (simp only: sha_pad_length_blocks dvd_triv_left)

subsection \<open>Rotations and byte order\<close>

lemma word_rotr_shifts:
  assumes "n < 32"
  shows "word_rotr n (x :: word32) = drop_bit n x OR push_bit (32 - n) x"
proof (rule bit_eqI)
  fix m assume "possible_bit TYPE(word32) m"
  then have m: "m < 32" by (simp add: possible_bit_def)
  show "bit (word_rotr n x) m = bit (drop_bit n x OR push_bit (32 - n) x) m"
  proof (cases "m + n < 32")
    case True
    with m assms show ?thesis by (auto simp: bit_word_rotr_iff bit_simps add.commute)
  next
    case False
    then have "(m + n) mod 32 = m - (32 - n)" using m assms by (simp add: mod_if)
    with m assms False show ?thesis
      by (auto simp: bit_word_rotr_iff bit_simps add.commute dest: bit_imp_le_length)
  qed
qed

lemma be_word_bytes:
  "push_bit 24 (ucast (ucast (drop_bit 24 w) :: byte)) OR push_bit 16 (ucast (ucast (drop_bit 16 w) :: byte))
   OR push_bit 8 (ucast (ucast (drop_bit 8 w) :: byte)) OR ucast (ucast w :: byte) = (w :: word32)"
  apply (rule bit_eqI)
  subgoal for n
    by (cases "n < 8"; cases "n < 16"; cases "n < 24") (auto simp: bit_simps possible_bit_def)
  done

lemma be_words_word_bytes [simp]: "be_words (word_bytes w @ rest) = w # be_words rest"
  by (simp add: word_bytes_def be_word_bytes)

lemma be_words_concat_word_bytes: "be_words (concat (map word_bytes ws)) = ws"
  by (induction ws) simp_all

lemma sha_pad_prefix: "take (length m) (sha_pad m) = m"
  by (simp add: sha_pad_def)

lemma sha_pad_length_field:
  "be_words (drop (length (sha_pad m) - 8) (sha_pad m)) =
     [of_nat (length m div 536870912), of_nat (8 * length m)]"
proof -
  define xs where "xs = m @ [0x80] @ replicate ((119 - length m mod 64) mod 64) (0 :: byte)"
  have "sha_pad m = xs @ word_bytes (of_nat (length m div 536870912)) @ word_bytes (of_nat (8 * length m))"
    by (simp add: sha_pad_def xs_def)
  moreover have "length (sha_pad m) - 8 = length xs"
    by (simp add: length_sha_pad xs_def)
  ultimately show ?thesis
    using be_words_word_bytes [of _ "[]"] by simp
qed

lemma bit_length_of_words:
  assumes "L < 2 ^ 61"
  shows "unat (of_nat (L div 536870912) :: word32) * 4294967296 + unat (of_nat (8 * L) :: word32) = 8 * L"
proof -
  have "L div 536870912 < 4294967296"
    using assms by (simp add: div_less_iff_less_mult)
  then have hi: "unat (of_nat (L div 536870912) :: word32) = L div 536870912"
    by (simp only: unat_of_nat) simp
  have "unat (of_nat (8 * L) :: word32) = 8 * L mod 4294967296"
    by (simp only: unat_of_nat) simp
  also have "\<dots> = 8 * (L mod 536870912)"
    using mod_mult_mult1 [of 8 L 536870912] by simp
  finally have lo: "unat (of_nat (8 * L) :: word32) = 8 * (L mod 536870912)" .
  have "L div 536870912 * 4294967296 + 8 * (L mod 536870912) = 8 * L"
    using div_mult_mod_eq [of L 536870912] by linarith
  then show ?thesis
    by (simp only: hi lo)
qed

subsection \<open>The sliding window computes the schedule of the reference\<close>

lemma sha_W_less_16 [simp]: "t < 16 \<Longrightarrow> sha_W ws t = ws ! t"
  by (simp add: sha_W.simps)

lemma sched_next_sha_W: "sched_next (map (sha_W ws) [i..<i + 16]) = sha_W ws (i + 16)"
  by (simp add: sched_next_def sha_W.simps [of ws "i + 16"] add.commute)

lemma window_shift: "tl (map f [i..<i + 16]) @ [f (i + 16)] = map f [Suc i..<Suc i + 16]"
proof -
  have e: "Suc i + 16 = Suc (i + 16)" by simp
  have h: "[Suc i..<Suc i + 16] = [Suc i..<i + 16] @ [i + 16]"
    unfolding e by (rule upt_Suc_append) simp
  have c: "[i..<i + 16] = i # [Suc i..<i + 16]"
    by (simp add: upt_conv_Cons)
  show ?thesis
    unfolding c h by simp
qed

lemma hd_window: "hd (map f [i..<i + 16]) = f i"
  by (simp add: upt_conv_Cons del: upt_Suc)

lemma sha_rounds_window:
  "sha_rounds ks (map (sha_W ws) [i..<i + 16]) st =
     foldl (\<lambda>st (k, t). sha_round st k (sha_W ws t)) st (zip ks [i..<i + length ks])"
proof (induction ks arbitrary: i st)
  case Nil
  then show ?case by simp
next
  case (Cons k ks)
  have z: "zip (k # ks) [i..<i + length (k # ks)] = (k, i) # zip ks [Suc i..<Suc i + length ks]"
    by (simp add: upt_conv_Cons del: upt_Suc)
  have "sha_rounds (k # ks) (map (sha_W ws) [i..<i + 16]) st =
        sha_rounds ks (map (sha_W ws) [Suc i..<Suc i + 16]) (sha_round st k (sha_W ws i))"
    by (simp only: sha_rounds.simps sched_next_sha_W window_shift hd_window)
  also have "\<dots> = foldl (\<lambda>st (k, t). sha_round st k (sha_W ws t)) (sha_round st k (sha_W ws i))
                     (zip ks [Suc i..<Suc i + length ks])"
    by (rule Cons.IH)
  finally show ?case
    unfolding z foldl_Cons prod.case .
qed

lemma length_be_words: "length (be_words bs) = length bs div 4"
  by (induction bs rule: be_words.induct) simp_all

lemma map_sha_W_init: "length ws = 16 \<Longrightarrow> map (sha_W ws) [0..<16] = ws"
  by (simp add: list_eq_iff_nth_eq)

lemma zip_upt_nth: "zip xs [0..<length xs] = map (\<lambda>t. (xs ! t, t)) [0..<length xs]"
  by (rule nth_equalityI) simp_all

lemma length_sha_K: "length sha_K = 64"
  by (simp add: sha_K_def)

lemma sha_compress_ref_eq:
  assumes "length block = 64"
  shows "sha_compress hs block = sha_compress_ref hs block"
proof -
  have w: "map (sha_W (be_words block)) [0..<16] = be_words block"
    using assms by (intro map_sha_W_init) (simp add: length_be_words)
  have "sha_rounds sha_K (be_words block) hs =
      foldl (\<lambda>st (k, t). sha_round st k (sha_W (be_words block) t)) hs (zip sha_K [0..<length sha_K])"
    using sha_rounds_window [of sha_K "be_words block" 0 hs] unfolding add_0 w .
  also have "\<dots> = foldl (\<lambda>st t. sha_round st (sha_K ! t) (sha_W (be_words block) t)) hs [0..<64]"
  proof -
    have z: "zip sha_K [0..<64] = map (\<lambda>t. (sha_K ! t, t)) [0..<64]"
      using zip_upt_nth [of sha_K] by (simp only: length_sha_K)
    show ?thesis
      unfolding length_sha_K z foldl_map by simp
  qed
  finally show ?thesis
    unfolding sha_compress_def sha_compress_ref_def by simp
qed

lemma sha_block_list_Cons:
  assumes "64 \<le> length m"
  shows "sha_block_list m = take 64 m # sha_block_list (drop 64 m)"
proof -
  let ?f = "\<lambda>i. take 64 (drop (64 * i) m)"
  define k where "k = length (drop 64 m) div 64"
  have n: "length m div 64 = Suc k"
    using assms by (simp add: k_def le_div_geq)
  have "sha_block_list m = map ?f [0..<Suc k]"
    by (simp add: sha_block_list_def n)
  also have "\<dots> = ?f 0 # map ?f (map Suc [0..<k])"
    by (simp only: upt_conv_Cons zero_less_Suc map_Suc_upt list.map)
  also have "map ?f (map Suc [0..<k]) = map (\<lambda>i. take 64 (drop (64 * i) (drop 64 m))) [0..<k]"
    by (simp add: add.commute)
  finally show ?thesis
    by (simp add: sha_block_list_def k_def)
qed

lemma sha_blocks_foldl:
  "64 dvd length m \<Longrightarrow> sha_blocks hs m = foldl sha_compress hs (sha_block_list m)"
proof (induction hs m rule: sha_blocks.induct)
  case (1 hs)
  then show ?case by (simp add: sha_block_list_def)
next
  case (2 hs b bs)
  then have l: "64 \<le> length (b # bs)"
    using dvd_imp_le by blast
  moreover have "64 dvd length (b # bs) - 64"
    using "2.prems" by (rule dvd_diff_nat) simp
  then have "64 dvd length (drop 64 (b # bs))"
    by (simp only: length_drop)
  ultimately show ?case
    using "2.IH" by (simp only: sha_blocks.simps sha_block_list_Cons foldl_Cons)
qed

lemma sha_block_list_length:
  assumes "64 dvd length m" and "b \<in> set (sha_block_list m)"
  shows "length b = 64"
proof -
  obtain i where i: "i < length m div 64" and b: "b = take 64 (drop (64 * i) m)"
    using assms(2) by (auto simp: sha_block_list_def)
  from i assms(1) have "64 * i + 64 \<le> length m"
    by (auto elim!: dvdE)
  then show ?thesis using b by simp
qed

lemma sha256_eq_ref: "sha256 m = sha256_ref m"
proof -
  have d: "64 dvd length (sha_pad m)" by (rule sha_pad_dvd)
  have "foldl sha_compress sha_H0 (sha_block_list (sha_pad m)) =
        foldl sha_compress_ref sha_H0 (sha_block_list (sha_pad m))"
    by (rule foldl_cong) (simp_all add: sha_compress_ref_eq sha_block_list_length [OF d])
  then show ?thesis
    by (simp add: sha256_def sha256_ref_def sha_blocks_foldl [OF d])
qed

subsection \<open>UTF-8 of 8-bit code units\<close>

lemma utf8_decode_char: "utf8_decode (utf8_char c @ rest) = map_option (Cons c) (utf8_decode rest)"
proof -
  define n where "n = (of_char c :: nat)"
  have n256: "n < 256" by (simp add: n_def)
  have cn: "char_of n = c" by (simp add: n_def)
  show ?thesis
  proof (cases "n < 128")
    case True
    have "unat (of_nat n :: byte) = n" using n256 by (simp only: unat_of_nat) simp
    with True cn show ?thesis by (simp add: utf8_char_def Let_def n_def [symmetric])
  next
    case False
    have hi: "unat (of_nat (192 + n div 64) :: byte) = 192 + n div 64"
      using n256 by (simp only: unat_of_nat) simp
    have lo: "unat (of_nat (128 + n mod 64) :: byte) = 128 + n mod 64"
      by (simp only: unat_of_nat) simp
    have d: "n div 64 = 2 \<or> n div 64 = 3" using False n256 by linarith
    have "n div 64 * 64 + n mod 64 = n" by simp
    with False hi lo d cn show ?thesis
      by (auto simp: utf8_char_def Let_def n_def [symmetric])
  qed
qed

lemma utf8_encode_Cons: "utf8_encode (c # s) = utf8_char c @ utf8_encode s"
  by (simp add: utf8_encode_def)

lemma utf8_roundtrip: "utf8_decode (utf8_encode s) = Some s"
proof (induction s)
  case Nil
  then show ?case by (simp add: utf8_encode_def)
next
  case (Cons c s)
  then show ?case by (simp only: utf8_encode_Cons utf8_decode_char option.map)
qed

lemma utf8_encode_inj:
  assumes "utf8_encode a = utf8_encode b"
  shows "a = b"
proof -
  have "Some a = utf8_decode (utf8_encode a)" by (rule utf8_roundtrip [symmetric])
  also have "\<dots> = utf8_decode (utf8_encode b)" by (simp only: assms)
  also have "\<dots> = Some b" by (rule utf8_roundtrip)
  finally show ?thesis by (simp only: option.inject)
qed

subsection \<open>HMAC's key block\<close>

lemma hmac_key_short: "length key \<le> 64 \<Longrightarrow> hmac_key H key = key @ replicate (64 - length key) 0"
  by (simp add: hmac_key_def)

lemma hmac_key_trailing_zero: "length key < 64 \<Longrightarrow> hmac_key H (key @ [0]) = hmac_key H key"
proof -
  assume l: "length key < 64"
  have "[0] @ replicate (64 - length (key @ [0])) 0 = replicate (64 - length key) (0 :: byte)"
  proof -
    have "64 - length key = Suc (63 - length key)" using l by simp
    then show ?thesis by simp
  qed
  then show ?thesis
    using l by (simp add: hmac_key_short)
qed

lemma hmac_long_key:
  "64 < length key \<Longrightarrow> length (H key) \<le> 64 \<Longrightarrow> hmac_key H (H key) = hmac_key H key"
  by (simp add: hmac_key_def)

lemma utf8_char_nul: "utf8_char (CHR 0x00) = [0]"
  by (simp add: utf8_char_def)

lemma utf8_encode_append_nul: "utf8_encode (s @ [CHR 0x00]) = utf8_encode s @ [0]"
  by (simp add: utf8_encode_def utf8_char_nul)

end
