(* ===== verification/Sha256_Vector.thy ===== *)
theory Sha256_Vector
  imports Sha256
begin

text \<open>
  The test vector of FIPS 180-4 (example B.1): the digest of \<open>abc\<close>, computed in
  the kernel. Ground word arithmetic is evaluated by \<open>simp\<close>; the 64 rounds are split
  into lemmas of four rounds each, every one stating the message-schedule window and
  the working variables before and after, so that each is a small computation.
\<close>

lemma replicate_numeral_Cons: "replicate (numeral k) x = x # replicate (pred_numeral k) x"
  by (simp add: numeral_eq_Suc)

lemma sha_pad_abc: "sha_pad [0x61, 0x62, 0x63] = [0x61, 0x62, 0x63, 0x80, 0x00, 0x00, 0x00, 0x00, 0x00, 0x00, 0x00, 0x00, 0x00, 0x00, 0x00, 0x00, 0x00, 0x00, 0x00, 0x00, 0x00, 0x00, 0x00, 0x00, 0x00, 0x00, 0x00, 0x00, 0x00, 0x00, 0x00, 0x00, 0x00, 0x00, 0x00, 0x00, 0x00, 0x00, 0x00, 0x00, 0x00, 0x00, 0x00, 0x00, 0x00, 0x00, 0x00, 0x00, 0x00, 0x00, 0x00, 0x00, 0x00, 0x00, 0x00, 0x00, 0x00, 0x00, 0x00, 0x00, 0x00, 0x00, 0x00, 0x18]"
  by (simp add: sha_pad_def word_bytes_def replicate_numeral_Cons)

lemma be_words_abc: "be_words (sha_pad [0x61, 0x62, 0x63]) = [0x61626380, 0x00000000, 0x00000000, 0x00000000, 0x00000000, 0x00000000, 0x00000000, 0x00000000, 0x00000000, 0x00000000, 0x00000000, 0x00000000, 0x00000000, 0x00000000, 0x00000000, 0x00000018]"
  by (simp add: sha_pad_abc)

lemma sha_abc_rounds_0:
  "sha_rounds (0x428A2F98 # 0x71374491 # 0xB5C0FBCF # 0xE9B5DBA5 # ks)
     [0x61626380, 0x00000000, 0x00000000, 0x00000000, 0x00000000, 0x00000000, 0x00000000, 0x00000000, 0x00000000, 0x00000000, 0x00000000, 0x00000000, 0x00000000, 0x00000000, 0x00000000, 0x00000018]
     [0x6A09E667, 0xBB67AE85, 0x3C6EF372, 0xA54FF53A, 0x510E527F, 0x9B05688C, 0x1F83D9AB, 0x5BE0CD19] =
   sha_rounds ks
     [0x00000000, 0x00000000, 0x00000000, 0x00000000, 0x00000000, 0x00000000, 0x00000000, 0x00000000, 0x00000000, 0x00000000, 0x00000000, 0x00000018, 0x61626380, 0x000F0000, 0x7DA86405, 0x600003C6]
     [0xD550F666, 0xC8C347A7, 0x5A6AD9AD, 0x5D6AEBCD, 0x24E00850, 0xF92939EB, 0x78CE7989, 0xFA2A4622]"
  unfolding sha_rounds.simps(2) by (rule arg_cong2 [where f = "sha_rounds ks"]; simp add: sha_round_def sched_next_def sha_ch_def sha_maj_def bsig0_def bsig1_def ssig0_def ssig1_def word_rotr_shifts)

lemma sha_abc_rounds_4:
  "sha_rounds (0x3956C25B # 0x59F111F1 # 0x923F82A4 # 0xAB1C5ED5 # ks)
     [0x00000000, 0x00000000, 0x00000000, 0x00000000, 0x00000000, 0x00000000, 0x00000000, 0x00000000, 0x00000000, 0x00000000, 0x00000000, 0x00000018, 0x61626380, 0x000F0000, 0x7DA86405, 0x600003C6]
     [0xD550F666, 0xC8C347A7, 0x5A6AD9AD, 0x5D6AEBCD, 0x24E00850, 0xF92939EB, 0x78CE7989, 0xFA2A4622] =
   sha_rounds ks
     [0x00000000, 0x00000000, 0x00000000, 0x00000000, 0x00000000, 0x00000000, 0x00000000, 0x00000018, 0x61626380, 0x000F0000, 0x7DA86405, 0x600003C6, 0x3E9D7B78, 0x0183FC00, 0x12DCBFDB, 0xE2E2C38E]
     [0x85A07B5F, 0xE5030380, 0x2B4209F5, 0x04409A6A, 0x0C657A79, 0x9B27A401, 0x714260AD, 0x43ADA245]"
  unfolding sha_rounds.simps(2) by (rule arg_cong2 [where f = "sha_rounds ks"]; simp add: sha_round_def sched_next_def sha_ch_def sha_maj_def bsig0_def bsig1_def ssig0_def ssig1_def word_rotr_shifts)

lemma sha_abc_rounds_8:
  "sha_rounds (0xD807AA98 # 0x12835B01 # 0x243185BE # 0x550C7DC3 # ks)
     [0x00000000, 0x00000000, 0x00000000, 0x00000000, 0x00000000, 0x00000000, 0x00000000, 0x00000018, 0x61626380, 0x000F0000, 0x7DA86405, 0x600003C6, 0x3E9D7B78, 0x0183FC00, 0x12DCBFDB, 0xE2E2C38E]
     [0x85A07B5F, 0xE5030380, 0x2B4209F5, 0x04409A6A, 0x0C657A79, 0x9B27A401, 0x714260AD, 0x43ADA245] =
   sha_rounds ks
     [0x00000000, 0x00000000, 0x00000000, 0x00000018, 0x61626380, 0x000F0000, 0x7DA86405, 0x600003C6, 0x3E9D7B78, 0x0183FC00, 0x12DCBFDB, 0xE2E2C38E, 0xC8215C1A, 0xB73679A2, 0xE5BC3909, 0x32663C5B]
     [0xF71FC5A9, 0x4798A3F4, 0x8C87346B, 0x8E04ECB9, 0x816FD6E9, 0x436B23E8, 0x1CC92596, 0x32CA2D8C]"
  unfolding sha_rounds.simps(2) by (rule arg_cong2 [where f = "sha_rounds ks"]; simp add: sha_round_def sched_next_def sha_ch_def sha_maj_def bsig0_def bsig1_def ssig0_def ssig1_def word_rotr_shifts)

lemma sha_abc_rounds_12:
  "sha_rounds (0x72BE5D74 # 0x80DEB1FE # 0x9BDC06A7 # 0xC19BF174 # ks)
     [0x00000000, 0x00000000, 0x00000000, 0x00000018, 0x61626380, 0x000F0000, 0x7DA86405, 0x600003C6, 0x3E9D7B78, 0x0183FC00, 0x12DCBFDB, 0xE2E2C38E, 0xC8215C1A, 0xB73679A2, 0xE5BC3909, 0x32663C5B]
     [0xF71FC5A9, 0x4798A3F4, 0x8C87346B, 0x8E04ECB9, 0x816FD6E9, 0x436B23E8, 0x1CC92596, 0x32CA2D8C] =
   sha_rounds ks
     [0x61626380, 0x000F0000, 0x7DA86405, 0x600003C6, 0x3E9D7B78, 0x0183FC00, 0x12DCBFDB, 0xE2E2C38E, 0xC8215C1A, 0xB73679A2, 0xE5BC3909, 0x32663C5B, 0x9D209D67, 0xEC8726CB, 0x702138A4, 0xD3B7973B]
     [0xB0FA238E, 0xC0645FDE, 0xD932EB16, 0x87912990, 0x07590DCD, 0x0B92F20C, 0x745A48DE, 0x1E578218]"
  unfolding sha_rounds.simps(2) by (rule arg_cong2 [where f = "sha_rounds ks"]; simp add: sha_round_def sched_next_def sha_ch_def sha_maj_def bsig0_def bsig1_def ssig0_def ssig1_def word_rotr_shifts)

lemma sha_abc_rounds_16:
  "sha_rounds (0xE49B69C1 # 0xEFBE4786 # 0x0FC19DC6 # 0x240CA1CC # ks)
     [0x61626380, 0x000F0000, 0x7DA86405, 0x600003C6, 0x3E9D7B78, 0x0183FC00, 0x12DCBFDB, 0xE2E2C38E, 0xC8215C1A, 0xB73679A2, 0xE5BC3909, 0x32663C5B, 0x9D209D67, 0xEC8726CB, 0x702138A4, 0xD3B7973B]
     [0xB0FA238E, 0xC0645FDE, 0xD932EB16, 0x87912990, 0x07590DCD, 0x0B92F20C, 0x745A48DE, 0x1E578218] =
   sha_rounds ks
     [0x3E9D7B78, 0x0183FC00, 0x12DCBFDB, 0xE2E2C38E, 0xC8215C1A, 0xB73679A2, 0xE5BC3909, 0x32663C5B, 0x9D209D67, 0xEC8726CB, 0x702138A4, 0xD3B7973B, 0x93F5997F, 0x3B68BA73, 0xAFF4FFC1, 0xF10A5C62]
     [0xE1F20C33, 0xFE777BBF, 0xC2FBD9D1, 0x21DA9A9B, 0xB0638179, 0xCC899961, 0x846EE454, 0x8034229C]"
  unfolding sha_rounds.simps(2) by (rule arg_cong2 [where f = "sha_rounds ks"]; simp add: sha_round_def sched_next_def sha_ch_def sha_maj_def bsig0_def bsig1_def ssig0_def ssig1_def word_rotr_shifts)

lemma sha_abc_rounds_20:
  "sha_rounds (0x2DE92C6F # 0x4A7484AA # 0x5CB0A9DC # 0x76F988DA # ks)
     [0x3E9D7B78, 0x0183FC00, 0x12DCBFDB, 0xE2E2C38E, 0xC8215C1A, 0xB73679A2, 0xE5BC3909, 0x32663C5B, 0x9D209D67, 0xEC8726CB, 0x702138A4, 0xD3B7973B, 0x93F5997F, 0x3B68BA73, 0xAFF4FFC1, 0xF10A5C62]
     [0xE1F20C33, 0xFE777BBF, 0xC2FBD9D1, 0x21DA9A9B, 0xB0638179, 0xCC899961, 0x846EE454, 0x8034229C] =
   sha_rounds ks
     [0xC8215C1A, 0xB73679A2, 0xE5BC3909, 0x32663C5B, 0x9D209D67, 0xEC8726CB, 0x702138A4, 0xD3B7973B, 0x93F5997F, 0x3B68BA73, 0xAFF4FFC1, 0xF10A5C62, 0x0A8B3996, 0x72AF830A, 0x9409E33E, 0x24641522]
     [0xC5D53D8D, 0xA7A3623F, 0xC2606D6D, 0x9DC68B63, 0xAA47C347, 0x49F5114A, 0xE1257970, 0x8ADA8930]"
  unfolding sha_rounds.simps(2) by (rule arg_cong2 [where f = "sha_rounds ks"]; simp add: sha_round_def sched_next_def sha_ch_def sha_maj_def bsig0_def bsig1_def ssig0_def ssig1_def word_rotr_shifts)

lemma sha_abc_rounds_24:
  "sha_rounds (0x983E5152 # 0xA831C66D # 0xB00327C8 # 0xBF597FC7 # ks)
     [0xC8215C1A, 0xB73679A2, 0xE5BC3909, 0x32663C5B, 0x9D209D67, 0xEC8726CB, 0x702138A4, 0xD3B7973B, 0x93F5997F, 0x3B68BA73, 0xAFF4FFC1, 0xF10A5C62, 0x0A8B3996, 0x72AF830A, 0x9409E33E, 0x24641522]
     [0xC5D53D8D, 0xA7A3623F, 0xC2606D6D, 0x9DC68B63, 0xAA47C347, 0x49F5114A, 0xE1257970, 0x8ADA8930] =
   sha_rounds ks
     [0x9D209D67, 0xEC8726CB, 0x702138A4, 0xD3B7973B, 0x93F5997F, 0x3B68BA73, 0xAFF4FFC1, 0xF10A5C62, 0x0A8B3996, 0x72AF830A, 0x9409E33E, 0x24641522, 0x9F47BF94, 0xF0A64F5A, 0x3E246A79, 0x27333BA3]
     [0x77D37528, 0xB62EC4BC, 0xCDE8037D, 0x1C2C2838, 0xEDFFBFF8, 0xC74C6516, 0x14383D8E, 0x2823EF91]"
  unfolding sha_rounds.simps(2) by (rule arg_cong2 [where f = "sha_rounds ks"]; simp add: sha_round_def sched_next_def sha_ch_def sha_maj_def bsig0_def bsig1_def ssig0_def ssig1_def word_rotr_shifts)

lemma sha_abc_rounds_28:
  "sha_rounds (0xC6E00BF3 # 0xD5A79147 # 0x06CA6351 # 0x14292967 # ks)
     [0x9D209D67, 0xEC8726CB, 0x702138A4, 0xD3B7973B, 0x93F5997F, 0x3B68BA73, 0xAFF4FFC1, 0xF10A5C62, 0x0A8B3996, 0x72AF830A, 0x9409E33E, 0x24641522, 0x9F47BF94, 0xF0A64F5A, 0x3E246A79, 0x27333BA3]
     [0x77D37528, 0xB62EC4BC, 0xCDE8037D, 0x1C2C2838, 0xEDFFBFF8, 0xC74C6516, 0x14383D8E, 0x2823EF91] =
   sha_rounds ks
     [0x93F5997F, 0x3B68BA73, 0xAFF4FFC1, 0xF10A5C62, 0x0A8B3996, 0x72AF830A, 0x9409E33E, 0x24641522, 0x9F47BF94, 0xF0A64F5A, 0x3E246A79, 0x27333BA3, 0x0C4763F2, 0x840ABF27, 0x7A290D5D, 0x065C43DA]
     [0x73B33BF5, 0xEA992A22, 0xA0060B30, 0x363482C9, 0xBA591112, 0x0109AB3A, 0xADE79437, 0x6112A3B7]"
  unfolding sha_rounds.simps(2) by (rule arg_cong2 [where f = "sha_rounds ks"]; simp add: sha_round_def sched_next_def sha_ch_def sha_maj_def bsig0_def bsig1_def ssig0_def ssig1_def word_rotr_shifts)

lemma sha_abc_rounds_32:
  "sha_rounds (0x27B70A85 # 0x2E1B2138 # 0x4D2C6DFC # 0x53380D13 # ks)
     [0x93F5997F, 0x3B68BA73, 0xAFF4FFC1, 0xF10A5C62, 0x0A8B3996, 0x72AF830A, 0x9409E33E, 0x24641522, 0x9F47BF94, 0xF0A64F5A, 0x3E246A79, 0x27333BA3, 0x0C4763F2, 0x840ABF27, 0x7A290D5D, 0x065C43DA]
     [0x73B33BF5, 0xEA992A22, 0xA0060B30, 0x363482C9, 0xBA591112, 0x0109AB3A, 0xADE79437, 0x6112A3B7] =
   sha_rounds ks
     [0x0A8B3996, 0x72AF830A, 0x9409E33E, 0x24641522, 0x9F47BF94, 0xF0A64F5A, 0x3E246A79, 0x27333BA3, 0x0C4763F2, 0x840ABF27, 0x7A290D5D, 0x065C43DA, 0xFB3E89CB, 0xCC7617DB, 0xB9E66C34, 0xA9993667]
     [0x65A0CFE4, 0xA9A7738C, 0xFE604DF5, 0x98E12507, 0xF4B002D6, 0x085F3833, 0x59249DD3, 0x9CD9F5F6]"
  unfolding sha_rounds.simps(2) by (rule arg_cong2 [where f = "sha_rounds ks"]; simp add: sha_round_def sched_next_def sha_ch_def sha_maj_def bsig0_def bsig1_def ssig0_def ssig1_def word_rotr_shifts)

lemma sha_abc_rounds_36:
  "sha_rounds (0x650A7354 # 0x766A0ABB # 0x81C2C92E # 0x92722C85 # ks)
     [0x0A8B3996, 0x72AF830A, 0x9409E33E, 0x24641522, 0x9F47BF94, 0xF0A64F5A, 0x3E246A79, 0x27333BA3, 0x0C4763F2, 0x840ABF27, 0x7A290D5D, 0x065C43DA, 0xFB3E89CB, 0xCC7617DB, 0xB9E66C34, 0xA9993667]
     [0x65A0CFE4, 0xA9A7738C, 0xFE604DF5, 0x98E12507, 0xF4B002D6, 0x085F3833, 0x59249DD3, 0x9CD9F5F6] =
   sha_rounds ks
     [0x9F47BF94, 0xF0A64F5A, 0x3E246A79, 0x27333BA3, 0x0C4763F2, 0x840ABF27, 0x7A290D5D, 0x065C43DA, 0xFB3E89CB, 0xCC7617DB, 0xB9E66C34, 0xA9993667, 0x84BADEDD, 0xC21462BC, 0x1487472C, 0xB20F7A99]
     [0x79EA687A, 0x6DC57A8A, 0x34DF1604, 0x41A65CB1, 0x1EFBC0A0, 0xF0781BC8, 0xA507A53D, 0x0772A26B]"
  unfolding sha_rounds.simps(2) by (rule arg_cong2 [where f = "sha_rounds ks"]; simp add: sha_round_def sched_next_def sha_ch_def sha_maj_def bsig0_def bsig1_def ssig0_def ssig1_def word_rotr_shifts)

lemma sha_abc_rounds_40:
  "sha_rounds (0xA2BFE8A1 # 0xA81A664B # 0xC24B8B70 # 0xC76C51A3 # ks)
     [0x9F47BF94, 0xF0A64F5A, 0x3E246A79, 0x27333BA3, 0x0C4763F2, 0x840ABF27, 0x7A290D5D, 0x065C43DA, 0xFB3E89CB, 0xCC7617DB, 0xB9E66C34, 0xA9993667, 0x84BADEDD, 0xC21462BC, 0x1487472C, 0xB20F7A99]
     [0x79EA687A, 0x6DC57A8A, 0x34DF1604, 0x41A65CB1, 0x1EFBC0A0, 0xF0781BC8, 0xA507A53D, 0x0772A26B] =
   sha_rounds ks
     [0x0C4763F2, 0x840ABF27, 0x7A290D5D, 0x065C43DA, 0xFB3E89CB, 0xCC7617DB, 0xB9E66C34, 0xA9993667, 0x84BADEDD, 0xC21462BC, 0x1487472C, 0xB20F7A99, 0xEF57B9CD, 0xEBE6B238, 0x9FE3095E, 0x78BC8D4B]
     [0x9D4BAF93, 0x17AA0DFE, 0xDF46652F, 0xD6670766, 0xFDA24C2E, 0xDECD4715, 0x838B2711, 0x26352D63]"
  unfolding sha_rounds.simps(2) by (rule arg_cong2 [where f = "sha_rounds ks"]; simp add: sha_round_def sched_next_def sha_ch_def sha_maj_def bsig0_def bsig1_def ssig0_def ssig1_def word_rotr_shifts)

lemma sha_abc_rounds_44:
  "sha_rounds (0xD192E819 # 0xD6990624 # 0xF40E3585 # 0x106AA070 # ks)
     [0x0C4763F2, 0x840ABF27, 0x7A290D5D, 0x065C43DA, 0xFB3E89CB, 0xCC7617DB, 0xB9E66C34, 0xA9993667, 0x84BADEDD, 0xC21462BC, 0x1487472C, 0xB20F7A99, 0xEF57B9CD, 0xEBE6B238, 0x9FE3095E, 0x78BC8D4B]
     [0x9D4BAF93, 0x17AA0DFE, 0xDF46652F, 0xD6670766, 0xFDA24C2E, 0xDECD4715, 0x838B2711, 0x26352D63] =
   sha_rounds ks
     [0xFB3E89CB, 0xCC7617DB, 0xB9E66C34, 0xA9993667, 0x84BADEDD, 0xC21462BC, 0x1487472C, 0xB20F7A99, 0xEF57B9CD, 0xEBE6B238, 0x9FE3095E, 0x78BC8D4B, 0xA43FCF15, 0x668B2FF8, 0xEEABA2CC, 0x12B1EDEB]
     [0x4172328D, 0xA14C14B0, 0x72AB4B91, 0x26628815, 0xFECF0BC6, 0xD57B94A9, 0xB7755DA1, 0xA80F11F0]"
  unfolding sha_rounds.simps(2) by (rule arg_cong2 [where f = "sha_rounds ks"]; simp add: sha_round_def sched_next_def sha_ch_def sha_maj_def bsig0_def bsig1_def ssig0_def ssig1_def word_rotr_shifts)

lemma sha_abc_rounds_48:
  "sha_rounds (0x19A4C116 # 0x1E376C08 # 0x2748774C # 0x34B0BCB5 # ks)
     [0xFB3E89CB, 0xCC7617DB, 0xB9E66C34, 0xA9993667, 0x84BADEDD, 0xC21462BC, 0x1487472C, 0xB20F7A99, 0xEF57B9CD, 0xEBE6B238, 0x9FE3095E, 0x78BC8D4B, 0xA43FCF15, 0x668B2FF8, 0xEEABA2CC, 0x12B1EDEB]
     [0x4172328D, 0xA14C14B0, 0x72AB4B91, 0x26628815, 0xFECF0BC6, 0xD57B94A9, 0xB7755DA1, 0xA80F11F0] =
   sha_rounds ks
     [0x84BADEDD, 0xC21462BC, 0x1487472C, 0xB20F7A99, 0xEF57B9CD, 0xEBE6B238, 0x9FE3095E, 0x78BC8D4B, 0xA43FCF15, 0x668B2FF8, 0xEEABA2CC, 0x12B1EDEB, 0xB80A5A34, 0x1CE797D5, 0x310FC1D7, 0xA31968CE]
     [0x886E7A22, 0x7A0508A1, 0xF11BFAA8, 0x05757CEB, 0x49231C1E, 0x52F1CCF7, 0x6E5C390C, 0xBD714038]"
  unfolding sha_rounds.simps(2) by (rule arg_cong2 [where f = "sha_rounds ks"]; simp add: sha_round_def sched_next_def sha_ch_def sha_maj_def bsig0_def bsig1_def ssig0_def ssig1_def word_rotr_shifts)

lemma sha_abc_rounds_52:
  "sha_rounds (0x391C0CB3 # 0x4ED8AA4A # 0x5B9CCA4F # 0x682E6FF3 # ks)
     [0x84BADEDD, 0xC21462BC, 0x1487472C, 0xB20F7A99, 0xEF57B9CD, 0xEBE6B238, 0x9FE3095E, 0x78BC8D4B, 0xA43FCF15, 0x668B2FF8, 0xEEABA2CC, 0x12B1EDEB, 0xB80A5A34, 0x1CE797D5, 0x310FC1D7, 0xA31968CE]
     [0x886E7A22, 0x7A0508A1, 0xF11BFAA8, 0x05757CEB, 0x49231C1E, 0x52F1CCF7, 0x6E5C390C, 0xBD714038] =
   sha_rounds ks
     [0xEF57B9CD, 0xEBE6B238, 0x9FE3095E, 0x78BC8D4B, 0xA43FCF15, 0x668B2FF8, 0xEEABA2CC, 0x12B1EDEB, 0xB80A5A34, 0x1CE797D5, 0x310FC1D7, 0xA31968CE, 0x7D8CE042, 0xD5892C87, 0x0EF2E48B, 0x86476AAA]
     [0x38CC9913, 0x3EC45CDB, 0xF5702FDB, 0x101FD28F, 0x54CB266B, 0xE50E1B4F, 0x9F4787C3, 0x529E7D00]"
  unfolding sha_rounds.simps(2) by (rule arg_cong2 [where f = "sha_rounds ks"]; simp add: sha_round_def sched_next_def sha_ch_def sha_maj_def bsig0_def bsig1_def ssig0_def ssig1_def word_rotr_shifts)

lemma sha_abc_rounds_56:
  "sha_rounds (0x748F82EE # 0x78A5636F # 0x84C87814 # 0x8CC70208 # ks)
     [0xEF57B9CD, 0xEBE6B238, 0x9FE3095E, 0x78BC8D4B, 0xA43FCF15, 0x668B2FF8, 0xEEABA2CC, 0x12B1EDEB, 0xB80A5A34, 0x1CE797D5, 0x310FC1D7, 0xA31968CE, 0x7D8CE042, 0xD5892C87, 0x0EF2E48B, 0x86476AAA]
     [0x38CC9913, 0x3EC45CDB, 0xF5702FDB, 0x101FD28F, 0x54CB266B, 0xE50E1B4F, 0x9F4787C3, 0x529E7D00] =
   sha_rounds ks
     [0xA43FCF15, 0x668B2FF8, 0xEEABA2CC, 0x12B1EDEB, 0xB80A5A34, 0x1CE797D5, 0x310FC1D7, 0xA31968CE, 0x7D8CE042, 0xD5892C87, 0x0EF2E48B, 0x86476AAA, 0xFB3BCD9A, 0xE1ABF701, 0x9CF194D1, 0x47AD031D]
     [0xB6AE8FFF, 0xFFB70472, 0xC062D46F, 0xFCD1887B, 0xB21BAD3D, 0x6D83BFC6, 0x7E44008E, 0x9B5E906C]"
  unfolding sha_rounds.simps(2) by (rule arg_cong2 [where f = "sha_rounds ks"]; simp add: sha_round_def sched_next_def sha_ch_def sha_maj_def bsig0_def bsig1_def ssig0_def ssig1_def word_rotr_shifts)

lemma sha_abc_rounds_60:
  "sha_rounds (0x90BEFFFA # 0xA4506CEB # 0xBEF9A3F7 # 0xC67178F2 # ks)
     [0xA43FCF15, 0x668B2FF8, 0xEEABA2CC, 0x12B1EDEB, 0xB80A5A34, 0x1CE797D5, 0x310FC1D7, 0xA31968CE, 0x7D8CE042, 0xD5892C87, 0x0EF2E48B, 0x86476AAA, 0xFB3BCD9A, 0xE1ABF701, 0x9CF194D1, 0x47AD031D]
     [0xB6AE8FFF, 0xFFB70472, 0xC062D46F, 0xFCD1887B, 0xB21BAD3D, 0x6D83BFC6, 0x7E44008E, 0x9B5E906C] =
   sha_rounds ks
     [0xB80A5A34, 0x1CE797D5, 0x310FC1D7, 0xA31968CE, 0x7D8CE042, 0xD5892C87, 0x0EF2E48B, 0x86476AAA, 0xFB3BCD9A, 0xE1ABF701, 0x9CF194D1, 0x47AD031D, 0xAA812721, 0x04360D9C, 0xDB5AE899, 0xBE66BC93]
     [0x506E3058, 0xD39A2165, 0x04D24D6C, 0xB85E2CE9, 0x5EF50F24, 0xFB121210, 0x948D25B6, 0x961F4894]"
  unfolding sha_rounds.simps(2) by (rule arg_cong2 [where f = "sha_rounds ks"]; simp add: sha_round_def sched_next_def sha_ch_def sha_maj_def bsig0_def bsig1_def ssig0_def ssig1_def word_rotr_shifts)

lemma sha_abc_rounds: "sha_rounds sha_K [0x61626380, 0x00000000, 0x00000000, 0x00000000, 0x00000000, 0x00000000, 0x00000000, 0x00000000, 0x00000000, 0x00000000, 0x00000000, 0x00000000, 0x00000000, 0x00000000, 0x00000000, 0x00000018] sha_H0 = [0x506E3058, 0xD39A2165, 0x04D24D6C, 0xB85E2CE9, 0x5EF50F24, 0xFB121210, 0x948D25B6, 0x961F4894]"
  unfolding sha_K_def sha_H0_def by (simp only: sha_abc_rounds_0 sha_abc_rounds_4 sha_abc_rounds_8 sha_abc_rounds_12 sha_abc_rounds_16 sha_abc_rounds_20 sha_abc_rounds_24 sha_abc_rounds_28 sha_abc_rounds_32 sha_abc_rounds_36 sha_abc_rounds_40 sha_abc_rounds_44 sha_abc_rounds_48 sha_abc_rounds_52 sha_abc_rounds_56 sha_abc_rounds_60 sha_rounds.simps(1))

lemma sha256_abc: "sha256 [0x61, 0x62, 0x63] = [0xBA, 0x78, 0x16, 0xBF, 0x8F, 0x01, 0xCF, 0xEA, 0x41, 0x41, 0x40, 0xDE, 0x5D, 0xAE, 0x22, 0x23, 0xB0, 0x03, 0x61, 0xA3, 0x96, 0x17, 0x7A, 0x9C, 0xB4, 0x10, 0xFF, 0x61, 0xF2, 0x00, 0x15, 0xAD]"
proof -
  have "sha_compress sha_H0 (sha_pad [0x61, 0x62, 0x63]) = [0xBA7816BF, 0x8F01CFEA, 0x414140DE, 0x5DAE2223, 0xB00361A3, 0x96177A9C, 0xB410FF61, 0xF20015AD]"
    unfolding sha_compress_def be_words_abc sha_abc_rounds by (simp add: sha_H0_def)
  moreover have "sha_blocks h (sha_pad [0x61, 0x62, 0x63]) = sha_compress h (sha_pad [0x61, 0x62, 0x63])" for h
    by (simp only: sha_pad_abc sha_blocks.simps) simp
  ultimately show ?thesis
    by (simp add: sha256_def word_bytes_def)
qed

end
