(* ===== verification/Spec2Isabelle.thy ===== *)
theory Spec2Isabelle
  imports Index RequestUtilsTest Sha256_Vector
begin

text \<open>
  \<^bold>\<open>A verification development of the BitMEX REST client (src/src/).\<close>

  \<^bold>\<open>The program.\<close> A small authenticated HTTP client. Its parts and how they interact:
  \<^item> the signing core, utils/auth.utils.ts (\<open>AuthUtils.generateSignature\<close>,
    \<open>AuthUtils.generateHeaders\<close>): the payload \<open>verb + path + expires + data\<close>, its
    HMAC-SHA256 under the API secret, hex encoded, and the four headers with an expiry
    60 s ahead of the clock;
  \<^item> the service, services/bitmex.service.ts (\<open>BitMEXService\<close>): its own signing
    routine (trimmed secret, \<open>/api/v1\<close>-prefixed path), \<open>getPositions\<close>,
    \<open>createOrder\<close>, \<open>getInstruments\<close>, which call axios directly, and the error
    normaliser \<open>handleError\<close> their \<open>catch\<close> blocks call;
  \<^item> the shared client, utils/request.utils.ts (\<open>RequestUtils\<close>): a lazily created
    axios instance whose request interceptor signs every call through
    \<open>AuthUtils.generateSignature\<close>;
  \<^item> configuration and endpoint constants (config/config.ts, constants/endpoints.ts),
    read by the service; the entry point index.ts, which loads \<open>.env\<close> and calls the
    service;
  \<^item> the Jest test utils/__tests__/request.utils.test.ts, which checks how
    \<open>getInstance\<close> configures the instance.
  Outside the sources: axios, which serialises and sends what the service hands it,
  and the exchange, which checks the signature and reads the JSON body.

  \<^bold>\<open>Theories and the groups of definitions.\<close>
  \<^item> \<open>Prelude\<close>: the types \<open>byte\<close>, \<open>mac\<close> (the MAC primitive, a parameter of
    every operation), \<open>env\<close> (\<open>process.env\<close>); the \<open>js_eval\<close> rules that evaluate
    concrete characters; \<open>join_with\<close>; the lemma splitting a concatenation at a
    guard character.
  \<^item> \<open>JsString\<close>: \<open>js_int_str\<close> (\<open>String(n)\<close> of an integral number) and its reader
    \<open>parse_int\<close>, \<open>js_trim\<close>, \<open>js_to_upper\<close>, \<open>env_or\<close> (\<open>process.env.X || d\<close>),
    \<open>round_ms_to_s\<close> / \<open>floor_ms_to_s\<close> (\<open>Math.round\<close>/\<open>Math.floor\<close> of ms/1000).
  \<^item> \<open>Hex\<close>: \<open>hex_encode\<close> (\<open>digest(''hex'')\<close>) on \<open>8 word\<close> bytes and its decoder.
  \<^item> \<open>JsValue\<close>, \<open>Json\<close>: the values \<open>jv\<close> of payloads and bodies, exceptions
    \<open>js_exn\<close>, truthiness, \<open>||\<close>, template-literal conversion, \<open>x.k\<close>/\<open>x?.k\<close> with
    V8's TypeError, \<open>obj[k] = v\<close>, and \<open>JSON.stringify\<close>.
  \<^item> \<open>Auth\<close>: \<open>signature_payload\<close>, \<open>AuthUtils_generateSignature\<close>,
    \<open>generateHeaders\<close> (clock \<open>now\<close> in ms as a parameter).
  \<^item> \<open>Config\<close>: \<open>getIsTestnet\<close>, the record \<open>bitmex_config\<close> and \<open>config\<close>,
    \<open>ENDPOINTS\<close>.
  \<^item> \<open>JsonParse\<close> (modelled from the specification): the exchange's JSON reader
    \<open>json_parse\<close>. Its string scanner \<open>parse_string\<close> is a \<open>function\<close> whose
    termination is proved on the input length; the nested reader \<open>parse_value\<close> /
    \<open>parse_elems\<close> / \<open>parse_members\<close> takes fuel, and \<open>json_parse\<close> gives it
    one unit more than the input has characters (\<open>json_parse_iff_some_fuel\<close>: that is
    enough for every input some fuel reads). \<open>json_normal\<close> is what
    \<open>JSON.stringify\<close> keeps of a value. Beside the reader, \<open>json_valid\<close>: what
    \<open>JSON.parse\<close> accepts (the full grammar, fractions and exponents included), as a
    pushdown recogniser \<open>json_scan\<close> that recurses on the input and needs no fuel.
  \<^item> \<open>Wire\<close> (modelled from the specification and axios's \<open>transformRequest\<close> and
    Node adapter, since neither is code of the repository): \<open>http_request\<close>,
    \<open>axios_error\<close>, a \<open>transport\<close>; \<open>AxiosHeaders\<close> (\<open>header_sent\<close>,
    \<open>content_type_value\<close>, \<open>ct_has\<close>); the body \<open>wire_body\<close> by content type
    (JSON text, \<open>JSON.stringify\<close>, a trimmed JSON string, a raw string, no body, a
    refusal, or the abstract form encoding \<open>form\<close>); the exchange's verifier
    \<open>server_accepts\<close> and the transport \<open>exchange\<close> built from it.
  \<^item> \<open>Service\<close>: the record \<open>bitmex_service\<close> (the three fields), \<open>BitMEXService_new\<close>,
    \<open>BitMEXService_generateSignature\<close>, \<open>handleError\<close>, \<open>getPositions\<close>,
    \<open>createOrder\<close>, \<open>getInstruments\<close>. An \<open>async\<close> method is a function of the MAC,
    the service, the clock and the transport returning its settled value or thrown
    exception (\<open>js_exn + jv\<close>) and its console output.
  \<^item> \<open>Index\<close>: the order of module loading against \<open>dotenv.config()\<close>
    (\<open>index_service\<close>) and \<open>main\<close>.
  \<^item> \<open>RequestUtils\<close>: the static state \<open>request_utils\<close>, \<open>getInstance\<close>,
    \<open>setupInterceptors\<close>, the interceptor \<open>sign_interceptor\<close> and the body it signs
    (\<open>interceptor_body\<close>), the reachable states \<open>ru_reach\<close> (any sequence of
    \<open>getInstance\<close> calls under any environments), runs \<open>ru_run\<close> (a given list of
    calls), and axios's dispatch \<open>axios_request\<close> (interceptors, URL joining).
  \<^item> \<open>RequestUtilsTest\<close>: \<open>request_utils_test\<close>, the verdict of the Jest test's
    expectations under a process environment.
  \<^item> \<open>Sha256\<close> (Node's crypto, modelled from FIPS 180-4 and RFC 2104): SHA-256 on
    \<open>32 word\<close> values (\<open>sha_K\<close>, \<open>sha_H0\<close>, \<open>sha_round\<close>, the sliding-window
    schedule \<open>sched_next\<close>, \<open>sha_compress\<close>, \<open>sha_pad\<close>, \<open>sha_blocks\<close>,
    \<open>sha256\<close>), \<open>hmac_rfc2104\<close> with its key block \<open>hmac_key\<close>, UTF-8
    (\<open>utf8_encode\<close>) and \<open>node_hmac_sha256\<close>, the instance of the MAC parameter that
    \<open>crypto.createHmac(''sha256'', key).update(msg).digest()\<close> computes; and the
    reference formulation (\<open>sha_W\<close>, \<open>sha_compress_ref\<close>, \<open>sha256_ref\<close>).
    \<open>Sha256_Vector\<close> checks the FIPS test vector \<open>abc\<close> in the kernel.

  \<^bold>\<open>What is proved.\<close> End to end, the service's reads and its object-payload orders
  are accepted by the exchange's verifier, which reads back exactly the order that was
  signed, when the key is registered with the trimmed secret, the base URL is
  \<open>https://host/api/v1\<close> and the request arrives within 59.5 s (the 60 s offset less
  the half second \<open>Math.round\<close> may lose); the core's payload is unambiguous for
  endpoint-shaped paths and JSON bodies, and ambiguous in general (a trailing digit of
  the path moves into the expiry); the service's signatures determine verb, endpoint,
  expiry and body; the service's signing refines the core's; the expiry is strictly in
  the future, and a read is answered exactly until the exchange's clock reaches
  \<open>Math.round(now / 1000) + 60\<close>, after which the demo prints the normalised
  rejection and stops before its second request; \<open>handleError\<close> on every branch
  (exchange message, transport message, fallback, TypeError); the singleton's
  invariant by rule induction, its idempotence, and that the first call of any run
  fixes the instance; the demo \<open>main\<close> prints both results end to end; the unit test
  passes exactly when \<open>BITMEX_BASE_URL\<close> is unset, empty or the testnet URL. With
  Node's HMAC-SHA256 in place of the MAC parameter, the \<open>api-signature\<close> header is
  the specification's HMAC-SHA256 of \<open>verb ++ path ++ expiresAt ++ body\<close>; for this
  the sliding-window SHA-256 is proved equal to the FIPS reference formulation
  (\<open>sha256_eq_ref\<close>), the padding has a length divisible by 64 and ends in the bit
  length, and UTF-8 of 8-bit code units round-trips.
  Several theorems pin down defects: the shared client's signatures cover the
  relative path and are always rejected; a string order is signed quoted and sent
  unquoted; the interceptor's signed body differs from the body axios sends for
  strings and falsy values, depending on the content type; \<open>handleError\<close> throws on
  an undefined or null body; a missing secret is reported as a network error by one
  method and as a raw TypeError by another; the network choice ignores \<open>.env\<close>;
  \<open>getInstruments\<close> ignores its parameters; a secret and the same secret followed by
  a NUL character sign alike.

  \<^bold>\<open>Assumptions and bounds.\<close> The MAC is a parameter of every operation; theorems
  that need it collision-free under a key say so (\<open>inj (hmac k)\<close>), instantiated in
  the witnesses by the injective \<open>echo_mac\<close>; the theorems about Node's own MAC use
  \<open>node_hmac_sha256\<close>. No loop of the program needs fuel: the recursions (decimal
  digits, hex decoding, JSON serialisation, the SHA-256 blocks and rounds, the
  \<open>JSON.parse\<close> recogniser) are structural, on \<open>n div 10\<close>, or on the length of the
  rest of the message (\<open>sha_blocks\<close>, with its \<open>termination\<close> proof). Only the
  exchange's JSON reader takes fuel, shown sufficient by \<open>json_parse_iff_some_fuel\<close>.
  Numbers are integral and characters are 8-bit code units. The SHA-256 test vector is
  evaluated by \<open>simp\<close> on ground words, four rounds per lemma, which keeps the
  numerals the kernel handles small.

  \<^bold>\<open>Not modelled.\<close> The URL-encoded and multipart bodies axios builds for an object
  under a form content type (the parameter \<open>form\<close>; the multipart boundary is
  random); the network, timeouts and the \<open>retries\<close>/\<open>rateLimit\<close> settings, which no
  code reads; the Jest mocking machinery (the test is modelled by its expectations);
  fractional numbers and JS's property ordering of objects, which the payloads of the
  sources do not use; axios's parsing of the response body.
\<close>

subsection \<open>Properties spanning the signing core and the service\<close>

text \<open>
  C7: the service's signing routine refines the signing core. \<open>BitMEXService.generateSignature\<close>
  is \<open>AuthUtils.generateSignature\<close> applied to the trimmed secret and the
  \<open>/api/v1\<close>-prefixed path, with an absent body signed as the empty string; a missing
  secret is the TypeError of \<open>undefined.trim\<close>.
\<close>

theorem service_signature_refines_auth:
  "BitMEXService_generateSignature hmac svc m p e d =
     (case apiSecret svc of
        None \<Rightarrow> Inl (undefined_read ''trim'')
      | Some s \<Rightarrow> Inr (AuthUtils_generateSignature hmac (js_trim s) m (''/api/v1'' @ p) e
                        (case d of None \<Rightarrow> [] | Some x \<Rightarrow> x)))"
  by (simp add: BitMEXService_generateSignature_def AuthUtils_generateSignature_def signature_payload_def
      split: option.split)

text \<open>
  C11: the service's signatures determine the request. Under a collision-free MAC, two
  requests \<open>BitMEXService.generateSignature\<close> signs for its verbs (\<open>GET\<close>,
  \<open>POST\<close>), its endpoints, non-negative expiries and bodies that are absent or the
  \<open>JSON.stringify\<close> text of an object or array order get the same signature only if
  verb, endpoint, expiry and body all agree.
\<close>

lemma ENDPOINTS_inj: "ENDPOINTS a = ENDPOINTS b \<Longrightarrow> a = b"
  by (cases a; cases b) simp_all

lemma service_path_ok: "path_ok (''/api/v1'' @ ENDPOINTS ep)"
  by (cases ep) (simp_all add: path_ok_def is_digit_def)

lemma service_body_ok:
  "d = None \<or> (\<exists>ord. is_object_payload ord \<and> d = json_stringify ord) \<Longrightarrow>
   body_ok (case d of None \<Rightarrow> [] | Some x \<Rightarrow> x) \<and> (d = None \<longleftrightarrow> (case d of None \<Rightarrow> [] | Some x \<Rightarrow> x) = [])"
proof (elim disjE exE conjE)
  assume "d = None"
  then show ?thesis by (simp add: body_ok_def)
next
  fix ord assume "is_object_payload ord" and "d = json_stringify ord"
  then show ?thesis by (cases ord) (simp_all add: is_object_payload_def body_ok_def)
qed

theorem service_signature_unambiguous:
  assumes verbs: "m1 \<in> {''GET'', ''POST''}" "m2 \<in> {''GET'', ''POST''}" and exp: "0 \<le> e1" "0 \<le> e2"
    and bodies: "d1 = None \<or> (\<exists>ord. is_object_payload ord \<and> d1 = json_stringify ord)"
      "d2 = None \<or> (\<exists>ord. is_object_payload ord \<and> d2 = json_stringify ord)"
    and mac: "\<forall>k. inj (hmac k)"
    and sig: "BitMEXService_generateSignature hmac svc m1 (ENDPOINTS ep1) e1 d1 = Inr sg"
      "BitMEXService_generateSignature hmac svc m2 (ENDPOINTS ep2) e2 d2 = Inr sg"
  shows "m1 = m2 \<and> ep1 = ep2 \<and> e1 = e2 \<and> d1 = d2"
proof -
  let ?b1 = "case d1 of None \<Rightarrow> [] | Some x \<Rightarrow> x" and ?b2 = "case d2 of None \<Rightarrow> [] | Some x \<Rightarrow> x"
  let ?p1 = "''/api/v1'' @ ENDPOINTS ep1" and ?p2 = "''/api/v1'' @ ENDPOINTS ep2"
  obtain s where s: "apiSecret svc = Some s"
    using sig(1) by (cases "apiSecret svc") (simp_all add: BitMEXService_generateSignature_def Let_def)
  from sig s have "hex_encode (hmac (js_trim s) (m1 @ ?p1 @ js_int_str e1 @ ?b1)) =
                   hex_encode (hmac (js_trim s) (m2 @ ?p2 @ js_int_str e2 @ ?b2))"
    by (simp add: BitMEXService_generateSignature_def Let_def)
  then have eq: "m1 @ ?p1 @ js_int_str e1 @ ?b1 = m2 @ ?p2 @ js_int_str e2 @ ?b2"
    using mac by (auto dest: hex_encode_inj simp: inj_eq)
  have v: "verb_ok m1" "verb_ok m2" using verbs by (auto simp: verb_ok_def)
  have b1: "body_ok ?b1" and n1: "d1 = None \<longleftrightarrow> ?b1 = []" using service_body_ok [OF bodies(1)] by blast+
  have b2: "body_ok ?b2" and n2: "d2 = None \<longleftrightarrow> ?b2 = []" using service_body_ok [OF bodies(2)] by blast+
  from payload_verb_split [OF v service_path_ok service_path_ok eq]
  have m: "m1 = m2" and r: "?p1 @ js_int_str e1 @ ?b1 = ?p2 @ js_int_str e2 @ ?b2" by blast+
  from payload_body_split [OF service_path_ok service_path_ok exp b1 b2 r]
  have pe: "?p1 @ js_int_str e1 = ?p2 @ js_int_str e2" and b: "?b1 = ?b2" by blast+
  from payload_expires_split [OF service_path_ok service_path_ok exp pe]
  have pth: "ENDPOINTS ep1 = ENDPOINTS ep2" and e: "e1 = e2" by simp_all
  from pth have ep: "ep1 = ep2" by (rule ENDPOINTS_inj)
  have "d1 = d2"
    using b n1 n2 by (cases d1; cases d2) simp_all
  with m ep e show ?thesis by simp
qed

theorem service_signature_unambiguous_witness:
  "''GET'' \<in> {''GET'', ''POST''} \<and> (0::int) \<le> 1700000000 \<and> (None :: string option) = None \<and>
   (\<forall>k. inj (echo_mac k)) \<and>
   BitMEXService_generateSignature echo_mac demo_service ''GET'' (ENDPOINTS POSITION) 1700000000 None =
     Inr (projr (BitMEXService_generateSignature echo_mac demo_service ''GET'' (ENDPOINTS POSITION) 1700000000 None)) \<and>
   (''GET'' = ''GET'' \<and> POSITION = POSITION \<and> (1700000000::int) = 1700000000 \<and> (None :: string option) = None)"
proof -
  have s: "BitMEXService_generateSignature echo_mac demo_service ''GET'' (ENDPOINTS POSITION) 1700000000 None =
     Inr (projr (BitMEXService_generateSignature echo_mac demo_service ''GET'' (ENDPOINTS POSITION) 1700000000 None))"
    by (simp add: BitMEXService_generateSignature_def demo_service_def Let_def)
  have "''GET'' \<in> {''GET'', ''POST''}" "(0::int) \<le> 1700000000" by simp_all
  note u = service_signature_unambiguous [OF this(1) this(1) this(2) this(2) _ _ echo_mac_inj_all s s]
  show ?thesis using u echo_mac_inj s by simp
qed

subsection \<open>The signature with Node's HMAC-SHA256\<close>

lemma sha256_fun_eq_ref: "sha256 = sha256_ref"
  by (rule ext) (rule sha256_eq_ref)

text \<open>
  C9: with Node's \<open>crypto.createHmac(''sha256'', secret)\<close> as the MAC, the headers
  \<open>generateHeaders\<close> returns meet the specification's invariant (section 2): the
  \<open>api-signature\<close> is the hex-encoded RFC 2104 HMAC, over SHA-256 in the reference
  formulation of FIPS 180-4, keyed by the UTF-8 bytes of the secret, of the UTF-8
  bytes of \<open>verb ++ path ++ expiresAt ++ body\<close>, where \<open>expiresAt\<close> is the decimal
  number the \<open>api-expires\<close> header carries.
\<close>

theorem generateHeaders_signature_is_hmac_sha256:
  "\<exists>e. map_of (generateHeaders node_hmac_sha256 now k s v p d) ''api-expires'' = Some (js_int_str e) \<and>
       map_of (generateHeaders node_hmac_sha256 now k s v p d) ''api-signature'' =
         Some (hex_encode (hmac_rfc2104 sha256_ref (utf8_encode s) (utf8_encode (v @ p @ js_int_str e @ d))))"
  using generateHeaders_lookup(1,2) [of node_hmac_sha256 now k s v p d]
  by (simp add: AuthUtils_generateSignature_def signature_payload_def node_hmac_sha256_def sha256_fun_eq_ref)
     blast



end
